theory Spec2Isabelle
  imports Complex_Main "HOL-Library.AList"
begin

section \<open>Python values, strings and exceptions\<close>

text \<open>
  A Python \<open>str\<close> is a sequence of Unicode code points, and \<open>len\<close> and slicing count
  code points. Strings are therefore lists of code points (natural numbers); \<open>py\<close> turns
  an ASCII literal into such a list.
\<close>

type_synonym pystr = "nat list"

definition py :: "string \<Rightarrow> pystr" where
  "py s = map of_char s"

text \<open>
  The values that flow through the dictionaries of the program: what \<open>json.loads\<close>
  produces and what the mail API returns. Dictionary keys are always strings here.
  A float is represented by the rational number it denotes (non-finite floats are not
  represented).
\<close>

datatype pyval =
    PNone
  | PBool bool
  | PInt int
  | PFloat rat
  | PStr pystr
  | PList "pyval list"
  | PDict "(pystr \<times> pyval) list"

type_synonym pydict = "(pystr \<times> pyval) list"

text \<open>
  Exceptions are values. Every constructor is a subclass of Python's \<open>Exception\<close>, so
  \<open>except Exception\<close> catches all of them, while \<open>except SlackApiError\<close> catches
  only the one constructor. A \<open>SlackApiError\<close> carries the response of the channel's
  API (\<open>e.response\<close>).
\<close>

datatype exc =
    KeyError pystr
  | TypeError
  | AttributeError
  | ValueError pystr
  | JSONDecodeError
  | SlackApiError pyval
  | HTTPException nat pystr
  | OtherException pystr

text \<open>A call into the outside world reads and changes the world \<open>'w\<close> and may raise.\<close>

type_synonym ('a, 'w) io = "'w \<Rightarrow> (exc + 'a) \<times> 'w"

definition and_then :: "exc + 'a \<Rightarrow> ('a \<Rightarrow> exc + 'b) \<Rightarrow> exc + 'b" where
  \<comment> \<open>sequencing of two steps: an exception of the first step ends the sequence\<close>
  "and_then r f = (case r of Inl e \<Rightarrow> Inl e | Inr x \<Rightarrow> f x)"

subsection \<open>Dictionary operations\<close>

definition dict_get :: "pydict \<Rightarrow> pystr \<Rightarrow> pyval \<Rightarrow> pyval" where
  \<comment> \<open>\<open>d.get(k, default)\<close>\<close>
  "dict_get d k dflt = (case map_of d k of None \<Rightarrow> dflt | Some v \<Rightarrow> v)"

definition getitem :: "pydict \<Rightarrow> pystr \<Rightarrow> exc + pyval" where
  \<comment> \<open>\<open>d[k]\<close>\<close>
  "getitem d k = (case map_of d k of None \<Rightarrow> Inl (KeyError k) | Some v \<Rightarrow> Inr v)"

definition setitem :: "pydict \<Rightarrow> pystr \<Rightarrow> pyval \<Rightarrow> pydict" where
  \<comment> \<open>\<open>d[k] = v\<close>: replaces in place, or appends a new key\<close>
  "setitem d k v = AList.update k v d"

definition setdefault :: "pydict \<Rightarrow> pystr \<Rightarrow> pyval \<Rightarrow> pydict" where
  \<comment> \<open>\<open>d.setdefault(k, v)\<close>\<close>
  "setdefault d k v = (case map_of d k of None \<Rightarrow> d @ [(k, v)] | Some _ \<Rightarrow> d)"

definition subscript :: "pyval \<Rightarrow> pystr \<Rightarrow> exc + pyval" where
  \<comment> \<open>\<open>v[k]\<close> with a string key \<open>k\<close>, on any value: only a dictionary can be indexed
      by a string\<close>
  "subscript v k = (case v of PDict d \<Rightarrow> getitem d k | _ \<Rightarrow> Inl TypeError)"

subsection \<open>String operations\<close>

definition py_isspace :: "nat \<Rightarrow> bool" where
  \<comment> \<open>the code points that \<open>str.strip()\<close> removes\<close>
  "py_isspace c \<longleftrightarrow>
     (9 \<le> c \<and> c \<le> 13) \<or> (28 \<le> c \<and> c \<le> 32) \<or> c = 133 \<or> c = 160 \<or> c = 5760 \<or>
     (8192 \<le> c \<and> c \<le> 8202) \<or> c = 8232 \<or> c = 8233 \<or> c = 8239 \<or> c = 8287 \<or> c = 12288"

definition strip :: "pystr \<Rightarrow> pystr" where
  "strip s = rev (dropWhile py_isspace (rev (dropWhile py_isspace s)))"

definition py_find :: "pystr \<Rightarrow> nat \<Rightarrow> int" where
  \<comment> \<open>\<open>s.find(c)\<close> for a one-character \<open>c\<close>: the first index, or -1\<close>
  "py_find s c = (if c \<in> set s then int (length (takeWhile (\<lambda>x. x \<noteq> c) s)) else - 1)"

definition py_rfind :: "pystr \<Rightarrow> nat \<Rightarrow> int" where
  \<comment> \<open>\<open>s.rfind(c)\<close>: the last index, or -1\<close>
  "py_rfind s c =
     (if c \<in> set s then int (length s) - 1 - int (length (takeWhile (\<lambda>x. x \<noteq> c) (rev s)))
      else - 1)"

definition slice_index :: "nat \<Rightarrow> int \<Rightarrow> nat" where
  \<comment> \<open>how a slice bound is clamped: negative bounds count from the end\<close>
  "slice_index n i = (if i < 0 then nat (max 0 (int n + i)) else min (nat i) n)"

definition slice :: "'a list \<Rightarrow> int \<Rightarrow> int \<Rightarrow> 'a list" where
  \<comment> \<open>\<open>s[a:b]\<close>\<close>
  "slice s a b =
     (let lo = slice_index (length s) a; hi = slice_index (length s) b
      in take (hi - lo) (drop lo s))"

fun str_nat :: "nat \<Rightarrow> pystr" where
  \<comment> \<open>the decimal digits of a natural number\<close>
  "str_nat n = (if n < 10 then [48 + n] else str_nat (n div 10) @ [48 + n mod 10])"

declare str_nat.simps [simp del]

definition str_int :: "int \<Rightarrow> pystr" where
  "str_int i = (if i < 0 then 45 # str_nat (nat (- i)) else str_nat (nat i))"

fun py_str :: "(pyval \<Rightarrow> pystr) \<Rightarrow> pyval \<Rightarrow> pystr" where
  \<comment> \<open>\<open>str(v)\<close>, as an f-string applies it: a string is itself; the text of a float,
      a list or a dictionary is given by the parameter \<open>R\<close> (Python's \<open>repr\<close>)\<close>
  "py_str R (PStr s) = s"
| "py_str R PNone = py ''None''"
| "py_str R (PBool b) = (if b then py ''True'' else py ''False'')"
| "py_str R (PInt i) = str_int i"
| "py_str R v = R v"

fun join :: "pystr \<Rightarrow> pystr list \<Rightarrow> pystr" where
  \<comment> \<open>\<open>sep.join(xs)\<close>\<close>
  "join sep [] = []"
| "join sep [x] = x"
| "join sep (x # y # ys) = x @ sep @ join sep (y # ys)"

subsection \<open>Operations on any value\<close>

definition py_truthy :: "pyval \<Rightarrow> bool" where
  \<comment> \<open>the truth value of \<open>v\<close> in \<open>if v:\<close>\<close>
  "py_truthy v =
     (case v of
        PNone \<Rightarrow> False
      | PBool b \<Rightarrow> b
      | PInt i \<Rightarrow> i \<noteq> 0
      | PFloat q \<Rightarrow> q \<noteq> 0
      | PStr s \<Rightarrow> s \<noteq> []
      | PList xs \<Rightarrow> xs \<noteq> []
      | PDict d \<Rightarrow> d \<noteq> [])"

definition py_iter :: "pyval \<Rightarrow> exc + pyval list" where
  \<comment> \<open>the elements that \<open>for x in v\<close> visits: those of a list, the keys of a
      dictionary, the characters of a string; nothing else here is iterable\<close>
  "py_iter v =
     (case v of
        PList xs \<Rightarrow> Inr xs
      | PDict d \<Rightarrow> Inr (map (\<lambda>kv. PStr (fst kv)) d)
      | PStr s \<Rightarrow> Inr (map (\<lambda>c. PStr [c]) s)
      | _ \<Rightarrow> Inl TypeError)"

definition slice_to :: "pyval \<Rightarrow> int \<Rightarrow> exc + pyval" where
  \<comment> \<open>\<open>v[:n]\<close>: strings and lists can be sliced\<close>
  "slice_to v n =
     (case v of
        PStr s \<Rightarrow> Inr (PStr (slice s 0 n))
      | PList xs \<Rightarrow> Inr (PList (slice xs 0 n))
      | _ \<Rightarrow> Inl TypeError)"

definition py_len :: "pyval \<Rightarrow> nat" where
  \<comment> \<open>the length of a string or a list (0 for the values that have none)\<close>
  "py_len v = (case v of PStr s \<Rightarrow> length s | PList xs \<Rightarrow> length xs | PDict d \<Rightarrow> length d | _ \<Rightarrow> 0)"

subsection \<open>Dictionaries that count\<close>

text \<open>
  The counting dictionaries are keyed by values taken from an analysis. A list or a
  dictionary is not hashable and cannot be a key (\<open>TypeError\<close>); numbers that are equal
  are one key, whatever their type (\<open>True == 1 == 1.0\<close>); the key that was inserted
  first stays.
\<close>

definition hashable :: "pyval \<Rightarrow> bool" where
  "hashable v = (case v of PList xs \<Rightarrow> False | PDict d \<Rightarrow> False | _ \<Rightarrow> True)"

definition num_of :: "pyval \<Rightarrow> rat option" where
  "num_of v =
     (case v of
        PBool b \<Rightarrow> Some (if b then 1 else 0)
      | PInt i \<Rightarrow> Some (of_int i)
      | PFloat q \<Rightarrow> Some q
      | _ \<Rightarrow> None)"

definition key_eq :: "pyval \<Rightarrow> pyval \<Rightarrow> bool" where
  "key_eq a b =
     (case (num_of a, num_of b) of
        (Some x, Some y) \<Rightarrow> x = y
      | (None, None) \<Rightarrow> a = b
      | _ \<Rightarrow> False)"

type_synonym counts = "(pyval \<times> nat) list"

fun counts_get :: "counts \<Rightarrow> pyval \<Rightarrow> nat \<Rightarrow> nat" where
  \<comment> \<open>\<open>counts.get(k, default)\<close>\<close>
  "counts_get [] k dflt = dflt"
| "counts_get ((k', n) # cs) k dflt = (if key_eq k' k then n else counts_get cs k dflt)"

fun counts_set :: "counts \<Rightarrow> pyval \<Rightarrow> nat \<Rightarrow> counts" where
  \<comment> \<open>\<open>counts[k] = n\<close>\<close>
  "counts_set [] k n = [(k, n)]"
| "counts_set ((k', m) # cs) k n =
     (if key_eq k' k then (k', n) # cs else (k', m) # counts_set cs k n)"

subsection \<open>Floats\<close>

text \<open>
  A Python float is an IEEE 754 double. A finite double is represented by the rational
  number it denotes, and each operation rounds its exact result to the nearest double,
  ties to the even significand. The values that occur here are percentages and their
  quotients, far from the overflow and the subnormal range, which are not modelled.
\<close>

fun bit_length :: "nat \<Rightarrow> nat" where
  \<comment> \<open>the number of binary digits of \<open>n\<close>\<close>
  "bit_length n = (if n = 0 then 0 else Suc (bit_length (n div 2)))"

declare bit_length.simps [simp del]

definition pow2 :: "int \<Rightarrow> rat" where
  "pow2 k = (if 0 \<le> k then 2 ^ nat k else 1 / 2 ^ nat (- k))"

definition floor_log2 :: "rat \<Rightarrow> int" where
  \<comment> \<open>for \<open>x > 0\<close>, the \<open>e\<close> with \<open>2^e \<le> x < 2^(e+1)\<close>\<close>
  "floor_log2 x =
     (if 1 \<le> x then int (bit_length (nat \<lfloor>x\<rfloor>)) - 1
      else - int (bit_length (nat (\<lceil>1 / x\<rceil> - 1))))"

definition round_half_even :: "rat \<Rightarrow> int" where
  "round_half_even x =
     (let f = \<lfloor>x\<rfloor>; d = x - of_int f
      in if d < 1 / 2 then f else if 1 / 2 < d then f + 1 else if even f then f else f + 1)"

definition to_double :: "rat \<Rightarrow> rat" where
  \<comment> \<open>the double nearest to \<open>x\<close>: 53 significant binary digits\<close>
  "to_double x =
     (if x = 0 then 0
      else (let ulp = pow2 (floor_log2 \<bar>x\<bar> - 52)
            in of_int (round_half_even (x / ulp)) * ulp))"

definition true_div :: "nat \<Rightarrow> nat \<Rightarrow> rat" where
  \<comment> \<open>\<open>a / b\<close> on integers, \<open>b\<close> not zero: the quotient, correctly rounded\<close>
  "true_div a b = to_double (of_nat a / of_nat b)"

definition float_mul :: "rat \<Rightarrow> rat \<Rightarrow> rat" where
  \<comment> \<open>\<open>x * y\<close> on floats\<close>
  "float_mul x y = to_double (x * y)"

definition round_1 :: "rat \<Rightarrow> rat" where
  \<comment> \<open>\<open>round(x, 1)\<close>: the double nearest to the one-decimal number nearest to \<open>x\<close>\<close>
  "round_1 x = to_double (of_int (round_half_even (x * 10)) / 10)"

section \<open>The service handles\<close>

text \<open>
  Both modules keep their collaborators in module-level variables that are \<open>None\<close> when
  the collaborator is not configured. They are gathered in one record, together with the
  library functions the code calls and that are taken as given: \<open>json.loads\<close>,
  \<open>json.dumps\<close> (applied to counting dictionaries only), \<open>repr\<close>, the text of an
  exception, the lookup \<open>response[key]\<close> in the response object of the channel's API
  (which gives a value or raises) and the clock.
\<close>

record 'w gmail =
  messages_list :: "pyval \<Rightarrow> (pyval, 'w) io"
  messages_get :: "pyval \<Rightarrow> (pyval, 'w) io"

record 'w env =
  gmail_service :: "'w gmail option"
  notion :: "(pyval \<Rightarrow> (unit, 'w) io) option"
  slack_client :: "(pyval \<Rightarrow> (unit, 'w) io) option"
  cerebras_llm :: "(pystr \<Rightarrow> (pyval, 'w) io) option"
  NOTION_DB_ID :: pyval
  SLACK_CHANNEL :: pyval
  json_loads :: "pystr \<Rightarrow> exc + pyval"
  json_dumps :: "counts \<Rightarrow> exc + pystr"
  py_repr :: "pyval \<Rightarrow> pystr"
  exc_str :: "exc \<Rightarrow> pystr"
  response_item :: "pyval \<Rightarrow> pystr \<Rightarrow> exc + pyval"
  now_isoformat :: "'w \<Rightarrow> pystr"
  now_strftime :: "'w \<Rightarrow> pystr \<Rightarrow> pystr"

definition MAINTENANCE_CATEGORIES :: "pyval list" where
  "MAINTENANCE_CATEGORIES =
     [PStr (py ''Electrical''), PStr (py ''Plumbing''), PStr (py ''IT Support''),
      PStr (py ''HVAC''), PStr (py ''General Inquiry'')]"

section \<open>Classification\<close>

subsection \<open>The prompts\<close>

definition gmail_prompt :: "(pyval \<Rightarrow> pystr) \<Rightarrow> pydict \<Rightarrow> exc + pystr" where
  \<open>gmail_prompt R issue =
     and_then (getitem issue (py ''subject'')) (\<lambda>subject.
     and_then (getitem issue (py ''sender'')) (\<lambda>sender.
     and_then (getitem issue (py ''date'')) (\<lambda>date.
     and_then (getitem issue (py ''snippet'')) (\<lambda>snippet.
      Inr (py (
    ''You are an AI Maintenance Supervisor analyzing facility maintenance requests.\<newline>'' @
    ''\<newline>'' @
    ''MAINTENANCE REQUEST:\<newline>'' @
    ''Subject: '') @ py_str R subject @ py (
    ''\<newline>'' @
    ''From: '') @ py_str R sender @ py (
    ''\<newline>'' @
    ''Date: '') @ py_str R date @ py (
    ''\<newline>'' @
    ''Content: '') @ py_str R snippet @ py (
    ''\<newline>'' @
    ''\<newline>'' @
    ''TASK: Analyze this maintenance issue and provide a structured response in JSON format.\<newline>'' @
    ''\<newline>'' @
    ''CATEGORIES (choose ONE):\<newline>'' @
    ''- Electrical: Power outages, wiring issues, lighting problems, circuit breakers, electrical safety\<newline>'' @
    ''- Plumbing: Leaks, clogs, water pressure, pipes, drains, toilets, faucets, water heaters\<newline>'' @
    ''- IT Support: Computers, network issues, software problems, printers, access cards, security systems\<newline>'' @
    ''- HVAC: Heating, cooling, air conditioning, ventilation, temperature control, air quality\<newline>'' @
    ''- General Inquiry: Questions, requests that don't fit above, or multi-category issues\<newline>'' @
    ''\<newline>'' @
    ''OUTPUT FORMAT (must be valid JSON):\<newline>'' @
    ''{\<newline>'' @
    ''    "category": "<one of the 5 categories above>",\<newline>'' @
    ''    "summary": "<2-3 sentence summary of the issue>",\<newline>'' @
    ''    "priority": "<High/Medium/Low>",\<newline>'' @
    ''    "root_cause": "<likely root cause analysis in 1-2 sentences>",\<newline>'' @
    ''    "action_items": ["<specific action 1>", "<specific action 2>", "..."]\<newline>'' @
    ''}\<newline>'' @
    ''\<newline>'' @
    ''PRIORITY GUIDELINES:\<newline>'' @
    ''- High: Safety hazards, complete system failures, affecting multiple people\<newline>'' @
    ''- Medium: Partial failures, inconvenience, single person affected\<newline>'' @
    ''- Low: Minor issues, cosmetic problems, non-urgent requests\<newline>'' @
    ''\<newline>'' @
    ''Respond ONLY with the JSON object, no additional text.''))))))\<close>

definition backend_prompt :: "(pyval \<Rightarrow> pystr) \<Rightarrow> pydict \<Rightarrow> exc + pystr" where
  \<open>backend_prompt R issue =
     and_then (getitem issue (py ''subject'')) (\<lambda>subject.
     and_then (getitem issue (py ''sender'')) (\<lambda>sender.
     and_then (getitem issue (py ''date'')) (\<lambda>date.
     and_then (getitem issue (py ''snippet'')) (\<lambda>snippet.
      Inr (py (
    ''You are an AI Maintenance Supervisor analyzing facility maintenance requests.\<newline>'' @
    ''\<newline>'' @
    ''MAINTENANCE REQUEST:\<newline>'' @
    ''Subject: '') @ py_str R subject @ py (
    ''\<newline>'' @
    ''From: '') @ py_str R sender @ py (
    ''\<newline>'' @
    ''Date: '') @ py_str R date @ py (
    ''\<newline>'' @
    ''Content: '') @ py_str R snippet @ py (
    ''\<newline>'' @
    ''\<newline>'' @
    ''TASK: Analyze this maintenance issue and provide a structured response in JSON format.\<newline>'' @
    ''\<newline>'' @
    ''CATEGORIES (choose ONE):\<newline>'' @
    ''- Electrical: Power outages, wiring issues, lighting problems, circuit breakers\<newline>'' @
    ''- Plumbing: Leaks, clogs, water pressure, pipes, drains, toilets, faucets\<newline>'' @
    ''- IT Support: Computers, network issues, software problems, printers, access cards\<newline>'' @
    ''- HVAC: Heating, cooling, air conditioning, ventilation, temperature control\<newline>'' @
    ''- General Inquiry: Questions, requests that don't fit above\<newline>'' @
    ''\<newline>'' @
    ''OUTPUT FORMAT (must be valid JSON):\<newline>'' @
    ''{\<newline>'' @
    ''    "category": "<one of the 5 categories above>",\<newline>'' @
    ''    "summary": "<2-3 sentence summary>",\<newline>'' @
    ''    "priority": "<High/Medium/Low>",\<newline>'' @
    ''    "root_cause": "<likely root cause in 1-2 sentences>",\<newline>'' @
    ''    "action_items": ["<action 1>", "<action 2>"]\<newline>'' @
    ''}\<newline>'' @
    ''\<newline>'' @
    ''Respond ONLY with the JSON object.''))))))\<close>

subsection \<open>From the completion to a JSON value\<close>

definition extract_json :: "(pystr \<Rightarrow> exc + pyval) \<Rightarrow> pystr \<Rightarrow> pyval \<Rightarrow> exc + pyval" where
  \<comment> \<open>\<open>response.content.strip()\<close>, the search for the first \<open>{\<close> and the last \<open>}\<close>,
      and \<open>json.loads\<close> of the text between them; \<open>msg\<close> is the text of the
      \<open>ValueError\<close> raised when there is no such pair. Only a string has \<open>strip\<close>.\<close>
  "extract_json loads msg content =
     (case content of
        PStr raw \<Rightarrow>
          (let response_text = strip raw;
               json_start = py_find response_text 123;
               json_end = py_rfind response_text 125 + 1
           in if json_start \<noteq> - 1 \<and> json_end > json_start
              then loads (slice response_text json_start json_end)
              else Inl (ValueError msg))
      | _ \<Rightarrow> Inl AttributeError)"

definition request_analysis ::
  "'w env \<Rightarrow> (pystr \<Rightarrow> (pyval, 'w) io) \<Rightarrow> exc + pystr \<Rightarrow> pystr \<Rightarrow> (pyval, 'w) io" where
  \<comment> \<open>the first half of the \<open>try\<close> block: the prompt is built (a missing field of the
      issue raises), the model is invoked, and the completion is parsed\<close>
  "request_analysis env invoke prompt msg w =
     (case prompt of
        Inl e \<Rightarrow> (Inl e, w)
      | Inr p \<Rightarrow>
          (case invoke p w of
             (Inl e, w') \<Rightarrow> (Inl e, w')
           | (Inr content, w') \<Rightarrow> (extract_json (json_loads env) msg content, w')))"

subsection \<open>\<open>classify_maintenance_issue\<close> of gmail.py\<close>

definition validate_category :: "pydict \<Rightarrow> pydict" where
  \<comment> \<open>\<open>if analysis.get("category") not in MAINTENANCE_CATEGORIES: ...\<close>\<close>
  "validate_category analysis =
     (if dict_get analysis (py ''category'') PNone \<notin> set MAINTENANCE_CATEGORIES
      then setitem analysis (py ''category'') (PStr (py ''General Inquiry''))
      else analysis)"

definition gmail_ensure_fields :: "pydict \<Rightarrow> pydict \<Rightarrow> pydict" where
  \<comment> \<open>the four \<open>setdefault\<close> calls\<close>
  "gmail_ensure_fields issue analysis =
     (let a1 = setdefault analysis (py ''summary'')
                 (dict_get issue (py ''snippet'') (PStr (py ''No summary'')));
          a2 = setdefault a1 (py ''priority'') (PStr (py ''Medium''));
          a3 = setdefault a2 (py ''root_cause'') (PStr (py ''To be determined''));
          a4 = setdefault a3 (py ''action_items'') (PList [PStr (py ''Review and assess'')])
      in a4)"

definition gmail_fallback_unconfigured :: "pydict \<Rightarrow> pydict" where
  "gmail_fallback_unconfigured issue =
     [(py ''category'', PStr (py ''General Inquiry'')),
      (py ''summary'', dict_get issue (py ''snippet'') (PStr (py ''No summary available''))),
      (py ''priority'', PStr (py ''Medium'')),
      (py ''root_cause'', PStr (py ''Unable to determine (AI not configured)'')),
      (py ''action_items'', PList [PStr (py ''Manual review required'')])]"

definition gmail_fallback_failed :: "pydict \<Rightarrow> pydict" where
  "gmail_fallback_failed issue =
     [(py ''category'', PStr (py ''General Inquiry'')),
      (py ''summary'', dict_get issue (py ''snippet'') (PStr (py ''No summary available''))),
      (py ''priority'', PStr (py ''Medium'')),
      (py ''root_cause'', PStr (py ''Classification failed - manual review needed'')),
      (py ''action_items'',
         PList [PStr (py ''Manual classification required''), PStr (py ''Review email content'')])]"

definition gmail_classify_maintenance_issue :: "'w env \<Rightarrow> pydict \<Rightarrow> (pydict, 'w) io" where
  "gmail_classify_maintenance_issue env issue w =
     (case cerebras_llm env of
        None \<Rightarrow> (Inr (gmail_fallback_unconfigured issue), w)
      | Some invoke \<Rightarrow>
          (case request_analysis env invoke (gmail_prompt (py_repr env) issue)
                  (py ''No valid JSON found in response'') w of
             (Inr (PDict analysis), w') \<Rightarrow>
               (Inr (gmail_ensure_fields issue (validate_category analysis)), w')
           | (Inr _, w') \<Rightarrow>
               \<comment> \<open>\<open>analysis.get\<close> on a value that is no dictionary: \<open>AttributeError\<close>,
                   caught by \<open>except Exception\<close>\<close>
               (Inr (gmail_fallback_failed issue), w')
           | (Inl e, w') \<Rightarrow>
               \<comment> \<open>\<open>except Exception\<close>\<close>
               (Inr (gmail_fallback_failed issue), w')))"

subsection \<open>\<open>classify_maintenance_issue\<close> of backend.py\<close>

definition backend_fallback_unconfigured :: "pydict \<Rightarrow> pydict" where
  "backend_fallback_unconfigured issue =
     [(py ''category'', PStr (py ''General Inquiry'')),
      (py ''summary'', dict_get issue (py ''snippet'') (PStr (py ''No summary available''))),
      (py ''priority'', PStr (py ''Medium'')),
      (py ''root_cause'', PStr (py ''AI not configured - manual review needed'')),
      (py ''action_items'', PList [PStr (py ''Manual classification required'')])]"

definition backend_fallback_failed :: "pydict \<Rightarrow> pydict" where
  "backend_fallback_failed issue =
     [(py ''category'', PStr (py ''General Inquiry'')),
      (py ''summary'', dict_get issue (py ''snippet'') (PStr (py ''No summary''))),
      (py ''priority'', PStr (py ''Medium'')),
      (py ''root_cause'', PStr (py ''Classification failed'')),
      (py ''action_items'', PList [PStr (py ''Manual review required'')])]"

definition backend_classify_maintenance_issue :: "'w env \<Rightarrow> pydict \<Rightarrow> (pydict, 'w) io" where
  "backend_classify_maintenance_issue env issue w =
     (case cerebras_llm env of
        None \<Rightarrow> (Inr (backend_fallback_unconfigured issue), w)
      | Some invoke \<Rightarrow>
          (case request_analysis env invoke (backend_prompt (py_repr env) issue)
                  (py ''Invalid JSON response'') w of
             (Inr (PDict analysis), w') \<Rightarrow> (Inr (validate_category analysis), w')
           | (Inr _, w') \<Rightarrow> (Inr (backend_fallback_failed issue), w')
           | (Inl e, w') \<Rightarrow> (Inr (backend_fallback_failed issue), w')))"

subsection \<open>Degraded model behaviour\<close>

text \<open>
  The completions from which no analysis can be read: a text without a \<open>{\<close> that is
  followed, somewhere later, by a \<open>}\<close>; a text whose part between the first \<open>{\<close> and
  the last \<open>}\<close> \<open>json.loads\<close> rejects; a content that is no text at all.
\<close>

definition has_brace_pair :: "pystr \<Rightarrow> bool" where
  "has_brace_pair t \<longleftrightarrow> (\<exists>j<length t. t ! j = 125 \<and> (\<exists>i<j. t ! i = 123))"

definition unusable_completion :: "(pystr \<Rightarrow> exc + pyval) \<Rightarrow> pyval \<Rightarrow> bool" where
  "unusable_completion loads content \<longleftrightarrow>
     (case content of
        PStr raw \<Rightarrow>
          (let t = strip raw
           in \<not> has_brace_pair t \<or> isl (loads (slice t (py_find t 123) (py_rfind t 125 + 1))))
      | _ \<Rightarrow> True)"

text \<open>
  The model is degraded for a call when it is not configured, when the call raises, or
  when its completion is unusable. (An issue from which the prompt cannot be built, for
  want of a field, is counted too: the model is never reached.)
\<close>

definition degraded :: "'w env \<Rightarrow> exc + pystr \<Rightarrow> 'w \<Rightarrow> bool" where
  "degraded env prompt w \<longleftrightarrow>
     (case cerebras_llm env of
        None \<Rightarrow> True
      | Some invoke \<Rightarrow>
          (case prompt of
             Inl e \<Rightarrow> True
           | Inr p \<Rightarrow>
               (case invoke p w of
                  (Inl e, w') \<Rightarrow> True
                | (Inr content, w') \<Rightarrow> unusable_completion (json_loads env) content)))"

definition is_fallback :: "pydict \<Rightarrow> bool" where
  "is_fallback a \<longleftrightarrow>
     map_of a (py ''category'') = Some (PStr (py ''General Inquiry'')) \<and>
     map_of a (py ''priority'') = Some (PStr (py ''Medium'')) \<and>
     (\<exists>x xs. map_of a (py ''action_items'') = Some (PList (x # xs)))"

section \<open>Fetching the issues\<close>

fun next_header :: "pyval list \<Rightarrow> pystr \<Rightarrow> pyval \<Rightarrow> exc + pyval" where
  \<comment> \<open>\<open>next((h["value"] for h in headers if h["name"] == name), default)\<close>: the
      generator is consumed up to its first element only\<close>
  "next_header [] name dflt = Inr dflt"
| "next_header (h # hs) name dflt =
     (case subscript h (py ''name'') of
        Inl e \<Rightarrow> Inl e
      | Inr n \<Rightarrow>
          if n = PStr name then subscript h (py ''value'') else next_header hs name dflt)"

definition issue_of_message :: "pyval \<Rightarrow> pyval \<Rightarrow> exc + pydict" where
  \<comment> \<open>the body of the loop of \<open>fetch_gmail_issues\<close>, the same in both modules, after the
      message \<open>msg_data\<close> with the identifier \<open>msg_id\<close> has been retrieved\<close>
  "issue_of_message msg_id msg_data =
     and_then (subscript msg_data (py ''payload'')) (\<lambda>payload.
     and_then (subscript payload (py ''headers'')) (\<lambda>headers_value.
     and_then (py_iter headers_value) (\<lambda>headers.
     and_then (next_header headers (py ''Subject'') (PStr (py ''(No Subject)''))) (\<lambda>subject.
     and_then (next_header headers (py ''From'') (PStr (py ''(Unknown)''))) (\<lambda>sender.
     and_then (next_header headers (py ''Date'') (PStr [])) (\<lambda>date.
     (case msg_data of
        PDict m \<Rightarrow>
          Inr [(py ''id'', msg_id),
               (py ''subject'', subject),
               (py ''sender'', sender),
               (py ''date'', date),
               (py ''snippet'', dict_get m (py ''snippet'') (PStr []))]
      | _ \<Rightarrow> Inl AttributeError)))))))"

fun fetch_loop :: "'w gmail \<Rightarrow> pyval list \<Rightarrow> pydict list \<Rightarrow> (pydict list, 'w) io" where
  \<comment> \<open>\<open>for msg in ...\<close>: one retrieval per message, the issue appended to the list\<close>
  "fetch_loop g [] issue_list w = (Inr issue_list, w)"
| "fetch_loop g (msg # msgs) issue_list w =
     (case subscript msg (py ''id'') of
        Inl e \<Rightarrow> (Inl e, w)
      | Inr msg_id \<Rightarrow>
          (case messages_get g msg_id w of
             (Inl e, w') \<Rightarrow> (Inl e, w')
           | (Inr msg_data, w') \<Rightarrow>
               (case issue_of_message msg_id msg_data of
                  Inl e \<Rightarrow> (Inl e, w')
                | Inr issue \<Rightarrow> fetch_loop g msgs (issue_list @ [issue]) w')))"

definition fetch_messages :: "'w gmail \<Rightarrow> pyval \<Rightarrow> (pydict list, 'w) io" where
  \<comment> \<open>the listing call and the loop over \<open>messages.get("messages", [])\<close>\<close>
  "fetch_messages g max_results w =
     (case messages_list g max_results w of
        (Inl e, w') \<Rightarrow> (Inl e, w')
      | (Inr messages, w') \<Rightarrow>
          (case messages of
             PDict m \<Rightarrow>
               (case py_iter (dict_get m (py ''messages'') (PList [])) of
                  Inl e \<Rightarrow> (Inl e, w')
                | Inr msgs \<Rightarrow> fetch_loop g msgs [] w')
           | _ \<Rightarrow> (Inl AttributeError, w')))"

definition gmail_fetch_gmail_issues :: "'w env \<Rightarrow> (pydict list, 'w) io" where
  \<comment> \<open>gmail.py: ten messages, and no handler. The module does not load without a mail
      service; were the handle \<open>None\<close>, the first attribute access would raise.\<close>
  "gmail_fetch_gmail_issues env w =
     (case gmail_service env of
        None \<Rightarrow> (Inl AttributeError, w)
      | Some g \<Rightarrow> fetch_messages g (PInt 10) w)"

definition backend_fetch_gmail_issues :: "'w env \<Rightarrow> pyval \<Rightarrow> (pydict list, 'w) io" where
  \<comment> \<open>backend.py: status 503 without a mail service; any exception becomes status 500\<close>
  "backend_fetch_gmail_issues env max_results w =
     (case gmail_service env of
        None \<Rightarrow> (Inl (HTTPException 503 (py ''Gmail service not initialized'')), w)
      | Some g \<Rightarrow>
          (case fetch_messages g max_results w of
             (Inl e, w') \<Rightarrow>
               (Inl (HTTPException 500 (py ''Failed to fetch emails: '' @ exc_str env e)), w')
           | (Inr issue_list, w') \<Rightarrow> (Inr issue_list, w')))"

subsection \<open>Messages as the mail API documents them\<close>

text \<open>
  A message resource has a \<open>payload\<close> whose \<open>headers\<close> are a list of objects, each with a
  \<open>name\<close> and a \<open>value\<close>. Which headers occur, and whether there is a \<open>snippet\<close>, is
  left open.
\<close>

definition is_header :: "pyval \<Rightarrow> bool" where
  "is_header h \<longleftrightarrow>
     (case h of
        PDict d \<Rightarrow> map_of d (py ''name'') \<noteq> None \<and> map_of d (py ''value'') \<noteq> None
      | _ \<Rightarrow> False)"

definition headers_of :: "pyval \<Rightarrow> pyval list option" where
  "headers_of msg_data =
     (case msg_data of
        PDict m \<Rightarrow>
          (case map_of m (py ''payload'') of
             Some (PDict p) \<Rightarrow>
               (case map_of p (py ''headers'') of
                  Some (PList hs) \<Rightarrow> if list_all is_header hs then Some hs else None
                | _ \<Rightarrow> None)
           | _ \<Rightarrow> None)
      | _ \<Rightarrow> None)"

definition has_header :: "pyval list \<Rightarrow> pystr \<Rightarrow> bool" where
  "has_header hs name \<longleftrightarrow> list_ex (\<lambda>h. subscript h (py ''name'') = Inr (PStr name)) hs"

definition issue_keys :: "pystr list" where
  "issue_keys = [py ''id'', py ''subject'', py ''sender'', py ''date'', py ''snippet'']"

subsection \<open>What the mailbox gives\<close>

definition listed_messages :: "'w gmail \<Rightarrow> pyval \<Rightarrow> 'w \<Rightarrow> (pyval list \<times> 'w) option" where
  \<comment> \<open>the entries that the listing call of the mail service returns, and the world after
      the call\<close>
  "listed_messages g max_results w =
     (case messages_list g max_results w of
        (Inr (PDict m), w1) \<Rightarrow>
          (case py_iter (dict_get m (py ''messages'') (PList [])) of
             Inl e \<Rightarrow> None
           | Inr msgs \<Rightarrow> Some (msgs, w1))
      | _ \<Rightarrow> None)"

fun retrieved :: "'w gmail \<Rightarrow> pyval list \<Rightarrow> 'w \<Rightarrow> (pyval \<times> pyval) list" where
  \<comment> \<open>the identifier of each listed entry with the message that the mail service returns
      for it, the entries being retrieved one after the other (up to the first failure)\<close>
  "retrieved g [] w = []"
| "retrieved g (msg # msgs) w =
     (case subscript msg (py ''id'') of
        Inl e \<Rightarrow> []
      | Inr msg_id \<Rightarrow>
          (case messages_get g msg_id w of
             (Inl e, w') \<Rightarrow> []
           | (Inr msg_data, w') \<Rightarrow> (msg_id, msg_data) # retrieved g msgs w'))"

definition answers_well :: "'w gmail \<Rightarrow> bool" where
  \<comment> \<open>every retrieval succeeds, with a message of the documented shape\<close>
  "answers_well g \<longleftrightarrow>
     (\<forall>msg_id w. case messages_get g msg_id w of
                    (Inl e, w') \<Rightarrow> False
                  | (Inr msg_data, w') \<Rightarrow> headers_of msg_data \<noteq> None)"

definition has_id :: "pyval \<Rightarrow> bool" where
  "has_id msg \<longleftrightarrow> \<not> isl (subscript msg (py ''id''))"

section \<open>The ticket sink and the notification sink\<close>

abbreviation lit :: "string \<Rightarrow> pyval" where
  "lit s \<equiv> PStr (py s)"

subsection \<open>Glyphs\<close>

text \<open>
  The glyphs are written as their code points. backend.py holds each glyph as the
  several characters that its file contains, and they are kept as they are.
\<close>

definition gmail_bullet :: pystr where "gmail_bullet = [8226]"
definition backend_bullet :: pystr where "backend_bullet = [8218, 196, 162]"

definition gmail_category_emojis :: "(pystr \<times> pystr) list" where
  "gmail_category_emojis =
     [(py ''Electrical'', [9889]),
      (py ''Plumbing'', [128688]),
      (py ''IT Support'', [128187]),
      (py ''HVAC'', [127777, 65039]),
      (py ''General Inquiry'', [128203])]"

definition gmail_priority_emojis :: "(pystr \<times> pystr) list" where
  "gmail_priority_emojis =
     [(py ''High'', [128308]), (py ''Medium'', [128993]), (py ''Low'', [128994])]"

definition backend_category_emojis :: "(pystr \<times> pystr) list" where
  "backend_category_emojis =
     [(py ''Electrical'', [8218, 246, 176]),
      (py ''Plumbing'', [63743, 252, 246, 8734]),
      (py ''IT Support'', [63743, 252, 237, 170]),
      (py ''HVAC'', [63743, 252, 229, 176, 212, 8719, 232]),
      (py ''General Inquiry'', [63743, 252, 236, 227])]"

definition backend_priority_emojis :: "(pystr \<times> pystr) list" where
  "backend_priority_emojis =
     [(py ''High'', [63743, 252, 238, 165]),
      (py ''Medium'', [63743, 252, 252, 176]),
      (py ''Low'', [63743, 252, 252, 162])]"

definition emoji_of :: "(pystr \<times> pystr) list \<Rightarrow> pyval \<Rightarrow> pystr \<Rightarrow> pystr" where
  \<comment> \<open>\<open>emojis.get(v, default)\<close> for a hashable \<open>v\<close>: the keys are strings\<close>
  "emoji_of emojis v dflt =
     (case v of
        PStr s \<Rightarrow> (case map_of emojis s of None \<Rightarrow> dflt | Some e \<Rightarrow> e)
      | _ \<Rightarrow> dflt)"

definition emoji_get :: "(pystr \<times> pystr) list \<Rightarrow> pyval \<Rightarrow> pystr \<Rightarrow> exc + pystr" where
  \<comment> \<open>\<open>emojis.get(v, default)\<close> for any \<open>v\<close>: an unhashable one raises\<close>
  "emoji_get emojis v dflt =
     (if \<not> hashable v then Inl TypeError else Inr (emoji_of emojis v dflt))"

definition action_items_text :: "(pyval \<Rightarrow> pystr) \<Rightarrow> pystr \<Rightarrow> pydict \<Rightarrow> exc + pystr" where
  \<comment> \<open>\<open>"\n".join([f"<bullet> {item}" for item in analysis.get("action_items", [])])\<close>\<close>
  "action_items_text R bullet analysis =
     and_then (py_iter (dict_get analysis (py ''action_items'') (PList []))) (\<lambda>items.
       Inr (join [10] (map (\<lambda>item. bullet @ py '' '' @ py_str R item) items)))"

subsection \<open>The page written to the ticket store\<close>

definition heading_2 :: "pystr \<Rightarrow> pyval" where
  "heading_2 t =
     PDict [(py ''object'', lit ''block''),
            (py ''type'', lit ''heading_2''),
            (py ''heading_2'',
               PDict [(py ''rich_text'',
                  PList [PDict [(py ''type'', lit ''text''),
                                (py ''text'', PDict [(py ''content'', PStr t)])]])])]"

definition paragraph_block :: "pyval \<Rightarrow> pyval" where
  "paragraph_block c =
     PDict [(py ''object'', lit ''block''),
            (py ''type'', lit ''paragraph''),
            (py ''paragraph'',
               PDict [(py ''rich_text'',
                  PList [PDict [(py ''type'', lit ''text''),
                                (py ''text'', PDict [(py ''content'', c)])]])])]"

definition page_properties :: "pyval \<Rightarrow> pyval \<Rightarrow> pyval \<Rightarrow> pyval \<Rightarrow> pystr \<Rightarrow> pyval" where
  \<comment> \<open>the \<open>properties\<close> argument, the same in both modules\<close>
  "page_properties subject category priority sender now =
     PDict [(py ''Subject'',
               PDict [(py ''title'', PList [PDict [(py ''text'', PDict [(py ''content'', subject)])]])]),
            (py ''Category'', PDict [(py ''select'', PDict [(py ''name'', category)])]),
            (py ''Priority'', PDict [(py ''select'', PDict [(py ''name'', priority)])]),
            (py ''Sender'',
               PDict [(py ''rich_text'',
                  PList [PDict [(py ''text'', PDict [(py ''content'', sender)])]])]),
            (py ''Date'', PDict [(py ''date'', PDict [(py ''start'', PStr now)])]),
            (py ''Status'', PDict [(py ''select'', PDict [(py ''name'', lit ''Open'')])])]"

definition gmail_notion_page :: "'w env \<Rightarrow> 'w \<Rightarrow> pydict \<Rightarrow> pydict \<Rightarrow> exc + pyval" where
  \<comment> \<open>the arguments of \<open>notion.pages.create\<close> in gmail.py, evaluated in the order of
      the source; every lookup and every slice may raise\<close>
  "gmail_notion_page env w issue analysis =
     and_then (action_items_text (py_repr env) gmail_bullet analysis) (\<lambda>items_text.
     and_then (getitem issue (py ''subject'')) (\<lambda>subject.
     and_then (slice_to subject 2000) (\<lambda>subject_cut.
     and_then (getitem analysis (py ''category'')) (\<lambda>category.
     and_then (getitem analysis (py ''priority'')) (\<lambda>priority.
     and_then (getitem issue (py ''sender'')) (\<lambda>sender.
     and_then (slice_to sender 2000) (\<lambda>sender_cut.
     and_then (getitem analysis (py ''summary'')) (\<lambda>summary.
     and_then (slice_to summary 2000) (\<lambda>summary_cut.
     and_then (getitem analysis (py ''root_cause'')) (\<lambda>root_cause.
     and_then (slice_to root_cause 2000) (\<lambda>root_cause_cut.
     and_then (getitem issue (py ''snippet'')) (\<lambda>snippet.
     and_then (slice_to snippet 2000) (\<lambda>snippet_cut.
       Inr (PDict
         [(py ''parent'', PDict [(py ''database_id'', NOTION_DB_ID env)]),
          (py ''properties'',
             page_properties subject_cut category priority sender_cut (now_isoformat env w)),
          (py ''children'',
             PList [heading_2 (128203 # py '' Summary''),
                    paragraph_block summary_cut,
                    heading_2 (128269 # py '' Root Cause Analysis''),
                    paragraph_block root_cause_cut,
                    heading_2 (9989 # py '' Action Items''),
                    paragraph_block (PStr (slice items_text 0 2000)),
                    heading_2 (128231 # py '' Original Email''),
                    paragraph_block snippet_cut])]))))))))))))))"

definition backend_notion_page :: "'w env \<Rightarrow> 'w \<Rightarrow> pydict \<Rightarrow> pydict \<Rightarrow> exc + pyval" where
  \<comment> \<open>the same in backend.py: no block for the original mail\<close>
  "backend_notion_page env w issue analysis =
     and_then (action_items_text (py_repr env) backend_bullet analysis) (\<lambda>items_text.
     and_then (getitem issue (py ''subject'')) (\<lambda>subject.
     and_then (slice_to subject 2000) (\<lambda>subject_cut.
     and_then (getitem analysis (py ''category'')) (\<lambda>category.
     and_then (getitem analysis (py ''priority'')) (\<lambda>priority.
     and_then (getitem issue (py ''sender'')) (\<lambda>sender.
     and_then (slice_to sender 2000) (\<lambda>sender_cut.
     and_then (getitem analysis (py ''summary'')) (\<lambda>summary.
     and_then (slice_to summary 2000) (\<lambda>summary_cut.
     and_then (getitem analysis (py ''root_cause'')) (\<lambda>root_cause.
     and_then (slice_to root_cause 2000) (\<lambda>root_cause_cut.
       Inr (PDict
         [(py ''parent'', PDict [(py ''database_id'', NOTION_DB_ID env)]),
          (py ''properties'',
             page_properties subject_cut category priority sender_cut (now_isoformat env w)),
          (py ''children'',
             PList [heading_2 ([63743, 252, 236, 227] @ py '' Summary''),
                    paragraph_block summary_cut,
                    heading_2 ([63743, 252, 238, 231] @ py '' Root Cause''),
                    paragraph_block root_cause_cut,
                    heading_2 ([8218, 250, 214] @ py '' Action Items''),
                    paragraph_block (PStr (slice items_text 0 2000))])]))))))))))))"

definition gmail_add_to_notion :: "'w env \<Rightarrow> pydict \<Rightarrow> pydict \<Rightarrow> (unit, 'w) io" where
  \<comment> \<open>gmail.py. Without a ticket store, the skip message is printed, and it reads the
      subject of the issue outside any handler. With one, \<open>except Exception\<close> covers the
      construction of the page and the call.\<close>
  "gmail_add_to_notion env issue analysis w =
     (case notion env of
        None \<Rightarrow>
          (case getitem issue (py ''subject'') of
             Inl e \<Rightarrow> (Inl e, w)
           | Inr subject \<Rightarrow> (Inr (), w))
      | Some create \<Rightarrow>
          (case gmail_notion_page env w issue analysis of
             Inl e \<Rightarrow> (Inr (), w)
           | Inr page \<Rightarrow>
               (case create page w of
                  (Inl e, w') \<Rightarrow> (Inr (), w')
                | (Inr u, w') \<Rightarrow> (Inr (), w'))))"

definition backend_add_to_notion :: "'w env \<Rightarrow> pydict \<Rightarrow> pydict \<Rightarrow> (unit, 'w) io" where
  "backend_add_to_notion env issue analysis w =
     (case notion env of
        None \<Rightarrow> (Inr (), w)
      | Some create \<Rightarrow>
          (case backend_notion_page env w issue analysis of
             Inl e \<Rightarrow> (Inr (), w)
           | Inr page \<Rightarrow>
               (case create page w of
                  (Inl e, w') \<Rightarrow> (Inr (), w')
                | (Inr u, w') \<Rightarrow> (Inr (), w'))))"

subsection \<open>The message posted to the channel\<close>

definition header_block :: "pystr \<Rightarrow> pyval" where
  "header_block t =
     PDict [(py ''type'', lit ''header''),
            (py ''text'', PDict [(py ''type'', lit ''plain_text''), (py ''text'', PStr t)])]"

definition mrkdwn :: "pystr \<Rightarrow> pyval" where
  "mrkdwn t = PDict [(py ''type'', lit ''mrkdwn''), (py ''text'', PStr t)]"

definition section_fields :: "pyval list \<Rightarrow> pyval" where
  "section_fields fs = PDict [(py ''type'', lit ''section''), (py ''fields'', PList fs)]"

definition section_text :: "pystr \<Rightarrow> pyval" where
  "section_text t = PDict [(py ''type'', lit ''section''), (py ''text'', mrkdwn t)]"

definition divider :: pyval where
  "divider = PDict [(py ''type'', lit ''divider'')]"

definition format_maintenance_slack_message ::
  "'w env \<Rightarrow> 'w \<Rightarrow> pydict \<Rightarrow> pydict \<Rightarrow> exc + pystr \<times> pyval" where
  \<comment> \<open>gmail.py: the fallback text and the blocks; nothing is cut to a length\<close>
  "format_maintenance_slack_message env w issue analysis =
     and_then (getitem analysis (py ''category'')) (\<lambda>category.
     and_then (emoji_get gmail_category_emojis category [128203]) (\<lambda>category_emoji.
     and_then (getitem analysis (py ''priority'')) (\<lambda>priority.
     and_then (emoji_get gmail_priority_emojis priority [128993]) (\<lambda>priority_emoji.
     and_then (action_items_text (py_repr env) gmail_bullet analysis) (\<lambda>items_text.
     and_then (getitem issue (py ''sender'')) (\<lambda>sender.
     and_then (getitem issue (py ''subject'')) (\<lambda>subject.
     and_then (getitem analysis (py ''summary'')) (\<lambda>summary.
     and_then (getitem analysis (py ''root_cause'')) (\<lambda>root_cause.
       (let R = py_repr env;
            blocks = PList
              [header_block (category_emoji @ py '' New Maintenance Request''),
               section_fields
                 [mrkdwn (py ''*Category:*\<newline>'' @ category_emoji @ py '' '' @ py_str R category),
                  mrkdwn (py ''*Priority:*\<newline>'' @ priority_emoji @ py '' '' @ py_str R priority)],
               section_fields
                 [mrkdwn (py ''*From:*\<newline>'' @ py_str R sender),
                  mrkdwn (py ''*Date:*\<newline>'' @ now_strftime env w (py ''%Y-%m-%d %H:%M''))],
               section_text (py ''*Subject:*\<newline>'' @ py_str R subject),
               divider,
               section_text (py ''*'' @ [128203] @ py '' Summary:*\<newline>'' @ py_str R summary),
               section_text (py ''*'' @ [128269] @ py '' Root Cause:*\<newline>'' @ py_str R root_cause),
               section_text (py ''*'' @ [9989] @ py '' Action Items:*\<newline>'' @ items_text)];
            fallback_text =
              category_emoji @ py '' '' @ py_str R category @ py '' - '' @ py_str R priority @
              py '' Priority: '' @ py_str R subject
        in Inr (fallback_text, blocks)))))))))))"

definition send_slack_message :: "'w env \<Rightarrow> pystr \<Rightarrow> pyval \<Rightarrow> (unit, 'w) io" where
  \<comment> \<open>gmail.py: \<open>except SlackApiError\<close> is the only handler around the call, and the
      handler itself reads \<open>e.response['error']\<close> for its message, which may raise\<close>
  "send_slack_message env text blocks w =
     (case slack_client env of
        None \<Rightarrow> (Inr (), w)
      | Some chat_postMessage \<Rightarrow>
          (case chat_postMessage
                  (if py_truthy blocks
                   then PDict [(py ''channel'', SLACK_CHANNEL env), (py ''text'', PStr text),
                               (py ''blocks'', blocks)]
                   else PDict [(py ''channel'', SLACK_CHANNEL env), (py ''text'', PStr text)]) w of
             (Inl (SlackApiError response), w') \<Rightarrow>
               (case response_item env response (py ''error'') of
                  Inl e \<Rightarrow> (Inl e, w')
                | Inr error \<Rightarrow> (Inr (), w'))
           | (Inl e, w') \<Rightarrow> (Inl e, w')
           | (Inr u, w') \<Rightarrow> (Inr (), w')))"

definition slack_notification :: "'w env \<Rightarrow> pydict \<Rightarrow> pydict \<Rightarrow> exc + pyval" where
  \<comment> \<open>backend.py: the arguments of \<open>chat_postMessage\<close> in \<open>send_slack_notification\<close>\<close>
  "slack_notification env issue analysis =
     and_then (getitem analysis (py ''category'')) (\<lambda>category.
     and_then (emoji_get backend_category_emojis category [63743, 252, 236, 227]) (\<lambda>category_emoji.
     and_then (getitem analysis (py ''priority'')) (\<lambda>priority.
     and_then (emoji_get backend_priority_emojis priority [63743, 252, 252, 176]) (\<lambda>priority_emoji.
     and_then (action_items_text (py_repr env) backend_bullet analysis) (\<lambda>action_items.
     and_then (getitem issue (py ''subject'')) (\<lambda>subject.
     and_then (getitem analysis (py ''summary'')) (\<lambda>summary.
     and_then (getitem analysis (py ''root_cause'')) (\<lambda>root_cause.
       (let R = py_repr env;
            blocks = PList
              [header_block (category_emoji @ py '' New Maintenance Request''),
               section_fields
                 [mrkdwn (py ''*Category:*\<newline>'' @ category_emoji @ py '' '' @ py_str R category),
                  mrkdwn (py ''*Priority:*\<newline>'' @ priority_emoji @ py '' '' @ py_str R priority)],
               section_text (py ''*Subject:*\<newline>'' @ py_str R subject),
               divider,
               section_text (py ''*'' @ [63743, 252, 236, 227] @ py '' Summary:*\<newline>'' @
                             py_str R summary),
               section_text (py ''*'' @ [63743, 252, 238, 231] @ py '' Root Cause:*\<newline>'' @
                             py_str R root_cause),
               section_text (py ''*'' @ [8218, 250, 214] @ py '' Action Items:*\<newline>'' @
                             action_items)]
        in Inr (PDict
             [(py ''channel'', SLACK_CHANNEL env),
              (py ''text'',
                 PStr (category_emoji @ py '' '' @ py_str R category @ py '' - '' @ py_str R subject)),
              (py ''blocks'', blocks)]))))))))))"

definition send_slack_notification :: "'w env \<Rightarrow> pydict \<Rightarrow> pydict \<Rightarrow> (unit, 'w) io" where
  \<comment> \<open>backend.py: the message is built inside the \<open>try\<close>, whose only handler is
      \<open>except SlackApiError\<close>; the handler prints the error itself\<close>
  "send_slack_notification env issue analysis w =
     (case slack_client env of
        None \<Rightarrow> (Inr (), w)
      | Some chat_postMessage \<Rightarrow>
          (case slack_notification env issue analysis of
             Inl (SlackApiError m) \<Rightarrow> (Inr (), w)
           | Inl e \<Rightarrow> (Inl e, w)
           | Inr message \<Rightarrow>
               (case chat_postMessage message w of
                  (Inl (SlackApiError m), w') \<Rightarrow> (Inr (), w')
                | (Inl e, w') \<Rightarrow> (Inl e, w')
                | (Inr u, w') \<Rightarrow> (Inr (), w'))))"

subsection \<open>The texts of a payload\<close>

fun at_path :: "pystr list \<Rightarrow> pyval \<Rightarrow> pyval list" where
  \<comment> \<open>the values found by following the keys of a path; a list on the way stands for
      each of its elements\<close>
  "at_path [] v = [v]"
| "at_path (k # ks) (PDict d) = (case map_of d k of None \<Rightarrow> [] | Some v \<Rightarrow> at_path ks v)"
| "at_path (k # ks) (PList xs) = concat (map (at_path (k # ks)) xs)"
| "at_path (k # ks) v = []"

definition subject_content :: "pyval \<Rightarrow> pyval list" where
  \<comment> \<open>the content of the title of a page\<close>
  "subject_content page =
     at_path [py ''properties'', py ''Subject'', py ''title'', py ''text'', py ''content''] page"

definition sender_content :: "pyval \<Rightarrow> pyval list" where
  "sender_content page =
     at_path [py ''properties'', py ''Sender'', py ''rich_text'', py ''text'', py ''content''] page"

definition heading_contents :: "pyval \<Rightarrow> pyval list" where
  \<comment> \<open>the text of each heading among the children, in their order\<close>
  "heading_contents page =
     at_path [py ''children'', py ''heading_2'', py ''rich_text'', py ''text'', py ''content''] page"

definition paragraph_contents :: "pyval \<Rightarrow> pyval list" where
  \<comment> \<open>the text of each paragraph among the children, in their order\<close>
  "paragraph_contents page =
     at_path [py ''children'', py ''paragraph'', py ''rich_text'', py ''text'', py ''content''] page"

definition page_contents :: "pyval \<Rightarrow> pyval list" where
  \<comment> \<open>every rich-text content of a page\<close>
  "page_contents page =
     subject_content page @ sender_content page @ heading_contents page @
     paragraph_contents page"

fun texts :: "pyval \<Rightarrow> pystr list" where
  \<comment> \<open>the strings stored under the key \<open>text\<close> of a message, at any depth\<close>
  "texts (PList xs) = concat (map texts xs)"
| "texts (PDict d) =
     concat (map (\<lambda>kv. case snd kv of
                           PStr s \<Rightarrow> if fst kv = py ''text'' then [s] else []
                         | v \<Rightarrow> texts v) d)"
| "texts v = []"

section \<open>The daily summary\<close>

definition initial_priority_counts :: counts where
  "initial_priority_counts = [(lit ''High'', 0), (lit ''Medium'', 0), (lit ''Low'', 0)]"

fun count_items :: "pyval list \<Rightarrow> counts \<Rightarrow> counts \<Rightarrow> exc + counts \<times> counts" where
  \<comment> \<open>the counting loop of \<open>generate_daily_summary_with_ai\<close>: the category count goes
      up by one, the priority count is stored back as it was\<close>
  "count_items [] category_counts priority_counts = Inr (category_counts, priority_counts)"
| "count_items (item # items) category_counts priority_counts =
     and_then (subscript item (py ''analysis'')) (\<lambda>analysis.
     and_then (subscript analysis (py ''category'')) (\<lambda>category.
     and_then (subscript analysis (py ''priority'')) (\<lambda>priority.
       if \<not> hashable category then Inl TypeError
       else if \<not> hashable priority then Inl TypeError
       else count_items items
              (counts_set category_counts category (counts_get category_counts category 0 + 1))
              (counts_set priority_counts priority (counts_get priority_counts priority 0)))))"

fun counts_item :: "counts \<Rightarrow> pystr \<Rightarrow> exc + nat" where
  \<comment> \<open>\<open>counts[name]\<close> for a string \<open>name\<close>\<close>
  "counts_item [] name = Inl (KeyError name)"
| "counts_item (kn # cs) name =
     (if key_eq (fst kn) (PStr name) then Inr (snd kn) else counts_item cs name)"

definition category_lines :: "(pyval \<Rightarrow> pystr) \<Rightarrow> counts \<Rightarrow> pystr" where
  \<comment> \<open>one line for each category, in the order of
      \<open>sorted(category_counts.items(), key=lambda x: x[1], reverse=True)\<close>: by falling
      count, equal counts in the order of insertion\<close>
  "category_lines R category_counts =
     concat (map (\<lambda>kn. [8226] @ py '' '' @ emoji_of gmail_category_emojis (fst kn) [128203] @
                        py '' '' @ py_str R (fst kn) @ py '': '' @ str_nat (snd kn) @ [10])
                 (sort_key (\<lambda>kn. - int (snd kn)) category_counts))"

definition issue_line :: "(pyval \<Rightarrow> pystr) \<Rightarrow> nat \<Rightarrow> pyval \<Rightarrow> exc + pystr" where
  \<comment> \<open>one line of the listing given to the model\<close>
  "issue_line R idx item =
     and_then (subscript item (py ''analysis'')) (\<lambda>analysis.
     and_then (subscript analysis (py ''category'')) (\<lambda>category.
     and_then (subscript analysis (py ''priority'')) (\<lambda>priority.
     and_then (subscript item (py ''issue'')) (\<lambda>issue.
     and_then (subscript issue (py ''subject'')) (\<lambda>subject.
     and_then (subscript issue (py ''sender'')) (\<lambda>sender.
       Inr (str_nat idx @ py ''. ['' @ py_str R category @ py ''] '' @ py_str R priority @
            py '' - '' @ py_str R subject @ py '' (from '' @ py_str R sender @ py '')'')))))))"

fun issue_lines :: "(pyval \<Rightarrow> pystr) \<Rightarrow> nat \<Rightarrow> pyval list \<Rightarrow> exc + pystr list" where
  \<comment> \<open>\<open>[... for idx, item in enumerate(items, idx)]\<close>\<close>
  "issue_lines R idx [] = Inr []"
| "issue_lines R idx (item # items) =
     and_then (issue_line R idx item) (\<lambda>l.
     and_then (issue_lines R (Suc idx) items) (\<lambda>ls. Inr (l # ls)))"

definition summary_prompt :: "nat \<Rightarrow> pystr \<Rightarrow> pystr \<Rightarrow> pystr \<Rightarrow> pystr" where
  \<open>summary_prompt total_issues category_json priority_json issues_summary =
     py ''Create a professional daily maintenance summary report.\<newline>\<newline>STATISTICS:\<newline>Total Issues: '' @
     str_nat total_issues @
     py ''\<newline>By Category: '' @ category_json @
     py ''\<newline>By Priority: '' @ priority_json @
     py ''\<newline>\<newline>ISSUES DETAILS:\<newline>'' @ issues_summary @
     py (''\<newline>\<newline>Please provide:\<newline>1. Executive summary of the day's maintenance requests\<newline>'' @
         ''2. Key trends or patterns by category\<newline>'' @
         ''3. High priority items requiring immediate attention\<newline>'' @
         ''4. Recommended resource allocation\<newline>'' @
         ''5. Any systemic issues identified\<newline>\<newline>'' @
         ''Format professionally and concisely for management review.'')\<close>

definition summary_header ::
  "(pyval \<Rightarrow> pystr) \<Rightarrow> pystr \<Rightarrow> nat \<Rightarrow> counts \<Rightarrow> counts \<Rightarrow> exc + pystr" where
  \<comment> \<open>the statistics header put before the model's narrative\<close>
  "summary_header R today total_issues category_counts priority_counts =
     and_then (counts_item priority_counts (py ''High'')) (\<lambda>high.
     and_then (counts_item priority_counts (py ''Medium'')) (\<lambda>medium.
     and_then (counts_item priority_counts (py ''Low'')) (\<lambda>low.
       Inr ([128197] @ py '' *Daily Maintenance Report* - '' @ today @
            py ''\<newline>\<newline>'' @ [128202] @ py '' *Quick Stats:*\<newline>'' @ [8226] @
            py '' Total Issues: '' @ str_nat total_issues @
            py ''\<newline>'' @ [8226] @ py '' High Priority: '' @ str_nat high @
            py '' | Medium: '' @ str_nat medium @
            py '' | Low: '' @ str_nat low @
            py ''\<newline>\<newline>'' @ [128194] @ py '' *By Category:*\<newline>'' @
            category_lines R category_counts))))"

definition top_issue_line :: "(pyval \<Rightarrow> pystr) \<Rightarrow> nat \<Rightarrow> pyval \<Rightarrow> exc + pystr" where
  \<comment> \<open>one line of the listing of the templated report\<close>
  "top_issue_line R idx item =
     and_then (subscript item (py ''analysis'')) (\<lambda>analysis.
     and_then (subscript analysis (py ''category'')) (\<lambda>category.
     and_then (subscript analysis (py ''priority'')) (\<lambda>priority.
     and_then (subscript item (py ''issue'')) (\<lambda>issue.
     and_then (subscript issue (py ''subject'')) (\<lambda>subject.
     and_then (slice_to subject 60) (\<lambda>subject_cut.
       Inr (str_nat idx @ py ''. ['' @ py_str R category @ py ''] '' @ py_str R priority @
            py '': '' @ py_str R subject_cut @ py ''...\<newline>'')))))))"

fun top_issue_lines :: "(pyval \<Rightarrow> pystr) \<Rightarrow> nat \<Rightarrow> pyval list \<Rightarrow> exc + pystr" where
  "top_issue_lines R idx [] = Inr []"
| "top_issue_lines R idx (item # items) =
     and_then (top_issue_line R idx item) (\<lambda>l.
     and_then (top_issue_lines R (Suc idx) items) (\<lambda>ls. Inr (l @ ls)))"

definition fallback_summary ::
  "(pyval \<Rightarrow> pystr) \<Rightarrow> pystr \<Rightarrow> nat \<Rightarrow> counts \<Rightarrow> counts \<Rightarrow> pyval list \<Rightarrow> exc + pystr" where
  \<comment> \<open>the templated report: header, categories, priorities, the first five issues\<close>
  "fallback_summary R today total_issues category_counts priority_counts items =
     and_then (counts_item priority_counts (py ''High'')) (\<lambda>high.
     and_then (counts_item priority_counts (py ''Medium'')) (\<lambda>medium.
     and_then (counts_item priority_counts (py ''Low'')) (\<lambda>low.
     and_then (top_issue_lines R 1 (slice items 0 5)) (\<lambda>top.
       Inr ([128197] @ py '' *Daily Maintenance Report* - '' @ today @
            py ''\<newline>\<newline>'' @ [128202] @
            py '' *Summary:*\<newline>Total Issues Processed: '' @ str_nat total_issues @
            py ''\<newline>\<newline>'' @ [128194] @ py '' *By Category:*\<newline>'' @
            category_lines R category_counts @
            py ''\<newline>'' @ [128680] @ py '' *By Priority:*\<newline>'' @ [8226] @ py '' '' @
            [128308] @ py '' High: '' @ str_nat high @
            py ''\<newline>'' @ [8226] @ py '' '' @ [128993] @ py '' Medium: '' @ str_nat medium @
            py ''\<newline>'' @ [8226] @ py '' '' @ [128994] @ py '' Low: '' @ str_nat low @
            py ''\<newline>\<newline>'' @ [128203] @ py '' *Top Issues:*\<newline>'' @
            top)))))"

definition narrated_summary ::
  "'w env \<Rightarrow> (pystr \<Rightarrow> (pyval, 'w) io) \<Rightarrow> nat \<Rightarrow> counts \<Rightarrow> counts \<Rightarrow> pyval list \<Rightarrow>
   (pystr, 'w) io" where
  \<comment> \<open>the \<open>try\<close> block: the listing, the prompt, the call of the model, the header\<close>
  "narrated_summary env invoke total_issues category_counts priority_counts items w =
     (case and_then (issue_lines (py_repr env) 1 items) (\<lambda>ls.
           and_then (json_dumps env category_counts) (\<lambda>category_json.
           and_then (json_dumps env priority_counts) (\<lambda>priority_json.
             Inr (summary_prompt total_issues category_json priority_json (join [10] ls))))) of
        Inl e \<Rightarrow> (Inl e, w)
      | Inr prompt \<Rightarrow>
          (case invoke prompt w of
             (Inl e, w') \<Rightarrow> (Inl e, w')
           | (Inr content, w') \<Rightarrow>
               (case content of
                  PStr raw \<Rightarrow>
                    (case summary_header (py_repr env) (now_strftime env w' (py ''%Y-%m-%d''))
                            total_issues category_counts priority_counts of
                       Inl e \<Rightarrow> (Inl e, w')
                     | Inr header \<Rightarrow>
                         (Inr (header @ [10] @ replicate 50 61 @ [10, 10] @ strip raw), w'))
                | _ \<Rightarrow> (Inl AttributeError, w'))))"

definition no_issues_message :: pystr where
  "no_issues_message =
     [128197] @ py '' *Daily Maintenance Report*\<newline>\<newline>No issues processed today.''"

definition generate_daily_summary_with_ai :: "'w env \<Rightarrow> pyval list \<Rightarrow> (pystr, 'w) io" where
  "generate_daily_summary_with_ai env issues_with_analysis w =
     (if issues_with_analysis = [] then (Inr no_issues_message, w)
      else
        (case count_items issues_with_analysis [] initial_priority_counts of
           Inl e \<Rightarrow> (Inl e, w)
         | Inr (category_counts, priority_counts) \<Rightarrow>
             (let total_issues = length issues_with_analysis;
                  templated = (\<lambda>w'. (fallback_summary (py_repr env)
                                         (now_strftime env w' (py ''%Y-%m-%d''))
                                         total_issues category_counts priority_counts
                                         issues_with_analysis, w'))
              in case cerebras_llm env of
                   None \<Rightarrow> templated w
                 | Some invoke \<Rightarrow>
                     (case narrated_summary env invoke total_issues category_counts priority_counts
                             issues_with_analysis w of
                        (Inl e, w') \<Rightarrow> templated w'
                      | (Inr summary, w') \<Rightarrow> (Inr summary, w')))))"

definition countable_item :: "pyval \<Rightarrow> bool" where
  \<comment> \<open>an entry as \<open>main\<close> builds it: it has an analysis with a category and a priority
      that may serve as keys\<close>
  "countable_item item \<longleftrightarrow>
     (case and_then (subscript item (py ''analysis'')) (\<lambda>analysis.
           and_then (subscript analysis (py ''category'')) (\<lambda>category.
           and_then (subscript analysis (py ''priority'')) (\<lambda>priority.
             Inr (hashable category \<and> hashable priority)))) of
        Inl e \<Rightarrow> False
      | Inr b \<Rightarrow> b)"

definition reportable_item :: "pyval \<Rightarrow> bool" where
  \<comment> \<open>moreover it has an issue whose subject can be cut for the listing\<close>
  "reportable_item item \<longleftrightarrow>
     countable_item item \<and>
     \<not> isl (and_then (subscript item (py ''issue'')) (\<lambda>issue.
            and_then (subscript issue (py ''subject'')) (\<lambda>subject. slice_to subject 60)))"

section \<open>The drivers\<close>

subsection \<open>\<open>main\<close> of gmail.py\<close>

definition notify :: "'w env \<Rightarrow> pydict \<Rightarrow> pydict \<Rightarrow> (unit, 'w) io" where
  \<comment> \<open>the last two statements of the loop body: the message is formatted, then sent\<close>
  "notify env issue analysis w =
     (case format_maintenance_slack_message env w issue analysis of
        Inl e \<Rightarrow> (Inl e, w)
      | Inr (fallback_text, blocks) \<Rightarrow> send_slack_message env fallback_text blocks w)"

definition process_issue :: "'w env \<Rightarrow> pydict \<Rightarrow> (pyval, 'w) io" where
  \<comment> \<open>the loop body of \<open>main\<close>; its result is the entry appended to
      \<open>issues_with_analysis\<close>. The progress lines read the subject and the sender of the
      issue and the category and the priority of the analysis.\<close>
  "process_issue env issue w =
     (case and_then (getitem issue (py ''subject'')) (\<lambda>subject.
           and_then (slice_to subject 60) (\<lambda>subject_cut.
           getitem issue (py ''sender''))) of
        Inl e \<Rightarrow> (Inl e, w)
      | Inr sender \<Rightarrow>
          (case gmail_classify_maintenance_issue env issue w of
             (Inl e, w1) \<Rightarrow> (Inl e, w1)
           | (Inr analysis, w1) \<Rightarrow>
               (case and_then (getitem analysis (py ''category'')) (\<lambda>category.
                     getitem analysis (py ''priority'')) of
                  Inl e \<Rightarrow> (Inl e, w1)
                | Inr priority \<Rightarrow>
                    (case gmail_add_to_notion env issue analysis w1 of
                       (Inl e, w2) \<Rightarrow> (Inl e, w2)
                     | (Inr u, w2) \<Rightarrow>
                         (case notify env issue analysis w2 of
                            (Inl e, w3) \<Rightarrow> (Inl e, w3)
                          | (Inr u', w3) \<Rightarrow>
                              (Inr (PDict [(py ''issue'', PDict issue),
                                           (py ''analysis'', PDict analysis)]), w3))))))"

fun process_issues :: "'w env \<Rightarrow> pydict list \<Rightarrow> pyval list \<Rightarrow> (pyval list, 'w) io" where
  \<comment> \<open>\<open>for idx, issue in enumerate(issues, 1)\<close>: an exception ends the loop\<close>
  "process_issues env [] issues_with_analysis w = (Inr issues_with_analysis, w)"
| "process_issues env (issue # issues) issues_with_analysis w =
     (case process_issue env issue w of
        (Inl e, w') \<Rightarrow> (Inl e, w')
      | (Inr item, w') \<Rightarrow> process_issues env issues (issues_with_analysis @ [item]) w')"

definition main :: "'w env \<Rightarrow> (pyval list, 'w) io" where
  \<comment> \<open>\<open>main\<close> returns nothing; the result here is \<open>issues_with_analysis\<close>, whose length
      the last progress line reports as the number of processed issues (the empty list
      when no mail was found)\<close>
  "main env w =
     (case gmail_fetch_gmail_issues env w of
        (Inl e, w1) \<Rightarrow> (Inl e, w1)
      | (Inr issues, w1) \<Rightarrow>
          if issues = [] then (Inr [], w1)
          else
            (case process_issues env issues [] w1 of
               (Inl e, w2) \<Rightarrow> (Inl e, w2)
             | (Inr issues_with_analysis, w2) \<Rightarrow>
                 if slack_client env \<noteq> None \<and> issues_with_analysis \<noteq> []
                 then
                   (case generate_daily_summary_with_ai env issues_with_analysis w2 of
                      (Inl e, w3) \<Rightarrow> (Inl e, w3)
                    | (Inr daily_summary, w3) \<Rightarrow>
                        (case send_slack_message env daily_summary PNone w3 of
                           (Inl e, w4) \<Rightarrow> (Inl e, w4)
                         | (Inr u, w4) \<Rightarrow> (Inr issues_with_analysis, w4)))
                 else (Inr issues_with_analysis, w2)))"

subsection \<open>\<open>process_emails\<close> of backend.py\<close>

datatype task =
    AddToNotion pydict pydict
  | SendSlackNotification pydict pydict

fun classify_all ::
  "'w env \<Rightarrow> bool \<Rightarrow> pydict list \<Rightarrow> pydict list \<Rightarrow> task list \<Rightarrow> (pydict list \<times> task list, 'w) io"
  where
  \<comment> \<open>the loop of \<open>process_emails\<close>: the analysis is stored in the issue, and the sink
      calls are handed to the background tasks, which run after the response\<close>
  "classify_all env send [] processed_issues tasks w = (Inr (processed_issues, tasks), w)"
| "classify_all env send (issue # issues) processed_issues tasks w =
     (case backend_classify_maintenance_issue env issue w of
        (Inl e, w') \<Rightarrow> (Inl e, w')
      | (Inr analysis, w') \<Rightarrow>
          (let issue' = setitem issue (py ''analysis'') (PDict analysis);
               tasks1 = (if notion env \<noteq> None
                         then tasks @ [AddToNotion issue' analysis] else tasks);
               tasks2 = (if send \<and> slack_client env \<noteq> None
                         then tasks1 @ [SendSlackNotification issue' analysis] else tasks1)
           in classify_all env send issues (processed_issues @ [issue']) tasks2 w'))"

definition process_emails :: "'w env \<Rightarrow> pyval \<Rightarrow> pyval \<Rightarrow> (pyval \<times> task list, 'w) io" where
  \<comment> \<open>the response and the background tasks; any exception becomes status 500\<close>
  "process_emails env max_results send_notifications w =
     (case (case backend_fetch_gmail_issues env max_results w of
              (Inl e, w1) \<Rightarrow> (Inl e, w1)
            | (Inr issues, w1) \<Rightarrow>
                if issues = []
                then (Inr (PDict [(py ''status'', lit ''success''),
                                  (py ''message'', lit ''No emails found''),
                                  (py ''processed'', PInt 0),
                                  (py ''issues'', PList [])], []), w1)
                else
                  (case classify_all env (py_truthy send_notifications) issues [] [] w1 of
                     (Inl e, w2) \<Rightarrow> (Inl e, w2)
                   | (Inr (processed_issues, tasks), w2) \<Rightarrow>
                       (Inr (PDict [(py ''status'', lit ''success''),
                                    (py ''message'',
                                       PStr (py ''Processed '' @
                                             str_nat (length processed_issues) @ py '' emails'')),
                                    (py ''processed'', PInt (int (length processed_issues))),
                                    (py ''issues'', PList (map PDict processed_issues))],
                             tasks), w2))) of
        (Inl e, w') \<Rightarrow> (Inl (HTTPException 500 (exc_str env e)), w')
      | (Inr r, w') \<Rightarrow> (Inr r, w'))"

section \<open>The dashboard statistics\<close>

fun classify_issues :: "'w env \<Rightarrow> pydict list \<Rightarrow> pydict list \<Rightarrow> (pydict list, 'w) io" where
  \<comment> \<open>the first loop of \<open>get_dashboard_stats\<close>: the analysis is stored in the issue\<close>
  "classify_issues env [] classified_issues w = (Inr classified_issues, w)"
| "classify_issues env (issue # issues) classified_issues w =
     (case backend_classify_maintenance_issue env issue w of
        (Inl e, w') \<Rightarrow> (Inl e, w')
      | (Inr analysis, w') \<Rightarrow>
          classify_issues env issues
            (classified_issues @ [setitem issue (py ''analysis'') (PDict analysis)]) w')"

fun count_issues :: "pydict list \<Rightarrow> counts \<Rightarrow> counts \<Rightarrow> exc + counts \<times> counts" where
  \<comment> \<open>the second loop: both counts go up by one for an issue that has an analysis\<close>
  "count_issues [] category_counts priority_counts = Inr (category_counts, priority_counts)"
| "count_issues (issue # issues) category_counts priority_counts =
     (if py_truthy (dict_get issue (py ''analysis'') PNone)
      then
        and_then (getitem issue (py ''analysis'')) (\<lambda>analysis.
        and_then (subscript analysis (py ''category'')) (\<lambda>cat.
        and_then (subscript analysis (py ''priority'')) (\<lambda>pri.
          if \<not> hashable cat then Inl TypeError
          else if \<not> hashable pri then Inl TypeError
          else count_issues issues
                 (counts_set category_counts cat (counts_get category_counts cat 0 + 1))
                 (counts_set priority_counts pri (counts_get priority_counts pri 0 + 1)))))
      else count_issues issues category_counts priority_counts)"

definition percentage :: "nat \<Rightarrow> nat \<Rightarrow> pyval" where
  \<comment> \<open>\<open>round((count / total) * 100, 1) if total > 0 else 0\<close>\<close>
  "percentage count total_issues =
     (if total_issues > 0 then PFloat (round_1 (float_mul (true_div count total_issues) 100))
      else PInt 0)"

record dashboard_stats =
  total_issues :: nat
  by_category :: "(pyval \<times> nat \<times> pyval) list"
  by_priority :: counts
  recent_issues :: "pydict list"

definition dashboard_statistics :: "pydict list \<Rightarrow> exc + dashboard_stats" where
  \<comment> \<open>from the classified issues to the arguments of \<open>DashboardStats\<close>: a category, its
      count and its percentage for each category, in the order of first occurrence\<close>
  "dashboard_statistics classified_issues =
     and_then (count_issues classified_issues [] initial_priority_counts) (\<lambda>cp.
       Inr \<lparr>total_issues = length classified_issues,
            by_category =
              map (\<lambda>kn. (fst kn, snd kn, percentage (snd kn) (length classified_issues))) (fst cp),
            by_priority = snd cp,
            recent_issues = slice classified_issues 0 5\<rparr>)"

definition get_dashboard_stats ::
  "'w env \<Rightarrow> (dashboard_stats \<Rightarrow> exc option) \<Rightarrow> (dashboard_stats, 'w) io" where
  \<comment> \<open>the twenty most recent messages are fetched and classified. The response models
      check their fields when they are built; that check is the parameter \<open>invalid\<close>,
      which gives the validation error, if any. Any exception becomes status 500.\<close>
  "get_dashboard_stats env invalid w =
     (case (case backend_fetch_gmail_issues env (PInt 20) w of
              (Inl e, w1) \<Rightarrow> (Inl e, w1)
            | (Inr issues, w1) \<Rightarrow>
                (case classify_issues env issues [] w1 of
                   (Inl e, w2) \<Rightarrow> (Inl e, w2)
                 | (Inr classified_issues, w2) \<Rightarrow>
                     (case dashboard_statistics classified_issues of
                        Inl e \<Rightarrow> (Inl e, w2)
                      | Inr stats \<Rightarrow>
                          (case invalid stats of
                             Some e \<Rightarrow> (Inl e, w2)
                           | None \<Rightarrow> (Inr stats, w2))))) of
        (Inl e, w') \<Rightarrow> (Inl (HTTPException 500 (exc_str env e)), w')
      | (Inr stats, w') \<Rightarrow> (Inr stats, w'))"

definition priority_of :: "pydict \<Rightarrow> pyval option" where
  \<comment> \<open>the priority with which an issue was classified, if it has an analysis\<close>
  "priority_of issue =
     (if py_truthy (dict_get issue (py ''analysis'') PNone)
      then (case and_then (getitem issue (py ''analysis'')) (\<lambda>analysis.
                  subscript analysis (py ''priority'')) of
              Inl e \<Rightarrow> None
            | Inr pri \<Rightarrow> Some pri)
      else None)"

definition classified_with :: "pyval \<Rightarrow> pydict \<Rightarrow> bool" where
  \<comment> \<open>the issue was classified with the priority \<open>p\<close>, as a dictionary compares keys\<close>
  "classified_with p issue \<longleftrightarrow>
     (case priority_of issue of None \<Rightarrow> False | Some q \<Rightarrow> key_eq q p)"

section \<open>Example inputs\<close>

text \<open>
  A world that counts the calls made to the outside, a model that answers every prompt
  with the same completion, one issue, two completions, and a \<open>json.loads\<close>
  restricted to the two JSON texts that the examples parse.
\<close>

definition example_env :: "pyval \<Rightarrow> (pystr \<Rightarrow> exc + pyval) \<Rightarrow> nat env" where
  "example_env completion loads =
     \<lparr>gmail_service = None, notion = None, slack_client = None,
      cerebras_llm = Some (\<lambda>prompt w. (Inr completion, Suc w)),
      NOTION_DB_ID = PNone, SLACK_CHANNEL = PNone,
      json_loads = loads, json_dumps = (\<lambda>c. Inr (py ''{}'')), py_repr = (\<lambda>v. py ''?''),
      exc_str = (\<lambda>e. py ''error''),
      response_item = (\<lambda>response key. subscript response key),
      now_isoformat = (\<lambda>w. py ''2024-01-01T09:00:00''),
      now_strftime = (\<lambda>w f. py ''2024-01-01'')\<rparr>"

definition example_issue :: pydict where
  "example_issue =
     [(py ''id'', PStr (py ''m1'')),
      (py ''subject'', PStr (py ''AC not cooling in room 204'')),
      (py ''sender'', PStr (py ''tenant@example.com'')),
      (py ''date'', PStr (py ''Mon, 1 Jan 2024 09:00:00 +0000'')),
      (py ''snippet'', PStr (py ''The AC in room 204 has stopped cooling.''))]"

definition example_loads :: "pystr \<Rightarrow> exc + pyval" where
  \<open>example_loads s =
     (if s = py ''{"category": "Electrical"}''
      then Inr (PDict [(py ''category'', PStr (py ''Electrical''))])
      else if s = py ''{"category": "Gardening", "priority": "High"}''
      then Inr (PDict [(py ''category'', PStr (py ''Gardening'')),
                       (py ''priority'', PStr (py ''High''))])
      else Inl JSONDecodeError)\<close>

definition electrical_completion :: pyval where
  \<open>electrical_completion =
     PStr (py ''Here is the analysis:\<newline>{"category": "Electrical"}\<newline>'')\<close>

definition gardening_completion :: pyval where
  \<open>gardening_completion = PStr (py ''{"category": "Gardening", "priority": "High"}'')\<close>

definition example_message :: pyval where
  "example_message =
     PDict [(py ''id'', PStr (py ''m1'')),
            (py ''payload'',
               PDict [(py ''headers'',
                  PList [PDict [(py ''name'', PStr (py ''From'')),
                                (py ''value'', PStr (py ''tenant@example.com''))]])])]"

definition example_gmail :: "nat gmail" where
  "example_gmail =
     \<lparr>messages_list =
        (\<lambda>max_results w. (Inr (PDict [(py ''messages'', PList [PDict [(py ''id'', PStr (py ''m1''))]])]), Suc w)),
      messages_get = (\<lambda>msg_id w. (Inr example_message, Suc w))\<rparr>"

definition example_mail_env :: "nat env" where
  "example_mail_env = (example_env PNone example_loads)\<lparr>gmail_service := Some example_gmail\<rparr>"

text \<open>
  A world that records what is posted to the channel, an issue whose subject has 2001
  characters, and a channel whose client fails with an error that is no
  \<open>SlackApiError\<close>.
\<close>

definition recording_env :: "pyval list env" where
  "recording_env =
     \<lparr>gmail_service = None, notion = None,
      slack_client = Some (\<lambda>message w. (Inr (), w @ [message])),
      cerebras_llm = None,
      NOTION_DB_ID = PNone, SLACK_CHANNEL = PStr (py ''C0123''),
      json_loads = example_loads, json_dumps = (\<lambda>c. Inr (py ''{}'')), py_repr = (\<lambda>v. py ''?''),
      exc_str = (\<lambda>e. py ''error''),
      response_item = (\<lambda>response key. subscript response key),
      now_isoformat = (\<lambda>w. py ''2024-01-01T09:00:00''),
      now_strftime = (\<lambda>w f. py ''2024-01-01'')\<rparr>"

definition long_subject_issue :: pydict where
  "long_subject_issue =
     [(py ''id'', PStr (py ''m2'')),
      (py ''subject'', PStr (replicate 2001 65)),
      (py ''sender'', PStr (py ''tenant@example.com'')),
      (py ''date'', PStr (py ''Mon, 1 Jan 2024 09:00:00 +0000'')),
      (py ''snippet'', PStr (py ''See subject.''))]"

definition broken_channel_env :: "pyval \<Rightarrow> nat env" where
  "broken_channel_env completion =
     (example_env completion example_loads)
       \<lparr>slack_client := Some (\<lambda>message w. (Inl (OtherException (py ''connection reset'')), w))\<rparr>"

definition ticket_env :: "pyval list env" where
  "ticket_env =
     recording_env\<lparr>notion := Some (\<lambda>page w. (Inr (), w @ [page])), slack_client := None\<rparr>"

text \<open>
  A mailbox with two messages, a model that counts its calls in the world, and the broken
  channel.
\<close>

definition two_message_gmail :: "nat gmail" where
  "two_message_gmail =
     \<lparr>messages_list =
        (\<lambda>max_results w.
           (Inr (PDict [(py ''messages'',
                   PList [PDict [(py ''id'', lit ''m1'')], PDict [(py ''id'', lit ''m2'')]])]), w)),
      messages_get = (\<lambda>msg_id w. (Inr example_message, w))\<rparr>"

definition broken_channel_run_env :: "nat env" where
  "broken_channel_run_env =
     (broken_channel_env electrical_completion)\<lparr>gmail_service := Some two_message_gmail\<rparr>"

definition fetched_issue :: "string \<Rightarrow> pydict" where
  \<comment> \<open>the record that the example message gives, under a message identifier\<close>
  "fetched_issue msg_id =
     [(py ''id'', lit msg_id),
      (py ''subject'', lit ''(No Subject)''),
      (py ''sender'', lit ''tenant@example.com''),
      (py ''date'', PStr []),
      (py ''snippet'', PStr [])]"

definition electrical_analysis :: pydict where
  \<comment> \<open>what gmail.py makes of the completion \<open>electrical_completion\<close> for such a record\<close>
  "electrical_analysis =
     [(py ''category'', lit ''Electrical''),
      (py ''summary'', PStr []),
      (py ''priority'', lit ''Medium''),
      (py ''root_cause'', lit ''To be determined''),
      (py ''action_items'', PList [lit ''Review and assess''])]"

text \<open>A batch of three classified issues, as each module keeps it.\<close>

definition example_analysis :: "string \<Rightarrow> string \<Rightarrow> pydict" where
  "example_analysis category priority =
     [(py ''category'', lit category),
      (py ''summary'', lit ''No light in the corridor.''),
      (py ''priority'', lit priority),
      (py ''root_cause'', lit ''To be determined''),
      (py ''action_items'', PList [lit ''Review and assess''])]"

definition classified_batch :: "pydict list" where
  \<comment> \<open>backend.py: the analysis is stored in the issue\<close>
  "classified_batch =
     [setitem (fetched_issue ''m1'') (py ''analysis'') (PDict (example_analysis ''Electrical'' ''High'')),
      setitem (fetched_issue ''m2'') (py ''analysis'') (PDict (example_analysis ''Electrical'' ''Medium'')),
      setitem (fetched_issue ''m3'') (py ''analysis'') (PDict (example_analysis ''Plumbing'' ''High''))]"

definition summary_batch :: "pyval list" where
  \<comment> \<open>gmail.py: the issue and the analysis side by side\<close>
  "summary_batch =
     [PDict [(py ''issue'', PDict (fetched_issue ''m1'')),
             (py ''analysis'', PDict (example_analysis ''Electrical'' ''High''))],
      PDict [(py ''issue'', PDict (fetched_issue ''m2'')),
             (py ''analysis'', PDict (example_analysis ''Electrical'' ''Medium''))],
      PDict [(py ''issue'', PDict (fetched_issue ''m3'')),
             (py ''analysis'', PDict (example_analysis ''Plumbing'' ''High''))]]"

text \<open>
  An analysis whose priority is a list, as the model may answer it: gmail.py keeps the
  priority of a parsed answer as it is.
\<close>

definition list_priority_analysis :: pydict where
  "list_priority_analysis =
     setitem (example_analysis ''Electrical'' ''High'') (py ''priority'') (PList [lit ''High''])"

text \<open>The example mailbox without a model: every issue gets the fixed fallback.\<close>

definition dashboard_env :: "nat env" where
  "dashboard_env = example_mail_env\<lparr>cerebras_llm := None\<rparr>"

text \<open>A model that narrates: it answers every prompt with the same sentence.\<close>

definition narrating_env :: "nat env" where
  "narrating_env = example_env (lit ''All quiet.'') example_loads"

definition dashboard_batch :: "pydict list" where
  \<comment> \<open>what \<open>get_dashboard_stats\<close> makes of that mailbox\<close>
  "dashboard_batch =
     [setitem (fetched_issue ''m1'') (py ''analysis'')
        (PDict (backend_fallback_unconfigured (fetched_issue ''m1'')))]"

section \<open>Properties\<close>

subsection \<open>Strings and dictionaries\<close>

lemma py_eq_iff [simp]: "py a = py b \<longleftrightarrow> a = b"
  unfolding py_def by (simp add: inj_on_def)

lemma first_index_lt: "c \<in> set t \<Longrightarrow> length (takeWhile (\<lambda>x. x \<noteq> c) t) < length t"
proof -
  assume "c \<in> set t"
  then have "takeWhile (\<lambda>x. x \<noteq> c) t \<noteq> t"
    by (auto simp: takeWhile_eq_all_conv)
  moreover have "length (takeWhile (\<lambda>x. x \<noteq> c) t) \<le> length t"
    by (rule length_takeWhile_le)
  ultimately show ?thesis
    by (metis le_neq_implies_less takeWhile_eq_take take_all)
qed

lemma first_index_nth: "c \<in> set t \<Longrightarrow> t ! length (takeWhile (\<lambda>x. x \<noteq> c) t) = c"
  using nth_length_takeWhile [of "\<lambda>x. x \<noteq> c" t] first_index_lt [of c t] by simp

lemma first_index_le: "i < length t \<Longrightarrow> t ! i = c \<Longrightarrow> length (takeWhile (\<lambda>x. x \<noteq> c) t) \<le> i"
proof (rule ccontr)
  assume i: "i < length t" and c: "t ! i = c" and "\<not> length (takeWhile (\<lambda>x. x \<noteq> c) t) \<le> i"
  then have lt: "i < length (takeWhile (\<lambda>x. x \<noteq> c) t)" by simp
  then have "takeWhile (\<lambda>x. x \<noteq> c) t ! i \<in> set (takeWhile (\<lambda>x. x \<noteq> c) t)"
    by (rule nth_mem)
  then have "takeWhile (\<lambda>x. x \<noteq> c) t ! i \<noteq> c"
    by (auto dest: set_takeWhileD)
  with lt c show False by (simp add: takeWhile_nth)
qed

lemma py_find_m1 [simp]: "py_find t c = - 1 \<longleftrightarrow> c \<notin> set t"
  by (simp add: py_find_def)

lemma py_find_nth: "c \<in> set t \<Longrightarrow> 0 \<le> py_find t c \<and> nat (py_find t c) < length t \<and> t ! nat (py_find t c) = c"
  by (simp add: py_find_def first_index_lt first_index_nth)

lemma py_find_le: "i < length t \<Longrightarrow> t ! i = c \<Longrightarrow> py_find t c \<le> int i"
  using first_index_le [of i t c] by (auto simp: py_find_def)

lemma py_rfind_nth:
  assumes "c \<in> set t"
  shows "0 \<le> py_rfind t c \<and> nat (py_rfind t c) < length t \<and> t ! nat (py_rfind t c) = c"
proof -
  let ?k = "length (takeWhile (\<lambda>x. x \<noteq> c) (rev t))"
  from assms have c: "c \<in> set (rev t)" by simp
  have k: "?k < length t" using first_index_lt [OF c] by simp
  have n: "rev t ! ?k = c" using first_index_nth [OF c] .
  have r: "py_rfind t c = int (length t - Suc ?k)"
    using assms k by (simp add: py_rfind_def)
  then have r': "0 \<le> py_rfind t c" "nat (py_rfind t c) = length t - Suc ?k"
    by simp_all
  have "rev t ! ?k = t ! (length t - Suc ?k)" using k by (simp add: rev_nth)
  with n k r' show ?thesis by simp
qed

lemma py_rfind_ge:
  assumes "j < length t" "t ! j = c"
  shows "int j \<le> py_rfind t c"
proof -
  let ?k = "length (takeWhile (\<lambda>x. x \<noteq> c) (rev t))"
  from assms have c: "c \<in> set t" by auto
  have "rev t ! (length t - Suc j) = t ! j" using assms by (simp add: rev_nth)
  then have "?k \<le> length t - Suc j"
    using first_index_le [of "length t - Suc j" "rev t" c] assms by simp
  then show ?thesis using c assms by (simp add: py_rfind_def)
qed

lemma brace_pair_iff:
  "(py_find t 123 \<noteq> - 1 \<and> py_rfind t 125 + 1 > py_find t 123) \<longleftrightarrow>
   (\<exists>j<length t. t ! j = 125 \<and> (\<exists>i<j. t ! i = 123))"
proof
  assume a: "py_find t 123 \<noteq> - 1 \<and> py_rfind t 125 + 1 > py_find t 123"
  then have o: "123 \<in> set t" by simp
  have f: "0 \<le> py_find t 123" "nat (py_find t 123) < length t" "t ! nat (py_find t 123) = 123"
    using py_find_nth [OF o] by simp_all
  have c: "125 \<in> set t"
  proof (rule ccontr)
    assume "125 \<notin> set t"
    then have "py_rfind t 125 = - 1" by (simp add: py_rfind_def)
    with a f show False by simp
  qed
  have r: "0 \<le> py_rfind t 125" "nat (py_rfind t 125) < length t" "t ! nat (py_rfind t 125) = 125"
    using py_rfind_nth [OF c] by simp_all
  have "nat (py_find t 123) \<noteq> nat (py_rfind t 125)" using f r by auto
  with a f r have "nat (py_find t 123) < nat (py_rfind t 125)" by linarith
  with f r show "\<exists>j<length t. t ! j = 125 \<and> (\<exists>i<j. t ! i = 123)" by blast
next
  assume "\<exists>j<length t. t ! j = 125 \<and> (\<exists>i<j. t ! i = 123)"
  then obtain i j where ij: "j < length t" "t ! j = 125" "i < j" "t ! i = 123" by blast
  then have "123 \<in> set t" by (metis less_trans nth_mem)
  moreover have "py_find t 123 \<le> int i" using ij py_find_le [of i t 123] by simp
  moreover have "int j \<le> py_rfind t 125" using ij py_rfind_ge [of j t 125] by simp
  ultimately show "py_find t 123 \<noteq> - 1 \<and> py_rfind t 125 + 1 > py_find t 123"
    using ij by simp
qed

subsection \<open>Classification\<close>

lemma map_of_setitem: "map_of (setitem d k v) = (map_of d)(k \<mapsto> v)"
  by (simp add: setitem_def update_conv')

lemma map_of_setdefault:
  "map_of (setdefault d k v) k' = (if k' = k \<and> map_of d k = None then Some v else map_of d k')"
  by (auto simp: setdefault_def map_add_def split: option.splits)

lemma extract_json_unusable:
  "unusable_completion loads content \<Longrightarrow> \<exists>e. extract_json loads msg content = Inl e"
  using brace_pair_iff
  by (cases content) (auto simp: unusable_completion_def extract_json_def has_brace_pair_def
        Let_def isl_def)

lemma request_analysis_degraded:
  "cerebras_llm env = Some invoke \<Longrightarrow> degraded env prompt w \<Longrightarrow>
   \<exists>e w'. request_analysis env invoke prompt msg w = (Inl e, w')"
  using extract_json_unusable [of "json_loads env" _ msg]
  by (auto simp: degraded_def request_analysis_def split: sum.splits prod.splits)

lemma is_fallback_gmail:
  "is_fallback (gmail_fallback_unconfigured issue)" "is_fallback (gmail_fallback_failed issue)"
  by (simp_all add: is_fallback_def gmail_fallback_unconfigured_def gmail_fallback_failed_def)

lemma is_fallback_backend:
  "is_fallback (backend_fallback_unconfigured issue)" "is_fallback (backend_fallback_failed issue)"
  by (simp_all add: is_fallback_def backend_fallback_unconfigured_def backend_fallback_failed_def)

lemma gmail_classify_degraded:
  assumes "degraded env (gmail_prompt (py_repr env) issue) w"
  shows "\<exists>a w'. gmail_classify_maintenance_issue env issue w = (Inr a, w') \<and>
           a \<in> {gmail_fallback_unconfigured issue, gmail_fallback_failed issue}"
proof (cases "cerebras_llm env")
  case None
  then show ?thesis by (simp add: gmail_classify_maintenance_issue_def)
next
  case (Some invoke)
  from request_analysis_degraded [OF Some assms]
  obtain e w' where "request_analysis env invoke (gmail_prompt (py_repr env) issue)
      (py ''No valid JSON found in response'') w = (Inl e, w')"
    by blast
  with Some show ?thesis by (simp add: gmail_classify_maintenance_issue_def)
qed

lemma backend_classify_degraded:
  assumes "degraded env (backend_prompt (py_repr env) issue) w"
  shows "\<exists>a w'. backend_classify_maintenance_issue env issue w = (Inr a, w') \<and>
           a \<in> {backend_fallback_unconfigured issue, backend_fallback_failed issue}"
proof (cases "cerebras_llm env")
  case None
  then show ?thesis by (simp add: backend_classify_maintenance_issue_def)
next
  case (Some invoke)
  from request_analysis_degraded [OF Some assms]
  obtain e w' where "request_analysis env invoke (backend_prompt (py_repr env) issue)
      (py ''Invalid JSON response'') w = (Inl e, w')"
    by blast
  with Some show ?thesis by (simp add: backend_classify_maintenance_issue_def)
qed

lemma gmail_classify_returns:
  "\<exists>a w'. gmail_classify_maintenance_issue env issue w = (Inr a, w')"
  by (auto simp: gmail_classify_maintenance_issue_def
        split: option.splits sum.splits prod.splits pyval.splits)

lemma backend_classify_returns:
  "\<exists>a w'. backend_classify_maintenance_issue env issue w = (Inr a, w')"
  by (auto simp: backend_classify_maintenance_issue_def
        split: option.splits sum.splits prod.splits pyval.splits)

text \<open>
  Claim C1. Whatever the issue and whatever the model does, \<open>classify_maintenance_issue\<close>
  (of either module) returns an analysis and raises nothing. When the model is degraded
  (not configured, raising, or answering with a text that has no brace pair or whose JSON
  does not parse), the analysis is one of the two fixed fallbacks of the module, with
  category \<open>General Inquiry\<close>, priority \<open>Medium\<close> and a non-empty list of action
  items.
\<close>

theorem classify_never_raises:
  "(\<exists>a w'. gmail_classify_maintenance_issue env issue w = (Inr a, w') \<and>
      (degraded env (gmail_prompt (py_repr env) issue) w \<longrightarrow>
         a \<in> {gmail_fallback_unconfigured issue, gmail_fallback_failed issue} \<and> is_fallback a)) \<and>
   (\<exists>a w'. backend_classify_maintenance_issue env issue w = (Inr a, w') \<and>
      (degraded env (backend_prompt (py_repr env) issue) w \<longrightarrow>
         a \<in> {backend_fallback_unconfigured issue, backend_fallback_failed issue} \<and> is_fallback a))"
proof
  show "\<exists>a w'. gmail_classify_maintenance_issue env issue w = (Inr a, w') \<and>
      (degraded env (gmail_prompt (py_repr env) issue) w \<longrightarrow>
         a \<in> {gmail_fallback_unconfigured issue, gmail_fallback_failed issue} \<and> is_fallback a)"
    using gmail_classify_returns [of env issue w] gmail_classify_degraded [of env issue w]
      is_fallback_gmail [of issue]
    by (cases "degraded env (gmail_prompt (py_repr env) issue) w") auto
  show "\<exists>a w'. backend_classify_maintenance_issue env issue w = (Inr a, w') \<and>
      (degraded env (backend_prompt (py_repr env) issue) w \<longrightarrow>
         a \<in> {backend_fallback_unconfigured issue, backend_fallback_failed issue} \<and> is_fallback a)"
    using backend_classify_returns [of env issue w] backend_classify_degraded [of env issue w]
      is_fallback_backend [of issue]
    by (cases "degraded env (backend_prompt (py_repr env) issue) w") auto
qed

lemma has_brace_pair_code:
  "has_brace_pair t \<longleftrightarrow> py_find t 123 \<noteq> - 1 \<and> py_rfind t 125 + 1 > py_find t 123"
  by (simp only: brace_pair_iff has_brace_pair_def)

lemma ex_prompt_g: "\<exists>p. gmail_prompt R example_issue = Inr p"
  by (simp add: gmail_prompt_def example_issue_def getitem_def and_then_def)

lemma ex_prompt_b: "\<exists>p. backend_prompt R example_issue = Inr p"
  by (simp add: backend_prompt_def example_issue_def getitem_def and_then_def)

lemma ex_unusable: "unusable_completion L (PStr (py ''Sorry, I cannot help.''))"
  by (simp add: unusable_completion_def has_brace_pair_code strip_def py_def py_isspace_def)

theorem classify_never_raises_witness:
  "degraded (example_env (PStr (py ''Sorry, I cannot help.'')) example_loads)
     (gmail_prompt (py_repr (example_env (PStr (py ''Sorry, I cannot help.'')) example_loads))
        example_issue) 0 \<and>
   degraded (example_env (PStr (py ''Sorry, I cannot help.'')) example_loads)
     (backend_prompt (py_repr (example_env (PStr (py ''Sorry, I cannot help.'')) example_loads))
        example_issue) 0 \<and>
   (\<exists>a w'. gmail_classify_maintenance_issue
       (example_env (PStr (py ''Sorry, I cannot help.'')) example_loads) example_issue 0 = (Inr a, w')
       \<and> is_fallback a) \<and>
   (\<exists>a w'. backend_classify_maintenance_issue
       (example_env (PStr (py ''Sorry, I cannot help.'')) example_loads) example_issue 0 = (Inr a, w')
       \<and> is_fallback a)"
proof -
  let ?env = "example_env (PStr (py ''Sorry, I cannot help.'')) example_loads"
  have g: "degraded ?env (gmail_prompt (py_repr ?env) example_issue) 0"
    using ex_prompt_g [of "py_repr ?env"] ex_unusable [of example_loads]
    by (auto simp: degraded_def example_env_def)
  have b: "degraded ?env (backend_prompt (py_repr ?env) example_issue) 0"
    using ex_prompt_b [of "py_repr ?env"] ex_unusable [of example_loads]
    by (auto simp: degraded_def example_env_def)
  from g b classify_never_raises [of ?env example_issue 0]
  show ?thesis by blast
qed

lemma map_of_validate_category:
  "map_of (validate_category d) (py ''category'') =
     Some (if dict_get d (py ''category'') PNone \<in> set MAINTENANCE_CATEGORIES
           then dict_get d (py ''category'') PNone else PStr (py ''General Inquiry''))"
  by (auto simp: validate_category_def map_of_setitem dict_get_def MAINTENANCE_CATEGORIES_def
        split: option.splits)

lemma map_of_gmail_ensure_fields_category:
  "map_of (gmail_ensure_fields issue d) (py ''category'') = map_of d (py ''category'')"
  by (simp add: gmail_ensure_fields_def Let_def map_of_setdefault)

lemma request_analysis_parsed:
  assumes "cerebras_llm env = Some invoke" "prompt = Inr p" "invoke p w = (Inr content, w')"
    "extract_json (json_loads env) msg content = Inr v"
  shows "request_analysis env invoke prompt msg w = (Inr v, w')"
  using assms by (simp add: request_analysis_def)

text \<open>
  Claim C2. When the model's completion parses to a JSON object, the analysis that
  \<open>classify_maintenance_issue\<close> (of either module) returns keeps the object's category
  whenever it is one of the five fixed categories, and has the category
  \<open>General Inquiry\<close> whenever the object's category is anything else or is missing.
\<close>

theorem classify_category:
  assumes "cerebras_llm env = Some invoke"
  shows
  "(\<forall>p content w' d.
      gmail_prompt (py_repr env) issue = Inr p \<and> invoke p w = (Inr content, w') \<and>
      extract_json (json_loads env) (py ''No valid JSON found in response'') content = Inr (PDict d) \<longrightarrow>
      (\<exists>a. gmail_classify_maintenance_issue env issue w = (Inr a, w') \<and>
        (\<forall>c \<in> set MAINTENANCE_CATEGORIES.
           map_of d (py ''category'') = Some c \<longrightarrow> map_of a (py ''category'') = Some c) \<and>
        (map_of d (py ''category'') \<notin> Some ` set MAINTENANCE_CATEGORIES \<longrightarrow>
           map_of a (py ''category'') = Some (PStr (py ''General Inquiry''))))) \<and>
   (\<forall>p content w' d.
      backend_prompt (py_repr env) issue = Inr p \<and> invoke p w = (Inr content, w') \<and>
      extract_json (json_loads env) (py ''Invalid JSON response'') content = Inr (PDict d) \<longrightarrow>
      (\<exists>a. backend_classify_maintenance_issue env issue w = (Inr a, w') \<and>
        (\<forall>c \<in> set MAINTENANCE_CATEGORIES.
           map_of d (py ''category'') = Some c \<longrightarrow> map_of a (py ''category'') = Some c) \<and>
        (map_of d (py ''category'') \<notin> Some ` set MAINTENANCE_CATEGORIES \<longrightarrow>
           map_of a (py ''category'') = Some (PStr (py ''General Inquiry'')))))"
proof (intro conjI allI impI)
  fix p content w' d
  assume h: "gmail_prompt (py_repr env) issue = Inr p \<and> invoke p w = (Inr content, w') \<and>
      extract_json (json_loads env) (py ''No valid JSON found in response'') content = Inr (PDict d)"
  then have "request_analysis env invoke (gmail_prompt (py_repr env) issue)
      (py ''No valid JSON found in response'') w = (Inr (PDict d), w')"
    using assms by (simp add: request_analysis_def)
  then have r: "gmail_classify_maintenance_issue env issue w =
      (Inr (gmail_ensure_fields issue (validate_category d)), w')"
    using assms by (simp add: gmail_classify_maintenance_issue_def)
  have c: "map_of (gmail_ensure_fields issue (validate_category d)) (py ''category'') =
     Some (if dict_get d (py ''category'') PNone \<in> set MAINTENANCE_CATEGORIES
           then dict_get d (py ''category'') PNone else PStr (py ''General Inquiry''))"
    by (simp only: map_of_gmail_ensure_fields_category map_of_validate_category)
  show "\<exists>a. gmail_classify_maintenance_issue env issue w = (Inr a, w') \<and>
        (\<forall>c \<in> set MAINTENANCE_CATEGORIES.
           map_of d (py ''category'') = Some c \<longrightarrow> map_of a (py ''category'') = Some c) \<and>
        (map_of d (py ''category'') \<notin> Some ` set MAINTENANCE_CATEGORIES \<longrightarrow>
           map_of a (py ''category'') = Some (PStr (py ''General Inquiry'')))"
    unfolding r using c
    by (auto simp: dict_get_def MAINTENANCE_CATEGORIES_def split: option.splits)
next
  fix p content w' d
  assume h: "backend_prompt (py_repr env) issue = Inr p \<and> invoke p w = (Inr content, w') \<and>
      extract_json (json_loads env) (py ''Invalid JSON response'') content = Inr (PDict d)"
  then have "request_analysis env invoke (backend_prompt (py_repr env) issue)
      (py ''Invalid JSON response'') w = (Inr (PDict d), w')"
    using assms by (simp add: request_analysis_def)
  then have r: "backend_classify_maintenance_issue env issue w =
      (Inr (validate_category d), w')"
    using assms by (simp add: backend_classify_maintenance_issue_def)
  show "\<exists>a. backend_classify_maintenance_issue env issue w = (Inr a, w') \<and>
        (\<forall>c \<in> set MAINTENANCE_CATEGORIES.
           map_of d (py ''category'') = Some c \<longrightarrow> map_of a (py ''category'') = Some c) \<and>
        (map_of d (py ''category'') \<notin> Some ` set MAINTENANCE_CATEGORIES \<longrightarrow>
           map_of a (py ''category'') = Some (PStr (py ''General Inquiry'')))"
    unfolding r using map_of_validate_category [of d]
    by (auto simp: dict_get_def MAINTENANCE_CATEGORIES_def split: option.splits)
qed

lemma extract_electrical:
  "extract_json example_loads msg electrical_completion =
     Inr (PDict [(py ''category'', PStr (py ''Electrical''))])"
  by (simp add: extract_json_def electrical_completion_def example_loads_def strip_def py_def
        py_isspace_def py_find_def py_rfind_def slice_def slice_index_def Let_def)

lemma extract_gardening:
  "extract_json example_loads msg gardening_completion =
     Inr (PDict [(py ''category'', PStr (py ''Gardening'')), (py ''priority'', PStr (py ''High''))])"
  by (simp add: extract_json_def gardening_completion_def example_loads_def strip_def py_def
        py_isspace_def py_find_def py_rfind_def slice_def slice_index_def Let_def)

theorem classify_category_witness:
  "(\<exists>a. gmail_classify_maintenance_issue (example_env electrical_completion example_loads)
          example_issue 0 = (Inr a, 1) \<and>
        map_of a (py ''category'') = Some (PStr (py ''Electrical''))) \<and>
   (\<exists>a. backend_classify_maintenance_issue (example_env electrical_completion example_loads)
          example_issue 0 = (Inr a, 1) \<and>
        map_of a (py ''category'') = Some (PStr (py ''Electrical''))) \<and>
   (\<exists>a. gmail_classify_maintenance_issue (example_env gardening_completion example_loads)
          example_issue 0 = (Inr a, 1) \<and>
        map_of a (py ''category'') = Some (PStr (py ''General Inquiry''))) \<and>
   (\<exists>a. backend_classify_maintenance_issue (example_env gardening_completion example_loads)
          example_issue 0 = (Inr a, 1) \<and>
        map_of a (py ''category'') = Some (PStr (py ''General Inquiry'')))"
proof -
  let ?inv = "\<lambda>c. (\<lambda>(prompt::pystr) w. (Inr c :: exc + pyval, Suc w))"
  let ?E = "example_env electrical_completion example_loads"
  let ?G = "example_env gardening_completion example_loads"
  obtain pg where pg: "gmail_prompt (\<lambda>v. py ''?'') example_issue = Inr pg"
    using ex_prompt_g by blast
  obtain pb where pb: "backend_prompt (\<lambda>v. py ''?'') example_issue = Inr pb"
    using ex_prompt_b by blast
  have E: "cerebras_llm ?E = Some (?inv electrical_completion)"
    and G: "cerebras_llm ?G = Some (?inv gardening_completion)"
    by (simp_all add: example_env_def)
  have el: "PStr (py ''Electrical'') \<in> set MAINTENANCE_CATEGORIES"
    by (simp add: MAINTENANCE_CATEGORIES_def)
  have ga: "Some (PStr (py ''Gardening'')) \<notin> Some ` set MAINTENANCE_CATEGORIES"
    by (simp add: MAINTENANCE_CATEGORIES_def image_iff)
  from classify_category [OF E, of example_issue 0] pg pb el
  have 1: "(\<exists>a. gmail_classify_maintenance_issue ?E example_issue 0 = (Inr a, 1) \<and>
        map_of a (py ''category'') = Some (PStr (py ''Electrical'')))"
    and 2: "(\<exists>a. backend_classify_maintenance_issue ?E example_issue 0 = (Inr a, 1) \<and>
        map_of a (py ''category'') = Some (PStr (py ''Electrical'')))"
    by (auto simp: example_env_def extract_electrical)
  from classify_category [OF G, of example_issue 0] pg pb ga
  have 3: "(\<exists>a. gmail_classify_maintenance_issue ?G example_issue 0 = (Inr a, 1) \<and>
        map_of a (py ''category'') = Some (PStr (py ''General Inquiry'')))"
    and 4: "(\<exists>a. backend_classify_maintenance_issue ?G example_issue 0 = (Inr a, 1) \<and>
        map_of a (py ''category'') = Some (PStr (py ''General Inquiry'')))"
    by (auto simp: example_env_def extract_gardening)
  from 1 2 3 4 show ?thesis by blast
qed

lemma gmail_ensure_fields_defaults:
  "map_of (gmail_ensure_fields issue d) (py ''summary'') =
     Some (case map_of d (py ''summary'') of
             None \<Rightarrow> dict_get issue (py ''snippet'') (PStr (py ''No summary'')) | Some v \<Rightarrow> v)"
  "map_of (gmail_ensure_fields issue d) (py ''priority'') =
     Some (case map_of d (py ''priority'') of None \<Rightarrow> PStr (py ''Medium'') | Some v \<Rightarrow> v)"
  "map_of (gmail_ensure_fields issue d) (py ''root_cause'') =
     Some (case map_of d (py ''root_cause'') of
             None \<Rightarrow> PStr (py ''To be determined'') | Some v \<Rightarrow> v)"
  "map_of (gmail_ensure_fields issue d) (py ''action_items'') =
     Some (case map_of d (py ''action_items'') of
             None \<Rightarrow> PList [PStr (py ''Review and assess'')] | Some v \<Rightarrow> v)"
  by (simp_all add: gmail_ensure_fields_def Let_def map_of_setdefault split: option.splits)

lemma map_of_validate_category_other:
  "k \<noteq> py ''category'' \<Longrightarrow> map_of (validate_category d) k = map_of d k"
  by (simp add: validate_category_def map_of_setitem)

lemma gmail_classify_fills_defaults:
  assumes "cerebras_llm env = Some invoke"
    and "gmail_prompt (py_repr env) issue = Inr p" and "invoke p w = (Inr content, w')"
    and "extract_json (json_loads env) (py ''No valid JSON found in response'') content =
           Inr (PDict d)"
  shows "\<exists>a. gmail_classify_maintenance_issue env issue w = (Inr a, w') \<and>
    map_of a (py ''category'') \<noteq> None \<and>
    map_of a (py ''summary'') =
      Some (case map_of d (py ''summary'') of
              None \<Rightarrow> dict_get issue (py ''snippet'') (PStr (py ''No summary'')) | Some v \<Rightarrow> v) \<and>
    map_of a (py ''priority'') =
      Some (case map_of d (py ''priority'') of None \<Rightarrow> PStr (py ''Medium'') | Some v \<Rightarrow> v) \<and>
    map_of a (py ''root_cause'') =
      Some (case map_of d (py ''root_cause'') of
              None \<Rightarrow> PStr (py ''To be determined'') | Some v \<Rightarrow> v) \<and>
    map_of a (py ''action_items'') =
      Some (case map_of d (py ''action_items'') of
              None \<Rightarrow> PList [PStr (py ''Review and assess'')] | Some v \<Rightarrow> v)"
proof -
  have "request_analysis env invoke (gmail_prompt (py_repr env) issue)
      (py ''No valid JSON found in response'') w = (Inr (PDict d), w')"
    using assms by (simp add: request_analysis_def)
  then have r: "gmail_classify_maintenance_issue env issue w =
      (Inr (gmail_ensure_fields issue (validate_category d)), w')"
    using assms by (simp add: gmail_classify_maintenance_issue_def)
  show ?thesis
    unfolding r
    by (simp add: gmail_ensure_fields_defaults map_of_validate_category_other
          map_of_gmail_ensure_fields_category map_of_validate_category)
qed

text \<open>
  Claim C3, at the input where \<open>classify_maintenance_issue\<close> of backend.py departs from
  it: the model answers with a JSON object that has a category and nothing else. The
  function returns that object as it is, so the analysis has no summary, no priority, no
  root cause and no action items. (The function of gmail.py fills the four defaults, as
  \<open>gmail_classify_fills_defaults\<close> shows.)
\<close>

theorem backend_classify_leaves_fields_missing:
  "\<exists>a. backend_classify_maintenance_issue (example_env electrical_completion example_loads)
          example_issue 0 = (Inr a, 1) \<and>
        a = [(py ''category'', PStr (py ''Electrical''))] \<and>
        map_of a (py ''summary'') = None \<and> map_of a (py ''priority'') = None \<and>
        map_of a (py ''root_cause'') = None \<and> map_of a (py ''action_items'') = None"
proof -
  obtain pb where pb: "backend_prompt (\<lambda>v. py ''?'') example_issue = Inr pb"
    using ex_prompt_b by blast
  have "request_analysis (example_env electrical_completion example_loads)
          (\<lambda>prompt w. (Inr electrical_completion, Suc w))
          (backend_prompt (\<lambda>v. py ''?'') example_issue) (py ''Invalid JSON response'') 0 =
        (Inr (PDict [(py ''category'', PStr (py ''Electrical''))]), 1)"
    by (simp add: request_analysis_def pb example_env_def extract_electrical)
  then show ?thesis
    by (simp add: backend_classify_maintenance_issue_def example_env_def validate_category_def
          dict_get_def MAINTENANCE_CATEGORIES_def)
qed

subsection \<open>Fetching\<close>

lemma next_header_total:
  "list_all is_header hs \<Longrightarrow>
   \<exists>v. next_header hs name dflt = Inr v \<and> (\<not> has_header hs name \<longrightarrow> v = dflt)"
proof (induction hs)
  case Nil
  then show ?case by (simp add: has_header_def)
next
  case (Cons h hs)
  then show ?case
    by (cases h) (auto simp: is_header_def has_header_def subscript_def getitem_def
          split: if_splits)
qed

lemma and_then_Inr: "and_then r f = Inr y \<Longrightarrow> \<exists>x. r = Inr x \<and> f x = Inr y"
  by (cases r) (simp_all add: and_then_def)

lemma issue_of_message_keys:
  assumes "issue_of_message msg_id msg_data = Inr issue"
  shows "map fst issue = issue_keys"
proof -
  from assms obtain subject sender date where
    "(case msg_data of
        PDict m \<Rightarrow>
          Inr [(py ''id'', msg_id),
               (py ''subject'', subject),
               (py ''sender'', sender),
               (py ''date'', date),
               (py ''snippet'', dict_get m (py ''snippet'') (PStr []))]
      | _ \<Rightarrow> Inl AttributeError) = Inr issue"
    unfolding issue_of_message_def by (blast dest!: and_then_Inr)
  then show ?thesis
    by (cases msg_data) (auto simp: issue_keys_def)
qed

lemma fetch_loop_keys:
  "fetch_loop g msgs acc w = (Inr issues, w') \<Longrightarrow>
   \<forall>issue \<in> set acc. map fst issue = issue_keys \<Longrightarrow>
   \<forall>issue \<in> set issues. map fst issue = issue_keys"
proof (induction g msgs acc w rule: fetch_loop.induct)
  case (1 g issue_list w)
  then show ?case by simp
next
  case (2 g msg msgs issue_list w)
  from "2.prems"(1) obtain msg_id where i: "subscript msg (py ''id'') = Inr msg_id"
    by (cases "subscript msg (py ''id'')") simp_all
  obtain r w1 where m: "messages_get g msg_id w = (r, w1)"
    by (cases "messages_get g msg_id w")
  from "2.prems"(1) i m obtain msg_data where d: "r = Inr msg_data"
    by (cases r) simp_all
  from "2.prems"(1) i m d obtain issue where
    s: "issue_of_message msg_id msg_data = Inr issue"
    by (cases "issue_of_message msg_id msg_data") simp_all
  from "2.prems"(1) i m d s
  have l: "fetch_loop g msgs (issue_list @ [issue]) w1 = (Inr issues, w')" by simp
  have v: "\<forall>x \<in> set (issue_list @ [issue]). map fst x = issue_keys"
    using "2.prems"(2) issue_of_message_keys [OF s] by simp
  show ?case by (rule "2.IH" [OF i m [symmetric] d s l v])
qed

lemma fetch_messages_keys:
  assumes "fetch_messages g n w = (Inr issues, w')"
  shows "\<forall>issue \<in> set issues. map fst issue = issue_keys"
proof -
  obtain r w1 where l: "messages_list g n w = (r, w1)" by (cases "messages_list g n w")
  from assms l obtain m msgs where "fetch_loop g msgs [] w1 = (Inr issues, w')"
    by (auto simp: fetch_messages_def split: sum.splits pyval.splits)
  from fetch_loop_keys [OF this] show ?thesis by simp
qed

lemma gmail_fetch_keys:
  assumes "gmail_fetch_gmail_issues env w = (Inr issues, w')"
  shows "\<forall>issue \<in> set issues. map fst issue = issue_keys"
proof (cases "gmail_service env")
  case None
  with assms show ?thesis by (simp add: gmail_fetch_gmail_issues_def)
next
  case (Some g)
  with assms have "fetch_messages g (PInt 10) w = (Inr issues, w')"
    by (simp add: gmail_fetch_gmail_issues_def)
  then show ?thesis by (rule fetch_messages_keys)
qed

lemma backend_fetch_keys:
  assumes "backend_fetch_gmail_issues env max_results w = (Inr issues, w')"
  shows "\<forall>issue \<in> set issues. map fst issue = issue_keys"
proof (cases "gmail_service env")
  case None
  with assms show ?thesis by (simp add: backend_fetch_gmail_issues_def)
next
  case (Some g)
  obtain r w1 where f: "fetch_messages g max_results w = (r, w1)"
    by (cases "fetch_messages g max_results w")
  with assms Some have "fetch_messages g max_results w = (Inr issues, w')"
    by (cases r) (simp_all add: backend_fetch_gmail_issues_def)
  then show ?thesis by (rule fetch_messages_keys)
qed

lemma issue_of_message_defaults:
  assumes h: "headers_of msg_data = Some hs"
  shows "\<exists>issue. issue_of_message msg_id msg_data = Inr issue \<and>
         map fst issue = issue_keys \<and>
         map_of issue (py ''id'') = Some msg_id \<and>
         (\<not> has_header hs (py ''Subject'') \<longrightarrow>
            map_of issue (py ''subject'') = Some (PStr (py ''(No Subject)''))) \<and>
         (\<not> has_header hs (py ''From'') \<longrightarrow>
            map_of issue (py ''sender'') = Some (PStr (py ''(Unknown)''))) \<and>
         (\<not> has_header hs (py ''Date'') \<longrightarrow> map_of issue (py ''date'') = Some (PStr [])) \<and>
         (subscript msg_data (py ''snippet'') = Inl (KeyError (py ''snippet'')) \<longrightarrow>
            map_of issue (py ''snippet'') = Some (PStr []))"
proof -
  from h obtain m p where m: "msg_data = PDict m" "map_of m (py ''payload'') = Some (PDict p)"
      "map_of p (py ''headers'') = Some (PList hs)" "list_all is_header hs"
    by (auto simp: headers_of_def split: pyval.splits option.splits if_splits)
  obtain s where s: "next_header hs (py ''Subject'') (PStr (py ''(No Subject)'')) = Inr s"
      "\<not> has_header hs (py ''Subject'') \<longrightarrow> s = PStr (py ''(No Subject)'')"
    using next_header_total [OF m(4)] by blast
  obtain f where f: "next_header hs (py ''From'') (PStr (py ''(Unknown)'')) = Inr f"
      "\<not> has_header hs (py ''From'') \<longrightarrow> f = PStr (py ''(Unknown)'')"
    using next_header_total [OF m(4)] by blast
  obtain d where d: "next_header hs (py ''Date'') (PStr []) = Inr d"
      "\<not> has_header hs (py ''Date'') \<longrightarrow> d = PStr []"
    using next_header_total [OF m(4)] by blast
  have "issue_of_message msg_id msg_data =
      Inr [(py ''id'', msg_id), (py ''subject'', s), (py ''sender'', f), (py ''date'', d),
           (py ''snippet'', dict_get m (py ''snippet'') (PStr []))]"
    using m s(1) f(1) d(1)
    by (simp add: issue_of_message_def and_then_def subscript_def getitem_def py_iter_def)
  then show ?thesis
    using s(2) f(2) d(2) m(1)
    by (auto simp: issue_keys_def subscript_def getitem_def dict_get_def split: option.splits)
qed

lemma fetch_loop_retrieved:
  "fetch_loop g msgs acc w = (Inr issues, w') \<Longrightarrow>
   \<exists>new. issues = acc @ new \<and> length new = length msgs \<and>
     list_all2 (\<lambda>issue r. issue_of_message (fst r) (snd r) = Inr issue) new (retrieved g msgs w)"
proof (induction g msgs acc w rule: fetch_loop.induct)
  case (1 g issue_list w)
  then show ?case by simp
next
  case (2 g msg msgs issue_list w)
  from "2.prems"(1) obtain msg_id where i: "subscript msg (py ''id'') = Inr msg_id"
    by (cases "subscript msg (py ''id'')") simp_all
  obtain r w1 where m: "messages_get g msg_id w = (r, w1)"
    by (cases "messages_get g msg_id w")
  from "2.prems"(1) i m obtain msg_data where d: "r = Inr msg_data"
    by (cases r) simp_all
  from "2.prems"(1) i m d obtain issue where
    s: "issue_of_message msg_id msg_data = Inr issue"
    by (cases "issue_of_message msg_id msg_data") simp_all
  from "2.prems"(1) i m d s
  have l: "fetch_loop g msgs (issue_list @ [issue]) w1 = (Inr issues, w')" by simp
  from "2.IH" [OF i m [symmetric] d s l] obtain new where
    n: "issues = (issue_list @ [issue]) @ new" "length new = length msgs"
      "list_all2 (\<lambda>issue r. issue_of_message (fst r) (snd r) = Inr issue) new (retrieved g msgs w1)"
    by blast
  have "issues = issue_list @ (issue # new)" using n(1) by simp
  moreover have "length (issue # new) = length (msg # msgs)" using n(2) by simp
  moreover have "list_all2 (\<lambda>issue r. issue_of_message (fst r) (snd r) = Inr issue)
      (issue # new) (retrieved g (msg # msgs) w)"
    using n(3) i m d s by simp
  ultimately show ?case by blast
qed

lemma fetch_messages_retrieved:
  assumes "fetch_messages g n w = (Inr issues, w')"
  shows "\<exists>msgs w1. listed_messages g n w = Some (msgs, w1) \<and> length issues = length msgs \<and>
     list_all2 (\<lambda>issue r. issue_of_message (fst r) (snd r) = Inr issue) issues
       (retrieved g msgs w1)"
proof -
  obtain r w1 where l: "messages_list g n w = (r, w1)" by (cases "messages_list g n w")
  from assms l obtain m where r: "r = Inr (PDict m)"
    by (auto simp: fetch_messages_def split: sum.splits pyval.splits)
  from assms l r obtain msgs where
    i: "py_iter (dict_get m (py ''messages'') (PList [])) = Inr msgs"
    and f: "fetch_loop g msgs [] w1 = (Inr issues, w')"
    by (auto simp: fetch_messages_def split: sum.splits)
  have "listed_messages g n w = Some (msgs, w1)"
    using l r i by (simp add: listed_messages_def)
  with fetch_loop_retrieved [OF f] show ?thesis by auto
qed

lemma fetch_loop_total:
  assumes "answers_well g"
  shows "list_all has_id msgs \<Longrightarrow> \<exists>issues w'. fetch_loop g msgs acc w = (Inr issues, w')"
proof (induction msgs arbitrary: acc w)
  case Nil
  then show ?case by simp
next
  case (Cons msg msgs)
  from Cons.prems obtain msg_id where i: "subscript msg (py ''id'') = Inr msg_id"
    by (cases "subscript msg (py ''id'')") (simp_all add: has_id_def)
  obtain r w1 where m: "messages_get g msg_id w = (r, w1)"
    by (cases "messages_get g msg_id w")
  from assms m obtain msg_data hs where d: "r = Inr msg_data" "headers_of msg_data = Some hs"
    by (cases r) (auto simp: answers_well_def dest!: spec [of _ msg_id] spec [of _ w])
  from issue_of_message_defaults [OF d(2)] obtain issue where
    s: "issue_of_message msg_id msg_data = Inr issue" by blast
  from Cons.prems have "list_all has_id msgs" by simp
  from Cons.IH [OF this, of "acc @ [issue]" w1] i m d s show ?case by simp
qed

lemma fetch_messages_total:
  assumes "answers_well g" "listed_messages g n w = Some (msgs, w1)" "list_all has_id msgs"
  shows "\<exists>issues w'. fetch_messages g n w = (Inr issues, w')"
proof -
  obtain r w2 where l: "messages_list g n w = (r, w2)" by (cases "messages_list g n w")
  from assms(2) l obtain m where r: "r = Inr (PDict m)" and w: "w2 = w1"
    and i: "py_iter (dict_get m (py ''messages'') (PList [])) = Inr msgs"
    by (auto simp: listed_messages_def split: sum.splits pyval.splits)
  from fetch_loop_total [OF assms(1,3), of "[]" w1] l r w i show ?thesis
    by (simp add: fetch_messages_def)
qed

text \<open>
  Claim C10. \<open>fetch_gmail_issues\<close> (the same loop in both modules) returns one record
  for each entry that the listing call of the mail service returns, in the order of the
  listing, and the record of an entry is the one that the loop body builds from the
  identifier of the entry and the message retrieved for it. For every message whose payload
  carries a list of name/value headers that record has exactly the five fields \<open>id\<close>,
  \<open>subject\<close>, \<open>sender\<close>, \<open>date\<close> and \<open>snippet\<close>; the \<open>id\<close> is the identifier of the
  entry, the subject is \<open>(No Subject)\<close> without a \<open>Subject\<close> header, the sender
  \<open>(Unknown)\<close> without a \<open>From\<close> header, the date empty without a \<open>Date\<close> header and
  the snippet empty when the message has none. Every record returned has the five fields.
  When the listing succeeds, every entry has an \<open>id\<close> and every retrieval gives a message
  of that shape, the function of either module returns.
\<close>

theorem fetch_gmail_issues_fields:
  "(\<forall>hs. headers_of msg_data = Some hs \<longrightarrow>
      (\<exists>issue. issue_of_message msg_id msg_data = Inr issue \<and>
         map fst issue = issue_keys \<and>
         map_of issue (py ''id'') = Some msg_id \<and>
         (\<not> has_header hs (py ''Subject'') \<longrightarrow>
            map_of issue (py ''subject'') = Some (PStr (py ''(No Subject)''))) \<and>
         (\<not> has_header hs (py ''From'') \<longrightarrow>
            map_of issue (py ''sender'') = Some (PStr (py ''(Unknown)''))) \<and>
         (\<not> has_header hs (py ''Date'') \<longrightarrow> map_of issue (py ''date'') = Some (PStr [])) \<and>
         (subscript msg_data (py ''snippet'') = Inl (KeyError (py ''snippet'')) \<longrightarrow>
            map_of issue (py ''snippet'') = Some (PStr [])))) \<and>
   (\<forall>issues w'. gmail_fetch_gmail_issues env w = (Inr issues, w') \<longrightarrow>
      (\<forall>issue \<in> set issues. map fst issue = issue_keys) \<and>
      (\<exists>g msgs w1. gmail_service env = Some g \<and>
         listed_messages g (PInt 10) w = Some (msgs, w1) \<and>
         length issues = length msgs \<and>
         list_all2 (\<lambda>issue r. issue_of_message (fst r) (snd r) = Inr issue) issues
           (retrieved g msgs w1))) \<and>
   (\<forall>issues w'. backend_fetch_gmail_issues env max_results w = (Inr issues, w') \<longrightarrow>
      (\<forall>issue \<in> set issues. map fst issue = issue_keys) \<and>
      (\<exists>g msgs w1. gmail_service env = Some g \<and>
         listed_messages g max_results w = Some (msgs, w1) \<and>
         length issues = length msgs \<and>
         list_all2 (\<lambda>issue r. issue_of_message (fst r) (snd r) = Inr issue) issues
           (retrieved g msgs w1))) \<and>
   (\<forall>g msgs w1. gmail_service env = Some g \<and> answers_well g \<and> list_all has_id msgs \<longrightarrow>
      (listed_messages g (PInt 10) w = Some (msgs, w1) \<longrightarrow>
         (\<exists>issues w'. gmail_fetch_gmail_issues env w = (Inr issues, w'))) \<and>
      (listed_messages g max_results w = Some (msgs, w1) \<longrightarrow>
         (\<exists>issues w'. backend_fetch_gmail_issues env max_results w = (Inr issues, w'))))"
proof -
  have 1: "\<exists>issue. issue_of_message msg_id msg_data = Inr issue \<and>
         map fst issue = issue_keys \<and>
         map_of issue (py ''id'') = Some msg_id \<and>
         (\<not> has_header hs (py ''Subject'') \<longrightarrow>
            map_of issue (py ''subject'') = Some (PStr (py ''(No Subject)''))) \<and>
         (\<not> has_header hs (py ''From'') \<longrightarrow>
            map_of issue (py ''sender'') = Some (PStr (py ''(Unknown)''))) \<and>
         (\<not> has_header hs (py ''Date'') \<longrightarrow> map_of issue (py ''date'') = Some (PStr [])) \<and>
         (subscript msg_data (py ''snippet'') = Inl (KeyError (py ''snippet'')) \<longrightarrow>
            map_of issue (py ''snippet'') = Some (PStr []))"
    if "headers_of msg_data = Some hs" for hs
    using that by (rule issue_of_message_defaults)
  have 2: "(\<forall>issue \<in> set issues. map fst issue = issue_keys) \<and>
      (\<exists>g msgs w1. gmail_service env = Some g \<and>
         listed_messages g (PInt 10) w = Some (msgs, w1) \<and>
         length issues = length msgs \<and>
         list_all2 (\<lambda>issue r. issue_of_message (fst r) (snd r) = Inr issue) issues
           (retrieved g msgs w1))"
    if a: "gmail_fetch_gmail_issues env w = (Inr issues, w')" for issues w'
  proof -
    from a obtain g where g: "gmail_service env = Some g"
      and f: "fetch_messages g (PInt 10) w = (Inr issues, w')"
      by (cases "gmail_service env") (simp_all add: gmail_fetch_gmail_issues_def)
    from fetch_messages_retrieved [OF f] g gmail_fetch_keys [OF a] show ?thesis by blast
  qed
  have 3: "(\<forall>issue \<in> set issues. map fst issue = issue_keys) \<and>
      (\<exists>g msgs w1. gmail_service env = Some g \<and>
         listed_messages g max_results w = Some (msgs, w1) \<and>
         length issues = length msgs \<and>
         list_all2 (\<lambda>issue r. issue_of_message (fst r) (snd r) = Inr issue) issues
           (retrieved g msgs w1))"
    if a: "backend_fetch_gmail_issues env max_results w = (Inr issues, w')" for issues w'
  proof -
    from a obtain g where g: "gmail_service env = Some g"
      by (cases "gmail_service env") (simp_all add: backend_fetch_gmail_issues_def)
    obtain r w2 where f: "fetch_messages g max_results w = (r, w2)"
      by (cases "fetch_messages g max_results w")
    with a g have f': "fetch_messages g max_results w = (Inr issues, w')"
      by (cases r) (simp_all add: backend_fetch_gmail_issues_def)
    from fetch_messages_retrieved [OF f'] g backend_fetch_keys [OF a] show ?thesis by blast
  qed
  have 4: "(listed_messages g (PInt 10) w = Some (msgs, w1) \<longrightarrow>
         (\<exists>issues w'. gmail_fetch_gmail_issues env w = (Inr issues, w'))) \<and>
      (listed_messages g max_results w = Some (msgs, w1) \<longrightarrow>
         (\<exists>issues w'. backend_fetch_gmail_issues env max_results w = (Inr issues, w')))"
    if g: "gmail_service env = Some g" and aw: "answers_well g" and ids: "list_all has_id msgs"
    for g msgs w1
  proof (intro conjI impI)
    assume "listed_messages g (PInt 10) w = Some (msgs, w1)"
    from fetch_messages_total [OF aw this ids] g
    show "\<exists>issues w'. gmail_fetch_gmail_issues env w = (Inr issues, w')"
      by (simp add: gmail_fetch_gmail_issues_def)
  next
    assume "listed_messages g max_results w = Some (msgs, w1)"
    from fetch_messages_total [OF aw this ids] obtain issues w' where
      "fetch_messages g max_results w = (Inr issues, w')" by blast
    with g show "\<exists>issues w'. backend_fetch_gmail_issues env max_results w = (Inr issues, w')"
      by (simp add: backend_fetch_gmail_issues_def)
  qed
  from 1 2 3 4 show ?thesis by blast
qed

lemma example_headers:
  "headers_of example_message =
     Some [PDict [(py ''name'', PStr (py ''From'')), (py ''value'', PStr (py ''tenant@example.com''))]]"
  by (simp add: headers_of_def example_message_def is_header_def)

lemma example_listed:
  "listed_messages example_gmail n 0 = Some ([PDict [(py ''id'', lit ''m1'')]], 1)"
  by (simp add: listed_messages_def example_gmail_def py_iter_def dict_get_def)

lemma example_retrieved:
  "retrieved example_gmail [PDict [(py ''id'', lit ''m1'')]] w = [(lit ''m1'', example_message)]"
  by (simp add: example_gmail_def subscript_def getitem_def)

lemma example_answers_well: "answers_well example_gmail"
  by (simp add: answers_well_def example_gmail_def example_headers)

theorem fetch_gmail_issues_fields_witness:
  "headers_of example_message =
     Some [PDict [(py ''name'', lit ''From''), (py ''value'', lit ''tenant@example.com'')]] \<and>
   (\<exists>issue. issue_of_message (lit ''m1'') example_message = Inr issue \<and>
      map fst issue = issue_keys \<and>
      map_of issue (py ''subject'') = Some (lit ''(No Subject)'') \<and>
      map_of issue (py ''date'') = Some (PStr []) \<and>
      map_of issue (py ''snippet'') = Some (PStr [])) \<and>
   answers_well example_gmail \<and>
   listed_messages example_gmail (PInt 10) 0 = Some ([PDict [(py ''id'', lit ''m1'')]], 1) \<and>
   retrieved example_gmail [PDict [(py ''id'', lit ''m1'')]] 1 = [(lit ''m1'', example_message)] \<and>
   (\<exists>issue w'. gmail_fetch_gmail_issues example_mail_env 0 = (Inr [issue], w') \<and>
      issue_of_message (lit ''m1'') example_message = Inr issue \<and>
      map fst issue = issue_keys) \<and>
   (\<exists>issue w'. backend_fetch_gmail_issues example_mail_env (PInt 20) 0 = (Inr [issue], w') \<and>
      issue_of_message (lit ''m1'') example_message = Inr issue \<and>
      map fst issue = issue_keys)"
proof -
  note t = fetch_gmail_issues_fields [of example_message "lit ''m1''" example_mail_env 0 "PInt 20"]
  note t1 = t [THEN conjunct1, rule_format, OF example_headers]
  have nh: "\<not> has_header [PDict [(py ''name'', lit ''From''),
                (py ''value'', lit ''tenant@example.com'')]] (py ''Subject'')"
    "\<not> has_header [PDict [(py ''name'', lit ''From''),
                (py ''value'', lit ''tenant@example.com'')]] (py ''Date'')"
    by (simp_all add: has_header_def subscript_def getitem_def)
  have ns: "subscript example_message (py ''snippet'') = Inl (KeyError (py ''snippet''))"
    by (simp add: example_message_def subscript_def getitem_def)
  from t1 nh ns have 1: "\<exists>issue. issue_of_message (lit ''m1'') example_message = Inr issue \<and>
      map fst issue = issue_keys \<and>
      map_of issue (py ''subject'') = Some (lit ''(No Subject)'') \<and>
      map_of issue (py ''date'') = Some (PStr []) \<and>
      map_of issue (py ''snippet'') = Some (PStr [])"
    by (elim exE conjE) (intro exI conjI, assumption+, simp_all)
  have g: "gmail_service example_mail_env = Some example_gmail"
    by (simp add: example_mail_env_def)
  have ids: "list_all has_id [PDict [(py ''id'', lit ''m1'')]]"
    by (simp add: has_id_def subscript_def getitem_def)
  note t4 = t [THEN conjunct2, THEN conjunct2, THEN conjunct2, rule_format,
      of example_gmail "[PDict [(py ''id'', lit ''m1'')]]" 1, OF conjI [OF g conjI [OF example_answers_well ids]]]
  from t4 [THEN conjunct1, rule_format, OF example_listed]
  obtain gi gw where gf: "gmail_fetch_gmail_issues example_mail_env 0 = (Inr gi, gw)" by blast
  from t4 [THEN conjunct2, rule_format, OF example_listed]
  obtain bi bw where bf: "backend_fetch_gmail_issues example_mail_env (PInt 20) 0 = (Inr bi, bw)"
    by blast
  from t [THEN conjunct2, THEN conjunct1, rule_format, OF gf] g
  have gk: "\<forall>issue \<in> set gi. map fst issue = issue_keys"
    and gr: "length gi = 1 \<and>
      list_all2 (\<lambda>issue r. issue_of_message (fst r) (snd r) = Inr issue) gi
        [(lit ''m1'', example_message)]"
    by (auto simp: example_listed example_retrieved simp del: retrieved.simps)
  from t [THEN conjunct2, THEN conjunct2, THEN conjunct1, rule_format, OF bf] g
  have bk: "\<forall>issue \<in> set bi. map fst issue = issue_keys"
    and br: "length bi = 1 \<and>
      list_all2 (\<lambda>issue r. issue_of_message (fst r) (snd r) = Inr issue) bi
        [(lit ''m1'', example_message)]"
    by (auto simp: example_listed example_retrieved simp del: retrieved.simps)
  from gr obtain gissue where gi: "gi = [gissue]"
      "issue_of_message (lit ''m1'') example_message = Inr gissue"
    by (cases gi) (auto simp: list_all2_Cons1)
  from br obtain bissue where bi: "bi = [bissue]"
      "issue_of_message (lit ''m1'') example_message = Inr bissue"
    by (cases bi) (auto simp: list_all2_Cons1)
  have 2: "\<exists>issue w'. gmail_fetch_gmail_issues example_mail_env 0 = (Inr [issue], w') \<and>
      issue_of_message (lit ''m1'') example_message = Inr issue \<and> map fst issue = issue_keys"
    using gf gi gk by auto
  have 3: "\<exists>issue w'. backend_fetch_gmail_issues example_mail_env (PInt 20) 0 = (Inr [issue], w') \<and>
      issue_of_message (lit ''m1'') example_message = Inr issue \<and> map fst issue = issue_keys"
    using bf bi bk by auto
  from example_headers 1 example_answers_well example_listed [of "PInt 10"]
    example_retrieved [of 1] 2 3
  show ?thesis by (intro conjI)
qed

subsection \<open>The sinks\<close>

lemma slice_to_len: "slice_to v 2000 = Inr c \<Longrightarrow> py_len c \<le> 2000"
  by (cases v) (auto simp: slice_to_def py_len_def slice_def slice_index_def Let_def)

lemma length_slice_2000: "length (slice s 0 2000) \<le> 2000"
  by (simp add: slice_def slice_index_def Let_def)

lemma py_len_PStr: "py_len (PStr s) = length s"
  by (simp add: py_len_def)

lemma length_py: "length (py s) = length s"
  by (simp add: py_def)

lemma and_then_InrE:
  assumes "and_then r f = Inr y"
  obtains x where "r = Inr x" "f x = Inr y"
  using assms by (cases r) (simp_all add: and_then_def)

lemma gmail_notion_page_contents:
  "gmail_notion_page env w issue analysis = Inr page \<Longrightarrow>
   \<forall>c \<in> set (page_contents page). py_len c \<le> 2000"
  unfolding gmail_notion_page_def
  apply (elim and_then_InrE)
  apply (drule slice_to_len)+
  apply (auto simp: page_contents_def subject_content_def sender_content_def
          heading_contents_def paragraph_contents_def heading_2_def paragraph_block_def page_properties_def
          py_len_PStr length_py length_slice_2000)
  done

lemma backend_notion_page_contents:
  "backend_notion_page env w issue analysis = Inr page \<Longrightarrow>
   \<forall>c \<in> set (page_contents page). py_len c \<le> 2000"
  unfolding backend_notion_page_def
  apply (elim and_then_InrE)
  apply (drule slice_to_len)+
  apply (auto simp: page_contents_def subject_content_def sender_content_def
          heading_contents_def paragraph_contents_def heading_2_def paragraph_block_def page_properties_def
          py_len_PStr length_py length_slice_2000)
  done

lemmas slack_format_defs =
  format_maintenance_slack_message_def slack_notification_def and_then_def getitem_def
  emoji_get_def emoji_of_def hashable_def gmail_category_emojis_def gmail_priority_emojis_def
  backend_category_emojis_def backend_priority_emojis_def
  action_items_text_def dict_get_def py_iter_def py_truthy_def
  header_block_def section_fields_def section_text_def mrkdwn_def divider_def
  gmail_bullet_def backend_bullet_def

text \<open>
  Claim C8 as stated, refuted: an issue whose subject has 2001 characters is notified.
  The message that reaches the channel (from \<open>main\<close> of gmail.py, and from
  \<open>send_slack_notification\<close> of backend.py) carries a fallback text of 2038 (2024)
  characters and a subject block of 2012: the notification sink cuts nothing.
\<close>

theorem slack_texts_not_truncated:
  "map length (concat (map texts (snd (notify recording_env long_subject_issue
          (gmail_fallback_unconfigured long_subject_issue) [])))) =
     [2038, 25, 29, 20, 26, 18, 2012, 25, 55, 42] \<and>
   map length (concat (map texts (snd (send_slack_notification recording_env long_subject_issue
          (backend_fallback_unconfigured long_subject_issue) [])))) =
     [2024, 28, 32, 23, 2012, 28, 59, 54]"
  by (simp add: notify_def send_slack_message_def send_slack_notification_def slack_format_defs
        recording_env_def long_subject_issue_def gmail_fallback_unconfigured_def
        backend_fallback_unconfigured_def Let_def length_py)

lemma gmail_add_to_notion_configured:
  "notion env = Some create \<Longrightarrow>
   gmail_add_to_notion env issue analysis w =
     (case gmail_notion_page env w issue analysis of
        Inl e \<Rightarrow> (Inr (), w)
      | Inr page \<Rightarrow> (Inr (), snd (create page w)))"
  by (cases "gmail_notion_page env w issue analysis")
     (auto simp: gmail_add_to_notion_def split: prod.splits sum.splits)

lemma backend_add_to_notion_configured:
  "notion env = Some create \<Longrightarrow>
   backend_add_to_notion env issue analysis w =
     (case backend_notion_page env w issue analysis of
        Inl e \<Rightarrow> (Inr (), w)
      | Inr page \<Rightarrow> (Inr (), snd (create page w)))"
  by (cases "backend_notion_page env w issue analysis")
     (auto simp: backend_add_to_notion_def split: prod.splits sum.splits)

lemma slice_2000: "slice s 0 2000 = take 2000 s"
  by (simp add: slice_def slice_index_def Let_def min_def)

lemma slice_to_take:
  "slice_to (PStr s) 2000 = Inr (PStr (take 2000 s))"
  "slice_to (PList xs) 2000 = Inr (PList (take 2000 xs))"
  by (simp_all add: slice_to_def slice_2000)

lemma getitem_Inr: "getitem d k = Inr v \<Longrightarrow> map_of d k = Some v"
  by (simp add: getitem_def split: option.splits)

lemmas page_content_defs =
  subject_content_def sender_content_def heading_contents_def paragraph_contents_def
  heading_2_def paragraph_block_def page_properties_def

lemma gmail_notion_page_written:
  "gmail_notion_page env w issue analysis = Inr page \<Longrightarrow>
   \<exists>subject sender summary root_cause snippet items_text.
     map_of issue (py ''subject'') = Some subject \<and>
     map_of issue (py ''sender'') = Some sender \<and>
     map_of analysis (py ''summary'') = Some summary \<and>
     map_of analysis (py ''root_cause'') = Some root_cause \<and>
     map_of issue (py ''snippet'') = Some snippet \<and>
     action_items_text (py_repr env) gmail_bullet analysis = Inr items_text \<and>
     map Inr (subject_content page) = [slice_to subject 2000] \<and>
     map Inr (sender_content page) = [slice_to sender 2000] \<and>
     map Inr (paragraph_contents page) =
       [slice_to summary 2000, slice_to root_cause 2000, Inr (PStr (take 2000 items_text)),
        slice_to snippet 2000]"
  unfolding gmail_notion_page_def
  apply (elim and_then_InrE)
  apply (drule getitem_Inr)+
  apply (auto simp: page_content_defs slice_2000)
  done

lemma backend_notion_page_written:
  "backend_notion_page env w issue analysis = Inr page \<Longrightarrow>
   \<exists>subject sender summary root_cause items_text.
     map_of issue (py ''subject'') = Some subject \<and>
     map_of issue (py ''sender'') = Some sender \<and>
     map_of analysis (py ''summary'') = Some summary \<and>
     map_of analysis (py ''root_cause'') = Some root_cause \<and>
     action_items_text (py_repr env) backend_bullet analysis = Inr items_text \<and>
     map Inr (subject_content page) = [slice_to subject 2000] \<and>
     map Inr (sender_content page) = [slice_to sender 2000] \<and>
     map Inr (paragraph_contents page) =
       [slice_to summary 2000, slice_to root_cause 2000, Inr (PStr (take 2000 items_text))]"
  unfolding backend_notion_page_def
  apply (elim and_then_InrE)
  apply (drule getitem_Inr)+
  apply (auto simp: page_content_defs slice_2000)
  done

lemma gmail_notion_page_of_strings:
  assumes "map_of issue (py ''subject'') = Some (PStr s)"
    "map_of issue (py ''sender'') = Some (PStr n)"
    "map_of issue (py ''snippet'') = Some (PStr p)"
    "map_of analysis (py ''category'') = Some category"
    "map_of analysis (py ''priority'') = Some priority"
    "map_of analysis (py ''summary'') = Some (PStr a)"
    "map_of analysis (py ''root_cause'') = Some (PStr b)"
    "action_items_text (py_repr env) gmail_bullet analysis = Inr t"
  shows "\<exists>page. gmail_notion_page env w issue analysis = Inr page \<and>
     subject_content page = [PStr (take 2000 s)] \<and>
     sender_content page = [PStr (take 2000 n)] \<and>
     paragraph_contents page =
       [PStr (take 2000 a), PStr (take 2000 b), PStr (take 2000 t), PStr (take 2000 p)]"
  using assms
  by (simp add: gmail_notion_page_def and_then_def getitem_def slice_to_take slice_2000
        page_content_defs)

lemma backend_notion_page_of_strings:
  assumes "map_of issue (py ''subject'') = Some (PStr s)"
    "map_of issue (py ''sender'') = Some (PStr n)"
    "map_of analysis (py ''category'') = Some category"
    "map_of analysis (py ''priority'') = Some priority"
    "map_of analysis (py ''summary'') = Some (PStr a)"
    "map_of analysis (py ''root_cause'') = Some (PStr b)"
    "action_items_text (py_repr env) backend_bullet analysis = Inr t"
  shows "\<exists>page. backend_notion_page env w issue analysis = Inr page \<and>
     subject_content page = [PStr (take 2000 s)] \<and>
     sender_content page = [PStr (take 2000 n)] \<and>
     paragraph_contents page = [PStr (take 2000 a), PStr (take 2000 b), PStr (take 2000 t)]"
  using assms
  by (simp add: backend_notion_page_def and_then_def getitem_def slice_to_take slice_2000
        page_content_defs)

lemma emoji_get_Inr: "emoji_get emojis v dflt = Inr e \<Longrightarrow> hashable v \<and> e = emoji_of emojis v dflt"
  by (simp add: emoji_get_def split: if_splits)

lemmas block_defs = header_block_def section_fields_def section_text_def mrkdwn_def divider_def

lemma format_texts:
  "format_maintenance_slack_message env w issue analysis = Inr (fallback_text, blocks) \<Longrightarrow>
   \<exists>category priority sender subject summary root_cause items_text.
     map_of analysis (py ''category'') = Some category \<and>
     map_of analysis (py ''priority'') = Some priority \<and>
     map_of issue (py ''sender'') = Some sender \<and>
     map_of issue (py ''subject'') = Some subject \<and>
     map_of analysis (py ''summary'') = Some summary \<and>
     map_of analysis (py ''root_cause'') = Some root_cause \<and>
     action_items_text (py_repr env) gmail_bullet analysis = Inr items_text \<and>
     fallback_text =
       emoji_of gmail_category_emojis category [128203] @ py '' '' @
       py_str (py_repr env) category @ py '' - '' @ py_str (py_repr env) priority @
       py '' Priority: '' @ py_str (py_repr env) subject \<and>
     texts blocks =
       [emoji_of gmail_category_emojis category [128203] @ py '' New Maintenance Request'',
        py ''*Category:*\<newline>'' @ emoji_of gmail_category_emojis category [128203] @ py '' '' @
          py_str (py_repr env) category,
        py ''*Priority:*\<newline>'' @ emoji_of gmail_priority_emojis priority [128993] @ py '' '' @
          py_str (py_repr env) priority,
        py ''*From:*\<newline>'' @ py_str (py_repr env) sender,
        py ''*Date:*\<newline>'' @ now_strftime env w (py ''%Y-%m-%d %H:%M''),
        py ''*Subject:*\<newline>'' @ py_str (py_repr env) subject,
        py ''*'' @ [128203] @ py '' Summary:*\<newline>'' @ py_str (py_repr env) summary,
        py ''*'' @ [128269] @ py '' Root Cause:*\<newline>'' @ py_str (py_repr env) root_cause,
        py ''*'' @ [9989] @ py '' Action Items:*\<newline>'' @ items_text]"
  unfolding format_maintenance_slack_message_def
  apply (elim and_then_InrE)
  apply (drule getitem_Inr)+
  apply (drule emoji_get_Inr)+
  apply (auto simp: Let_def block_defs)
  done

lemma slack_notification_texts:
  "slack_notification env issue analysis = Inr message \<Longrightarrow>
   \<exists>category priority subject summary root_cause items_text blocks.
     map_of analysis (py ''category'') = Some category \<and>
     map_of analysis (py ''priority'') = Some priority \<and>
     map_of issue (py ''subject'') = Some subject \<and>
     map_of analysis (py ''summary'') = Some summary \<and>
     map_of analysis (py ''root_cause'') = Some root_cause \<and>
     action_items_text (py_repr env) backend_bullet analysis = Inr items_text \<and>
     message =
       PDict [(py ''channel'', SLACK_CHANNEL env),
              (py ''text'',
                 PStr (emoji_of backend_category_emojis category [63743, 252, 236, 227] @
                       py '' '' @ py_str (py_repr env) category @ py '' - '' @
                       py_str (py_repr env) subject)),
              (py ''blocks'', blocks)] \<and>
     texts blocks =
       [emoji_of backend_category_emojis category [63743, 252, 236, 227] @
          py '' New Maintenance Request'',
        py ''*Category:*\<newline>'' @
          emoji_of backend_category_emojis category [63743, 252, 236, 227] @ py '' '' @
          py_str (py_repr env) category,
        py ''*Priority:*\<newline>'' @
          emoji_of backend_priority_emojis priority [63743, 252, 252, 176] @ py '' '' @
          py_str (py_repr env) priority,
        py ''*Subject:*\<newline>'' @ py_str (py_repr env) subject,
        py ''*'' @ [63743, 252, 236, 227] @ py '' Summary:*\<newline>'' @
          py_str (py_repr env) summary,
        py ''*'' @ [63743, 252, 238, 231] @ py '' Root Cause:*\<newline>'' @
          py_str (py_repr env) root_cause,
        py ''*'' @ [8218, 250, 214] @ py '' Action Items:*\<newline>'' @ items_text]"
  unfolding slack_notification_def
  apply (elim and_then_InrE)
  apply (drule getitem_Inr)+
  apply (drule emoji_get_Inr)+
  apply (auto simp: Let_def block_defs)
  done

lemma send_slack_message_posts:
  "slack_client env = Some post \<Longrightarrow>
   snd (send_slack_message env text blocks w) =
     snd (post (if py_truthy blocks
                then PDict [(py ''channel'', SLACK_CHANNEL env), (py ''text'', PStr text),
                            (py ''blocks'', blocks)]
                else PDict [(py ''channel'', SLACK_CHANNEL env), (py ''text'', PStr text)]) w)"
  by (auto simp: send_slack_message_def split: prod.splits sum.splits exc.splits)

lemma send_slack_notification_posts:
  "slack_client env = Some post \<Longrightarrow> slack_notification env issue analysis = Inr message \<Longrightarrow>
   snd (send_slack_notification env issue analysis w) = snd (post message w)"
  by (auto simp: send_slack_notification_def split: prod.splits sum.splits exc.splits)

lemma notify_unconfigured:
  "slack_client env = None \<Longrightarrow>
   notify env issue analysis w =
     (case format_maintenance_slack_message env w issue analysis of
        Inl e \<Rightarrow> (Inl e, w)
      | Inr m \<Rightarrow> (Inr (), w))"
  by (auto simp: notify_def send_slack_message_def split: sum.splits)

lemma format_returns_iff:
  "(\<exists>m. format_maintenance_slack_message env w issue analysis = Inr m) \<longleftrightarrow>
   (\<exists>category priority.
      map_of analysis (py ''category'') = Some category \<and> hashable category \<and>
      map_of analysis (py ''priority'') = Some priority \<and> hashable priority) \<and>
   \<not> isl (py_iter (dict_get analysis (py ''action_items'') (PList []))) \<and>
   map_of issue (py ''sender'') \<noteq> None \<and> map_of issue (py ''subject'') \<noteq> None \<and>
   map_of analysis (py ''summary'') \<noteq> None \<and> map_of analysis (py ''root_cause'') \<noteq> None"
  by (auto simp: format_maintenance_slack_message_def and_then_def getitem_def emoji_get_def
        action_items_text_def Let_def split: option.splits sum.splits)

lemma format_unhashable_priority:
  "map_of analysis (py ''category'') = Some category \<Longrightarrow> hashable category \<Longrightarrow>
   map_of analysis (py ''priority'') = Some priority \<Longrightarrow> \<not> hashable priority \<Longrightarrow>
   format_maintenance_slack_message env w issue analysis = Inl TypeError"
  by (simp add: format_maintenance_slack_message_def and_then_def getitem_def emoji_get_def)

lemma texts_truthy: "texts v \<noteq> [] \<Longrightarrow> py_truthy v"
  by (cases v) (auto simp: py_truthy_def)

lemma long_subject_fields:
  "map_of long_subject_issue (py ''subject'') = Some (PStr (replicate 2001 65))"
  "map_of long_subject_issue (py ''sender'') = Some (lit ''tenant@example.com'')"
  "map_of long_subject_issue (py ''snippet'') = Some (lit ''See subject.'')"
  by (simp_all add: long_subject_issue_def)

lemma gmail_fallback_fields:
  "map_of (gmail_fallback_unconfigured long_subject_issue) (py ''category'') =
     Some (lit ''General Inquiry'')"
  "map_of (gmail_fallback_unconfigured long_subject_issue) (py ''priority'') =
     Some (lit ''Medium'')"
  "map_of (gmail_fallback_unconfigured long_subject_issue) (py ''summary'') =
     Some (lit ''See subject.'')"
  "map_of (gmail_fallback_unconfigured long_subject_issue) (py ''root_cause'') =
     Some (lit ''Unable to determine (AI not configured)'')"
  "action_items_text R gmail_bullet (gmail_fallback_unconfigured long_subject_issue) =
     Inr (8226 # py '' Manual review required'')"
  by (simp_all add: gmail_fallback_unconfigured_def long_subject_issue_def dict_get_def
        action_items_text_def and_then_def py_iter_def gmail_bullet_def py_def)

lemma backend_fallback_fields:
  "map_of (backend_fallback_unconfigured long_subject_issue) (py ''category'') =
     Some (lit ''General Inquiry'')"
  "map_of (backend_fallback_unconfigured long_subject_issue) (py ''priority'') =
     Some (lit ''Medium'')"
  "map_of (backend_fallback_unconfigured long_subject_issue) (py ''summary'') =
     Some (lit ''See subject.'')"
  "map_of (backend_fallback_unconfigured long_subject_issue) (py ''root_cause'') =
     Some (lit ''AI not configured - manual review needed'')"
  "action_items_text R backend_bullet (backend_fallback_unconfigured long_subject_issue) =
     Inr ([8218, 196, 162] @ py '' Manual classification required'')"
  by (simp_all add: backend_fallback_unconfigured_def long_subject_issue_def dict_get_def
        action_items_text_def and_then_def py_iter_def backend_bullet_def py_def)

lemma example_env_fields:
  "notion ticket_env = Some (\<lambda>page w. (Inr (), w @ [page]))"
  "slack_client ticket_env = None"
  "notion recording_env = None"
  "slack_client recording_env = Some (\<lambda>message w. (Inr (), w @ [message]))"
  "SLACK_CHANNEL recording_env = lit ''C0123''"
  by (simp_all add: ticket_env_def recording_env_def)

lemma take_2000_py: "length s \<le> 2000 \<Longrightarrow> take 2000 (py s) = py s"
  by (simp add: length_py)

lemma gmail_fallback_items:
  "\<not> isl (py_iter (dict_get (gmail_fallback_unconfigured long_subject_issue)
            (py ''action_items'') (PList [])))"
  by (simp add: gmail_fallback_unconfigured_def dict_get_def py_iter_def)

lemma list_priority_fields:
  "map_of list_priority_analysis (py ''category'') = Some (lit ''Electrical'')"
  "map_of list_priority_analysis (py ''priority'') = Some (PList [lit ''High''])"
  by (simp_all add: list_priority_analysis_def example_analysis_def setitem_def)

lemma backend_notification_returns:
  "\<exists>message. slack_notification recording_env long_subject_issue
      (backend_fallback_unconfigured long_subject_issue) = Inr message"
  by (simp add: slack_notification_def and_then_def getitem_def backend_fallback_fields
        long_subject_fields emoji_get_def hashable_def Let_def)

lemma general_inquiry_glyphs:
  "emoji_of gmail_category_emojis (lit ''General Inquiry'') d = [128203]"
  "emoji_of backend_category_emojis (lit ''General Inquiry'') d = [63743, 252, 236, 227]"
  by (simp_all add: emoji_of_def gmail_category_emojis_def backend_category_emojis_def)

text \<open>
  Claim C8, amended. The ticket sink (\<open>add_to_notion\<close> of either module) writes the
  subject, the sender, the summary, the root cause, the text of the action items and (in
  gmail.py) the snippet as their first 2000 units each, \<open>v[:2000]\<close>, which for a string is
  its first 2000 characters; no rich-text content of the page is longer than 2000, a page is
  built whenever these fields are strings and the analysis has a category and a priority,
  and the page submitted to the ticket store is that page. The notification sink cuts
  nothing: the fallback text and the blocks that \<open>format_maintenance_slack_message\<close> and
  \<open>send_slack_notification\<close> build hold the category, the priority, the sender, the subject,
  the summary, the root cause and the action items at full length, and that message is what
  is posted to the channel. Without a ticket store, \<open>add_to_notion\<close> of backend.py returns
  at once, and so does that of gmail.py for an issue that has a subject. Without a channel,
  \<open>send_slack_message\<close> and \<open>send_slack_notification\<close> return at once; the message of
  gmail.py is formatted before \<open>send_slack_message\<close> is called, whatever the configuration,
  and formatting returns exactly when the analysis has a hashable category and a hashable
  priority, a summary, a root cause and action items that can be iterated, and the issue a
  sender and a subject: with a priority that is a list it raises \<open>TypeError\<close>.
\<close>

theorem ticket_sink_truncates:
  "slice_to (PStr s) 2000 = Inr (PStr (take 2000 s)) \<and>
   py_str (py_repr env) (PStr s) = s \<and>
   (\<forall>page. gmail_notion_page env w issue analysis = Inr page \<longrightarrow>
      (\<forall>c \<in> set (page_contents page). py_len c \<le> 2000) \<and>
      (\<exists>subject sender summary root_cause snippet items_text.
         map_of issue (py ''subject'') = Some subject \<and>
         map_of issue (py ''sender'') = Some sender \<and>
         map_of analysis (py ''summary'') = Some summary \<and>
         map_of analysis (py ''root_cause'') = Some root_cause \<and>
         map_of issue (py ''snippet'') = Some snippet \<and>
         action_items_text (py_repr env) gmail_bullet analysis = Inr items_text \<and>
         map Inr (subject_content page) = [slice_to subject 2000] \<and>
         map Inr (sender_content page) = [slice_to sender 2000] \<and>
         map Inr (paragraph_contents page) =
           [slice_to summary 2000, slice_to root_cause 2000,
            Inr (PStr (take 2000 items_text)), slice_to snippet 2000])) \<and>
   (\<forall>page. backend_notion_page env w issue analysis = Inr page \<longrightarrow>
      (\<forall>c \<in> set (page_contents page). py_len c \<le> 2000) \<and>
      (\<exists>subject sender summary root_cause items_text.
         map_of issue (py ''subject'') = Some subject \<and>
         map_of issue (py ''sender'') = Some sender \<and>
         map_of analysis (py ''summary'') = Some summary \<and>
         map_of analysis (py ''root_cause'') = Some root_cause \<and>
         action_items_text (py_repr env) backend_bullet analysis = Inr items_text \<and>
         map Inr (subject_content page) = [slice_to subject 2000] \<and>
         map Inr (sender_content page) = [slice_to sender 2000] \<and>
         map Inr (paragraph_contents page) =
           [slice_to summary 2000, slice_to root_cause 2000,
            Inr (PStr (take 2000 items_text))])) \<and>
   (\<forall>subject sender summary root_cause category priority.
      map_of issue (py ''subject'') = Some (PStr subject) \<and>
      map_of issue (py ''sender'') = Some (PStr sender) \<and>
      map_of analysis (py ''category'') = Some category \<and>
      map_of analysis (py ''priority'') = Some priority \<and>
      map_of analysis (py ''summary'') = Some (PStr summary) \<and>
      map_of analysis (py ''root_cause'') = Some (PStr root_cause) \<longrightarrow>
      (\<forall>snippet items_text.
         map_of issue (py ''snippet'') = Some (PStr snippet) \<and>
         action_items_text (py_repr env) gmail_bullet analysis = Inr items_text \<longrightarrow>
         (\<exists>page. gmail_notion_page env w issue analysis = Inr page \<and>
            subject_content page = [PStr (take 2000 subject)] \<and>
            sender_content page = [PStr (take 2000 sender)] \<and>
            paragraph_contents page =
              [PStr (take 2000 summary), PStr (take 2000 root_cause),
               PStr (take 2000 items_text), PStr (take 2000 snippet)])) \<and>
      (\<forall>items_text.
         action_items_text (py_repr env) backend_bullet analysis = Inr items_text \<longrightarrow>
         (\<exists>page. backend_notion_page env w issue analysis = Inr page \<and>
            subject_content page = [PStr (take 2000 subject)] \<and>
            sender_content page = [PStr (take 2000 sender)] \<and>
            paragraph_contents page =
              [PStr (take 2000 summary), PStr (take 2000 root_cause),
               PStr (take 2000 items_text)]))) \<and>
   (\<forall>create. notion env = Some create \<longrightarrow>
      gmail_add_to_notion env issue analysis w =
        (case gmail_notion_page env w issue analysis of
           Inl e \<Rightarrow> (Inr (), w)
         | Inr page \<Rightarrow> (Inr (), snd (create page w))) \<and>
      backend_add_to_notion env issue analysis w =
        (case backend_notion_page env w issue analysis of
           Inl e \<Rightarrow> (Inr (), w)
         | Inr page \<Rightarrow> (Inr (), snd (create page w)))) \<and>
   (notion env = None \<longrightarrow>
      backend_add_to_notion env issue analysis w = (Inr (), w) \<and>
      (map_of issue (py ''subject'') \<noteq> None \<longrightarrow>
         gmail_add_to_notion env issue analysis w = (Inr (), w))) \<and>
   (\<forall>fallback_text blocks.
      format_maintenance_slack_message env w issue analysis = Inr (fallback_text, blocks) \<longrightarrow>
      (\<exists>category priority sender subject summary root_cause items_text.
         map_of analysis (py ''category'') = Some category \<and>
         map_of analysis (py ''priority'') = Some priority \<and>
         map_of issue (py ''sender'') = Some sender \<and>
         map_of issue (py ''subject'') = Some subject \<and>
         map_of analysis (py ''summary'') = Some summary \<and>
         map_of analysis (py ''root_cause'') = Some root_cause \<and>
         action_items_text (py_repr env) gmail_bullet analysis = Inr items_text \<and>
         fallback_text =
           emoji_of gmail_category_emojis category [128203] @ py '' '' @
           py_str (py_repr env) category @ py '' - '' @ py_str (py_repr env) priority @
           py '' Priority: '' @ py_str (py_repr env) subject \<and>
         texts blocks =
           [emoji_of gmail_category_emojis category [128203] @ py '' New Maintenance Request'',
            py ''*Category:*\<newline>'' @ emoji_of gmail_category_emojis category [128203] @
              py '' '' @ py_str (py_repr env) category,
            py ''*Priority:*\<newline>'' @ emoji_of gmail_priority_emojis priority [128993] @
              py '' '' @ py_str (py_repr env) priority,
            py ''*From:*\<newline>'' @ py_str (py_repr env) sender,
            py ''*Date:*\<newline>'' @ now_strftime env w (py ''%Y-%m-%d %H:%M''),
            py ''*Subject:*\<newline>'' @ py_str (py_repr env) subject,
            py ''*'' @ [128203] @ py '' Summary:*\<newline>'' @ py_str (py_repr env) summary,
            py ''*'' @ [128269] @ py '' Root Cause:*\<newline>'' @
              py_str (py_repr env) root_cause,
            py ''*'' @ [9989] @ py '' Action Items:*\<newline>'' @ items_text])) \<and>
   (\<forall>message. slack_notification env issue analysis = Inr message \<longrightarrow>
      (\<exists>category priority subject summary root_cause items_text blocks.
         map_of analysis (py ''category'') = Some category \<and>
         map_of analysis (py ''priority'') = Some priority \<and>
         map_of issue (py ''subject'') = Some subject \<and>
         map_of analysis (py ''summary'') = Some summary \<and>
         map_of analysis (py ''root_cause'') = Some root_cause \<and>
         action_items_text (py_repr env) backend_bullet analysis = Inr items_text \<and>
         message =
           PDict [(py ''channel'', SLACK_CHANNEL env),
                  (py ''text'',
                     PStr (emoji_of backend_category_emojis category [63743, 252, 236, 227] @
                           py '' '' @ py_str (py_repr env) category @ py '' - '' @
                           py_str (py_repr env) subject)),
                  (py ''blocks'', blocks)] \<and>
         texts blocks =
           [emoji_of backend_category_emojis category [63743, 252, 236, 227] @
              py '' New Maintenance Request'',
            py ''*Category:*\<newline>'' @
              emoji_of backend_category_emojis category [63743, 252, 236, 227] @ py '' '' @
              py_str (py_repr env) category,
            py ''*Priority:*\<newline>'' @
              emoji_of backend_priority_emojis priority [63743, 252, 252, 176] @ py '' '' @
              py_str (py_repr env) priority,
            py ''*Subject:*\<newline>'' @ py_str (py_repr env) subject,
            py ''*'' @ [63743, 252, 236, 227] @ py '' Summary:*\<newline>'' @
              py_str (py_repr env) summary,
            py ''*'' @ [63743, 252, 238, 231] @ py '' Root Cause:*\<newline>'' @
              py_str (py_repr env) root_cause,
            py ''*'' @ [8218, 250, 214] @ py '' Action Items:*\<newline>'' @ items_text])) \<and>
   (\<forall>post. slack_client env = Some post \<longrightarrow>
      snd (send_slack_message env text blocks w) =
        snd (post (if py_truthy blocks
                   then PDict [(py ''channel'', SLACK_CHANNEL env), (py ''text'', PStr text),
                               (py ''blocks'', blocks)]
                   else PDict [(py ''channel'', SLACK_CHANNEL env), (py ''text'', PStr text)]) w) \<and>
      (\<forall>message. slack_notification env issue analysis = Inr message \<longrightarrow>
         snd (send_slack_notification env issue analysis w) = snd (post message w))) \<and>
   (slack_client env = None \<longrightarrow>
      send_slack_message env text blocks w = (Inr (), w) \<and>
      send_slack_notification env issue analysis w = (Inr (), w) \<and>
      notify env issue analysis w =
        (case format_maintenance_slack_message env w issue analysis of
           Inl e \<Rightarrow> (Inl e, w)
         | Inr m \<Rightarrow> (Inr (), w))) \<and>
   ((\<exists>m. format_maintenance_slack_message env w issue analysis = Inr m) \<longleftrightarrow>
      (\<exists>category priority.
         map_of analysis (py ''category'') = Some category \<and> hashable category \<and>
         map_of analysis (py ''priority'') = Some priority \<and> hashable priority) \<and>
      \<not> isl (py_iter (dict_get analysis (py ''action_items'') (PList []))) \<and>
      map_of issue (py ''sender'') \<noteq> None \<and> map_of issue (py ''subject'') \<noteq> None \<and>
      map_of analysis (py ''summary'') \<noteq> None \<and>
      map_of analysis (py ''root_cause'') \<noteq> None) \<and>
   (\<forall>category priority.
      map_of analysis (py ''category'') = Some category \<and> hashable category \<and>
      map_of analysis (py ''priority'') = Some priority \<and> \<not> hashable priority \<longrightarrow>
      format_maintenance_slack_message env w issue analysis = Inl TypeError)"
  apply (intro conjI)
              apply (rule slice_to_take(1))
             apply simp
            apply (intro allI impI conjI)
             apply (erule gmail_notion_page_contents)
            apply (erule gmail_notion_page_written)
           apply (intro allI impI conjI)
            apply (erule backend_notion_page_contents)
           apply (erule backend_notion_page_written)
          apply (intro allI impI conjI)
           apply (elim conjE, erule (7) gmail_notion_page_of_strings)
          apply (elim conjE, erule (6) backend_notion_page_of_strings)
         apply (intro allI impI conjI)
          apply (erule gmail_add_to_notion_configured)
         apply (erule backend_add_to_notion_configured)
        apply (auto simp: gmail_add_to_notion_def backend_add_to_notion_def getitem_def)[1]
       apply (intro allI impI)
       apply (erule format_texts)
      apply (intro allI impI)
      apply (erule slack_notification_texts)
     apply (intro allI impI conjI)
      apply (erule send_slack_message_posts)
     apply (erule (1) send_slack_notification_posts)
    apply (intro impI conjI)
      apply (simp add: send_slack_message_def)
     apply (simp add: send_slack_notification_def)
    apply (erule notify_unconfigured)
   apply (rule format_returns_iff)
  apply (intro allI impI)
  apply (elim conjE, erule (3) format_unhashable_priority)
  done

theorem ticket_sink_truncates_witness:
  "slice_to (PStr (replicate 2001 65)) 2000 = Inr (PStr (replicate 2000 65)) \<and>
   (\<exists>page. gmail_notion_page ticket_env [] long_subject_issue
        (gmail_fallback_unconfigured long_subject_issue) = Inr page \<and>
      subject_content page = [PStr (replicate 2000 65)] \<and>
      sender_content page = [lit ''tenant@example.com''] \<and>
      paragraph_contents page =
        [lit ''See subject.'', lit ''Unable to determine (AI not configured)'',
         PStr (8226 # py '' Manual review required''), lit ''See subject.''] \<and>
      list_all (\<lambda>c. py_len c \<le> 2000) (page_contents page) \<and>
      gmail_add_to_notion ticket_env long_subject_issue
        (gmail_fallback_unconfigured long_subject_issue) [] = (Inr (), [page])) \<and>
   (\<exists>page. backend_notion_page ticket_env [] long_subject_issue
        (backend_fallback_unconfigured long_subject_issue) = Inr page \<and>
      subject_content page = [PStr (replicate 2000 65)] \<and>
      sender_content page = [lit ''tenant@example.com''] \<and>
      paragraph_contents page =
        [lit ''See subject.'', lit ''AI not configured - manual review needed'',
         PStr ([8218, 196, 162] @ py '' Manual classification required'')] \<and>
      list_all (\<lambda>c. py_len c \<le> 2000) (page_contents page) \<and>
      backend_add_to_notion ticket_env long_subject_issue
        (backend_fallback_unconfigured long_subject_issue) [] = (Inr (), [page])) \<and>
   gmail_add_to_notion recording_env long_subject_issue
       (gmail_fallback_unconfigured long_subject_issue) [] = (Inr (), []) \<and>
   backend_add_to_notion recording_env long_subject_issue
       (backend_fallback_unconfigured long_subject_issue) [] = (Inr (), []) \<and>
   (\<exists>fallback_text blocks.
      format_maintenance_slack_message recording_env [] long_subject_issue
        (gmail_fallback_unconfigured long_subject_issue) = Inr (fallback_text, blocks) \<and>
      fallback_text = 128203 # py '' General Inquiry - Medium Priority: '' @ replicate 2001 65 \<and>
      texts blocks ! 5 = py ''*Subject:*\<newline>'' @ replicate 2001 65 \<and>
      snd (send_slack_message recording_env fallback_text blocks []) =
        [PDict [(py ''channel'', lit ''C0123''), (py ''text'', PStr fallback_text),
                (py ''blocks'', blocks)]]) \<and>
   (\<exists>blocks.
      snd (send_slack_notification recording_env long_subject_issue
             (backend_fallback_unconfigured long_subject_issue) []) =
        [PDict [(py ''channel'', lit ''C0123''),
                (py ''text'',
                   PStr ([63743, 252, 236, 227] @ py '' General Inquiry - '' @ replicate 2001 65)),
                (py ''blocks'', blocks)]] \<and>
      texts blocks ! 3 = py ''*Subject:*\<newline>'' @ replicate 2001 65) \<and>
   send_slack_message ticket_env (py ''hello'') PNone [] = (Inr (), []) \<and>
   send_slack_notification ticket_env long_subject_issue
       (backend_fallback_unconfigured long_subject_issue) [] = (Inr (), []) \<and>
   notify ticket_env long_subject_issue (gmail_fallback_unconfigured long_subject_issue) [] =
     (Inr (), []) \<and>
   notify ticket_env long_subject_issue list_priority_analysis [] = (Inl TypeError, [])"
proof -
  let ?ga = "gmail_fallback_unconfigured long_subject_issue"
  let ?ba = "backend_fallback_unconfigured long_subject_issue"
  note tg = ticket_sink_truncates [of "replicate 2001 65" ticket_env "[]" long_subject_issue ?ga
      "py ''hello''" PNone]
  note tb = ticket_sink_truncates [of "replicate 2001 65" ticket_env "[]" long_subject_issue ?ba
      "py ''hello''" PNone]
  note tp = ticket_sink_truncates [of "replicate 2001 65" ticket_env "[]" long_subject_issue
      list_priority_analysis "py ''hello''" PNone]
  note rg = ticket_sink_truncates [of "replicate 2001 65" recording_env "[]" long_subject_issue ?ga]
  note rb = ticket_sink_truncates [of "replicate 2001 65" recording_env "[]" long_subject_issue ?ba]
  have 1: "slice_to (PStr (replicate 2001 65)) 2000 = Inr (PStr (replicate 2000 65))"
    using tg [THEN conjunct1] by simp
  \<comment> \<open>the ticket of gmail.py\<close>
  from tg [THEN conjunct2, THEN conjunct2, THEN conjunct2, THEN conjunct2, THEN conjunct1,
      rule_format, OF conjI [OF long_subject_fields(1) conjI [OF long_subject_fields(2)
        conjI [OF gmail_fallback_fields(1) conjI [OF gmail_fallback_fields(2)
        conjI [OF gmail_fallback_fields(3) gmail_fallback_fields(4)]]]]],
      THEN conjunct1, rule_format,
      OF conjI [OF long_subject_fields(3) gmail_fallback_fields(5)]]
  obtain pg where pg: "gmail_notion_page ticket_env [] long_subject_issue ?ga = Inr pg"
    and pg_contents: "subject_content pg = [PStr (replicate 2000 65)]"
      "sender_content pg = [lit ''tenant@example.com'']"
      "paragraph_contents pg =
        [lit ''See subject.'', lit ''Unable to determine (AI not configured)'',
         PStr (8226 # py '' Manual review required''), lit ''See subject.'']"
    by (auto simp: take_2000_py length_py)
  have pg_bound: "list_all (\<lambda>c. py_len c \<le> 2000) (page_contents pg)"
    using tg [THEN conjunct2, THEN conjunct2, THEN conjunct1, rule_format, OF pg,
        THEN conjunct1]
    by (simp add: list_all_iff)
  have pg_sent: "gmail_add_to_notion ticket_env long_subject_issue ?ga [] = (Inr (), [pg])"
    using tg [THEN conjunct2, THEN conjunct2, THEN conjunct2, THEN conjunct2, THEN conjunct2,
        THEN conjunct1, rule_format, OF example_env_fields(1), THEN conjunct1]
    by (simp add: pg)
  \<comment> \<open>the ticket of backend.py\<close>
  from tb [THEN conjunct2, THEN conjunct2, THEN conjunct2, THEN conjunct2, THEN conjunct1,
      rule_format, OF conjI [OF long_subject_fields(1) conjI [OF long_subject_fields(2)
        conjI [OF backend_fallback_fields(1) conjI [OF backend_fallback_fields(2)
        conjI [OF backend_fallback_fields(3) backend_fallback_fields(4)]]]]],
      THEN conjunct2, rule_format, OF backend_fallback_fields(5)]
  obtain pb where pb: "backend_notion_page ticket_env [] long_subject_issue ?ba = Inr pb"
    and pb_contents: "subject_content pb = [PStr (replicate 2000 65)]"
      "sender_content pb = [lit ''tenant@example.com'']"
      "paragraph_contents pb =
        [lit ''See subject.'', lit ''AI not configured - manual review needed'',
         PStr ([8218, 196, 162] @ py '' Manual classification required'')]"
    by (auto simp: take_2000_py length_py)
  have pb_bound: "list_all (\<lambda>c. py_len c \<le> 2000) (page_contents pb)"
    using tb [THEN conjunct2, THEN conjunct2, THEN conjunct2, THEN conjunct1, rule_format,
        OF pb, THEN conjunct1]
    by (simp add: list_all_iff)
  have pb_sent: "backend_add_to_notion ticket_env long_subject_issue ?ba [] = (Inr (), [pb])"
    using tb [THEN conjunct2, THEN conjunct2, THEN conjunct2, THEN conjunct2, THEN conjunct2,
        THEN conjunct1, rule_format, OF example_env_fields(1), THEN conjunct2]
    by (simp add: pb)
  \<comment> \<open>no ticket store\<close>
  have sub: "map_of long_subject_issue (py ''subject'') \<noteq> None"
    by (simp add: long_subject_fields)
  note rg7 = rg [THEN conjunct2, THEN conjunct2, THEN conjunct2, THEN conjunct2, THEN conjunct2,
      THEN conjunct2, THEN conjunct1, rule_format, OF example_env_fields(3)]
  note rb7 = rb [THEN conjunct2, THEN conjunct2, THEN conjunct2, THEN conjunct2, THEN conjunct2,
      THEN conjunct2, THEN conjunct1, rule_format, OF example_env_fields(3)]
  have 4: "gmail_add_to_notion recording_env long_subject_issue ?ga [] = (Inr (), [])"
    by (rule rg7 [THEN conjunct2, rule_format, OF sub])
  have 5: "backend_add_to_notion recording_env long_subject_issue ?ba [] = (Inr (), [])"
    by (rule rb7 [THEN conjunct1])
  \<comment> \<open>the notification of gmail.py\<close>
  have hs: "hashable (lit ''General Inquiry'')" "hashable (lit ''Medium'')"
    "hashable (lit ''Electrical'')" "\<not> hashable (PList [lit ''High''])"
    by (simp_all add: hashable_def)
  have wf: "(\<exists>category priority.
         map_of ?ga (py ''category'') = Some category \<and> hashable category \<and>
         map_of ?ga (py ''priority'') = Some priority \<and> hashable priority) \<and>
      \<not> isl (py_iter (dict_get ?ga (py ''action_items'') (PList []))) \<and>
      map_of long_subject_issue (py ''sender'') \<noteq> None \<and>
      map_of long_subject_issue (py ''subject'') \<noteq> None \<and>
      map_of ?ga (py ''summary'') \<noteq> None \<and> map_of ?ga (py ''root_cause'') \<noteq> None"
    by (simp add: gmail_fallback_fields long_subject_fields gmail_fallback_items hs)
  note rg12 = rg [THEN conjunct2, THEN conjunct2, THEN conjunct2, THEN conjunct2, THEN conjunct2,
      THEN conjunct2, THEN conjunct2, THEN conjunct2, THEN conjunct2, THEN conjunct2,
      THEN conjunct2, THEN conjunct1]
  from rg12 wf obtain fb bl where
    fmt: "format_maintenance_slack_message recording_env [] long_subject_issue ?ga = Inr (fb, bl)"
    by auto
  note rgs = ticket_sink_truncates [of "replicate 2001 65" recording_env "[]" long_subject_issue
      ?ga fb bl]
  note rg8 = rgs [THEN conjunct2, THEN conjunct2, THEN conjunct2, THEN conjunct2, THEN conjunct2,
      THEN conjunct2, THEN conjunct2, THEN conjunct1, rule_format, OF fmt]
  have fb: "fb = 128203 # py '' General Inquiry - Medium Priority: '' @ replicate 2001 65"
    using rg8
    apply (clarsimp simp: gmail_fallback_fields long_subject_fields general_inquiry_glyphs)
    apply (simp add: py_def)?
    done
  have bl: "texts bl ! 5 = py ''*Subject:*\<newline>'' @ replicate 2001 65"
    using rg8
    apply (clarsimp simp: gmail_fallback_fields long_subject_fields general_inquiry_glyphs)
    apply (simp add: py_def)?
    done
  have bl_ne: "texts bl \<noteq> []"
    using rg8 by auto
  have posted: "snd (send_slack_message recording_env fb bl []) =
      [PDict [(py ''channel'', lit ''C0123''), (py ''text'', PStr fb), (py ''blocks'', bl)]]"
    using rgs [THEN conjunct2, THEN conjunct2, THEN conjunct2, THEN conjunct2, THEN conjunct2,
        THEN conjunct2, THEN conjunct2, THEN conjunct2, THEN conjunct2, THEN conjunct1,
        rule_format, OF example_env_fields(4), THEN conjunct1]
      texts_truthy [OF bl_ne]
    by (simp add: example_env_fields)
  have 6: "\<exists>fallback_text blocks.
      format_maintenance_slack_message recording_env [] long_subject_issue ?ga =
        Inr (fallback_text, blocks) \<and>
      fallback_text = 128203 # py '' General Inquiry - Medium Priority: '' @ replicate 2001 65 \<and>
      texts blocks ! 5 = py ''*Subject:*\<newline>'' @ replicate 2001 65 \<and>
      snd (send_slack_message recording_env fallback_text blocks []) =
        [PDict [(py ''channel'', lit ''C0123''), (py ''text'', PStr fallback_text),
                (py ''blocks'', blocks)]]"
    using fmt fb bl posted by blast
  \<comment> \<open>the notification of backend.py\<close>
  from backend_notification_returns obtain message where
    sn: "slack_notification recording_env long_subject_issue ?ba = Inr message" by blast
  from rb [THEN conjunct2, THEN conjunct2, THEN conjunct2, THEN conjunct2, THEN conjunct2,
      THEN conjunct2, THEN conjunct2, THEN conjunct2, THEN conjunct1, rule_format, OF sn]
  have "\<exists>blocks. message =
        PDict [(py ''channel'', lit ''C0123''),
               (py ''text'',
                  PStr ([63743, 252, 236, 227] @ py '' General Inquiry - '' @ replicate 2001 65)),
               (py ''blocks'', blocks)] \<and>
      texts blocks ! 3 = py ''*Subject:*\<newline>'' @ replicate 2001 65"
    apply (clarsimp simp: backend_fallback_fields long_subject_fields general_inquiry_glyphs
          example_env_fields)
    apply (simp add: py_def)?
    done
  then obtain blocks where
    message: "message =
        PDict [(py ''channel'', lit ''C0123''),
               (py ''text'',
                  PStr ([63743, 252, 236, 227] @ py '' General Inquiry - '' @ replicate 2001 65)),
               (py ''blocks'', blocks)]"
    and blocks: "texts blocks ! 3 = py ''*Subject:*\<newline>'' @ replicate 2001 65"
    by blast
  have sent: "snd (send_slack_notification recording_env long_subject_issue ?ba []) = [message]"
    using rb [THEN conjunct2, THEN conjunct2, THEN conjunct2, THEN conjunct2, THEN conjunct2,
        THEN conjunct2, THEN conjunct2, THEN conjunct2, THEN conjunct2, THEN conjunct1,
        rule_format, OF example_env_fields(4), THEN conjunct2, rule_format, OF sn]
    by simp
  have 7: "\<exists>blocks.
      snd (send_slack_notification recording_env long_subject_issue ?ba []) =
        [PDict [(py ''channel'', lit ''C0123''),
                (py ''text'',
                   PStr ([63743, 252, 236, 227] @ py '' General Inquiry - '' @ replicate 2001 65)),
                (py ''blocks'', blocks)]] \<and>
      texts blocks ! 3 = py ''*Subject:*\<newline>'' @ replicate 2001 65"
    using sent message blocks by blast
  \<comment> \<open>no channel\<close>
  note tg11 = tg [THEN conjunct2, THEN conjunct2, THEN conjunct2, THEN conjunct2, THEN conjunct2,
      THEN conjunct2, THEN conjunct2, THEN conjunct2, THEN conjunct2, THEN conjunct2,
      THEN conjunct1, rule_format, OF example_env_fields(2)]
  note tb11 = tb [THEN conjunct2, THEN conjunct2, THEN conjunct2, THEN conjunct2, THEN conjunct2,
      THEN conjunct2, THEN conjunct2, THEN conjunct2, THEN conjunct2, THEN conjunct2,
      THEN conjunct1, rule_format, OF example_env_fields(2)]
  note tp11 = tp [THEN conjunct2, THEN conjunct2, THEN conjunct2, THEN conjunct2, THEN conjunct2,
      THEN conjunct2, THEN conjunct2, THEN conjunct2, THEN conjunct2, THEN conjunct2,
      THEN conjunct1, rule_format, OF example_env_fields(2)]
  note tg12 = tg [THEN conjunct2, THEN conjunct2, THEN conjunct2, THEN conjunct2, THEN conjunct2,
      THEN conjunct2, THEN conjunct2, THEN conjunct2, THEN conjunct2, THEN conjunct2,
      THEN conjunct2, THEN conjunct1]
  note tp13 = tp [THEN conjunct2, THEN conjunct2, THEN conjunct2, THEN conjunct2, THEN conjunct2,
      THEN conjunct2, THEN conjunct2, THEN conjunct2, THEN conjunct2, THEN conjunct2,
      THEN conjunct2, THEN conjunct2, rule_format,
      OF conjI [OF list_priority_fields(1) conjI [OF hs(3)
        conjI [OF list_priority_fields(2) hs(4)]]]]
  have 8: "send_slack_message ticket_env (py ''hello'') PNone [] = (Inr (), [])"
    by (rule tg11 [THEN conjunct1])
  have 9: "send_slack_notification ticket_env long_subject_issue ?ba [] = (Inr (), [])"
    by (rule tb11 [THEN conjunct2, THEN conjunct1])
  from tg12 wf obtain m where
    "format_maintenance_slack_message ticket_env [] long_subject_issue ?ga = Inr m"
    by auto
  with tg11 [THEN conjunct2, THEN conjunct2]
  have 10: "notify ticket_env long_subject_issue ?ga [] = (Inr (), [])"
    by simp
  have 11: "notify ticket_env long_subject_issue list_priority_analysis [] = (Inl TypeError, [])"
    using tp11 [THEN conjunct2, THEN conjunct2] tp13 by simp
  from pg pg_contents pg_bound pg_sent
  have 2: "\<exists>page. gmail_notion_page ticket_env [] long_subject_issue ?ga = Inr page \<and>
      subject_content page = [PStr (replicate 2000 65)] \<and>
      sender_content page = [lit ''tenant@example.com''] \<and>
      paragraph_contents page =
        [lit ''See subject.'', lit ''Unable to determine (AI not configured)'',
         PStr (8226 # py '' Manual review required''), lit ''See subject.''] \<and>
      list_all (\<lambda>c. py_len c \<le> 2000) (page_contents page) \<and>
      gmail_add_to_notion ticket_env long_subject_issue ?ga [] = (Inr (), [page])"
    by blast
  from pb pb_contents pb_bound pb_sent
  have 3: "\<exists>page. backend_notion_page ticket_env [] long_subject_issue ?ba = Inr page \<and>
      subject_content page = [PStr (replicate 2000 65)] \<and>
      sender_content page = [lit ''tenant@example.com''] \<and>
      paragraph_contents page =
        [lit ''See subject.'', lit ''AI not configured - manual review needed'',
         PStr ([8218, 196, 162] @ py '' Manual classification required'')] \<and>
      list_all (\<lambda>c. py_len c \<le> 2000) (page_contents page) \<and>
      backend_add_to_notion ticket_env long_subject_issue ?ba [] = (Inr (), [page])"
    by blast
  from 1 2 3 4 5 6 7 8 9 10 11 show ?thesis by (intro conjI)
qed

text \<open>
  Claim C9, at the input where the code departs from it: the channel's client fails
  with an error that is no \<open>SlackApiError\<close> (a connection reset). Neither
  \<open>send_slack_message\<close> nor \<open>send_slack_notification\<close> catches it: the error reaches
  the caller.
\<close>

theorem slack_failure_propagates:
  "send_slack_message (broken_channel_env PNone) (py ''New request'') PNone 0 =
     (Inl (OtherException (py ''connection reset'')), 0) \<and>
   send_slack_notification (broken_channel_env PNone) example_issue
       (backend_fallback_unconfigured example_issue) 0 =
     (Inl (OtherException (py ''connection reset'')), 0)"
  by (simp add: send_slack_message_def send_slack_notification_def slack_format_defs
        broken_channel_env_def example_env_def example_issue_def py_truthy_def
        backend_fallback_unconfigured_def Let_def)

lemma add_to_notion_never_raises:
  "notion env \<noteq> None \<Longrightarrow> fst (gmail_add_to_notion env issue analysis w) = Inr ()"
  "fst (backend_add_to_notion env issue analysis w) = Inr ()"
  by (auto simp: gmail_add_to_notion_def backend_add_to_notion_def
        split: option.splits sum.splits prod.splits)

lemma send_slack_message_SlackApiError:
  "slack_client env = Some post \<Longrightarrow> fst (post m w) = Inl (SlackApiError response) \<Longrightarrow>
   m = (if py_truthy blocks
        then PDict [(py ''channel'', SLACK_CHANNEL env), (py ''text'', PStr text),
                    (py ''blocks'', blocks)]
        else PDict [(py ''channel'', SLACK_CHANNEL env), (py ''text'', PStr text)]) \<Longrightarrow>
   fst (send_slack_message env text blocks w) =
     (case response_item env response (py ''error'') of Inl e \<Rightarrow> Inl e | Inr error \<Rightarrow> Inr ())"
  by (cases "post m w") (auto simp: send_slack_message_def split: sum.splits)

subsection \<open>The drivers\<close>

lemma issue_of_example_message:
  "issue_of_message (lit i) example_message = Inr (fetched_issue i)"
  by (simp add: issue_of_message_def example_message_def and_then_def subscript_def getitem_def
        py_iter_def dict_get_def fetched_issue_def)

lemma fetch_two_messages:
  "fetch_messages two_message_gmail n w = (Inr [fetched_issue ''m1'', fetched_issue ''m2''], w)"
  by (simp add: fetch_messages_def two_message_gmail_def py_iter_def dict_get_def subscript_def
        getitem_def issue_of_example_message)

lemma fetched_issue_prompt: "\<exists>p. gmail_prompt R (fetched_issue i) = Inr p"
  by (simp add: gmail_prompt_def fetched_issue_def getitem_def and_then_def)

lemma classify_fetched_issue:
  assumes "cerebras_llm env = Some (\<lambda>prompt w. (Inr electrical_completion, Suc w))"
    and "json_loads env = example_loads"
  shows "gmail_classify_maintenance_issue env (fetched_issue i) w = (Inr electrical_analysis, Suc w)"
proof -
  obtain p where p: "gmail_prompt (py_repr env) (fetched_issue i) = Inr p"
    using fetched_issue_prompt by blast
  have "request_analysis env (\<lambda>prompt w. (Inr electrical_completion, Suc w))
          (gmail_prompt (py_repr env) (fetched_issue i)) (py ''No valid JSON found in response'') w =
        (Inr (PDict [(py ''category'', lit ''Electrical'')]), Suc w)"
    by (simp add: request_analysis_def p assms(2) extract_electrical)
  then show ?thesis
    using assms(1)
    by (simp add: gmail_classify_maintenance_issue_def validate_category_def dict_get_def
          MAINTENANCE_CATEGORIES_def gmail_ensure_fields_def setdefault_def Let_def
          fetched_issue_def electrical_analysis_def)
qed

lemma notify_broken_channel:
  "notify broken_channel_run_env (fetched_issue i) electrical_analysis w =
     (Inl (OtherException (py ''connection reset'')), w)"
  by (simp add: notify_def send_slack_message_def slack_format_defs broken_channel_run_env_def
        broken_channel_env_def example_env_def fetched_issue_def electrical_analysis_def Let_def)

lemma process_issue_broken_channel:
  "process_issue broken_channel_run_env (fetched_issue i) w =
     (Inl (OtherException (py ''connection reset'')), Suc w)"
proof -
  have c: "gmail_classify_maintenance_issue broken_channel_run_env (fetched_issue i) w =
      (Inr electrical_analysis, Suc w)"
    by (rule classify_fetched_issue)
       (simp_all add: broken_channel_run_env_def broken_channel_env_def example_env_def)
  have n: "gmail_add_to_notion broken_channel_run_env (fetched_issue i) electrical_analysis (Suc w) =
      (Inr (), Suc w)"
    by (simp add: gmail_add_to_notion_def broken_channel_run_env_def broken_channel_env_def
          example_env_def fetched_issue_def getitem_def)
  have pr: "and_then (getitem (fetched_issue i) (py ''subject'')) (\<lambda>subject.
           and_then (slice_to subject 60) (\<lambda>subject_cut.
           getitem (fetched_issue i) (py ''sender''))) = Inr (lit ''tenant@example.com'')"
    by (simp add: fetched_issue_def and_then_def getitem_def slice_to_def)
  have pa: "and_then (getitem electrical_analysis (py ''category'')) (\<lambda>category.
           getitem electrical_analysis (py ''priority'')) = Inr (lit ''Medium'')"
    by (simp add: electrical_analysis_def and_then_def getitem_def)
  show ?thesis
    by (simp add: process_issue_def pr c pa n notify_broken_channel)
qed

text \<open>
  Claim C5, at the input where \<open>main\<close> of gmail.py departs from it: two messages are
  fetched, and the channel fails with a connection reset when the first issue is
  notified. The run ends with that error after a single call of the model: the second
  issue is never classified.
\<close>

theorem main_stops_at_channel_failure:
  "gmail_fetch_gmail_issues broken_channel_run_env 0 =
     (Inr [fetched_issue ''m1'', fetched_issue ''m2''], 0) \<and>
   main broken_channel_run_env 0 = (Inl (OtherException (py ''connection reset'')), 1)"
proof -
  have f: "gmail_fetch_gmail_issues broken_channel_run_env 0 =
     (Inr [fetched_issue ''m1'', fetched_issue ''m2''], 0)"
    by (simp add: gmail_fetch_gmail_issues_def broken_channel_run_env_def broken_channel_env_def
          example_env_def fetch_two_messages)
  show ?thesis
    by (simp add: main_def f process_issue_broken_channel)
qed

lemma process_issue_item:
  assumes "process_issue env issue w = (Inr item, w')"
  shows "subscript item (py ''issue'') = Inr (PDict issue)"
proof -
  obtain r w1 where c: "gmail_classify_maintenance_issue env issue w = (r, w1)"
    by (cases "gmail_classify_maintenance_issue env issue w")
  obtain r2 w2 where n: "gmail_add_to_notion env issue (projr r) w1 = (r2, w2)"
    by (cases "gmail_add_to_notion env issue (projr r) w1")
  obtain r3 w3 where s: "notify env issue (projr r) w2 = (r3, w3)"
    by (cases "notify env issue (projr r) w2")
  from assms c n s have "item = PDict [(py ''issue'', PDict issue), (py ''analysis'', PDict (projr r))]"
    by (cases r; cases r2; cases r3) (auto simp: process_issue_def split: sum.splits)
  then show ?thesis by (simp add: subscript_def getitem_def)
qed

lemma process_issues_in_order:
  "process_issues env issues acc w = (Inr items, w') \<Longrightarrow>
   map (\<lambda>item. subscript item (py ''issue'')) items =
     map (\<lambda>item. subscript item (py ''issue'')) acc @ map (\<lambda>i. Inr (PDict i)) issues"
proof (induction env issues acc w rule: process_issues.induct)
  case (1 env issues_with_analysis w)
  then show ?case by simp
next
  case (2 env issue issues issues_with_analysis w)
  obtain r w1 where p: "process_issue env issue w = (r, w1)"
    by (cases "process_issue env issue w")
  with "2.prems" obtain item where r: "r = Inr item" by (cases r) simp_all
  from "2.prems" p r
  have l: "process_issues env issues (issues_with_analysis @ [item]) w1 = (Inr items, w')"
    by simp
  from "2.IH" [OF p [symmetric] r l] process_issue_item [OF p [unfolded r]]
  show ?case by simp
qed

lemma classify_all_in_order:
  "\<exists>ps ts w'. classify_all env send issues acc tasks w = (Inr (ps, ts), w') \<and>
     length ps = length acc + length issues \<and>
     map (AList.delete (py ''analysis'')) ps =
       map (AList.delete (py ''analysis'')) acc @ map (AList.delete (py ''analysis'')) issues"
proof (induction env send issues acc tasks w rule: classify_all.induct)
  case (1 env send processed_issues tasks w)
  then show ?case by simp
next
  case (2 env send issue issues processed_issues tasks w)
  obtain a w1 where c: "backend_classify_maintenance_issue env issue w = (Inr a, w1)"
    using backend_classify_returns [of env issue w] by blast
  show ?case
    using "2.IH" [OF c [symmetric] refl refl refl refl] c
    by (auto simp: Let_def setitem_def delete_update_same)
qed

subsection \<open>The statistics\<close>

lemma key_eq_refl [simp]: "key_eq a a"
  by (simp add: key_eq_def split: option.splits)

lemma key_eq_sym: "key_eq a b \<Longrightarrow> key_eq b a"
  by (auto simp: key_eq_def split: option.splits)

lemma key_eq_trans: "key_eq a b \<Longrightarrow> key_eq b c \<Longrightarrow> key_eq a c"
  by (auto simp: key_eq_def split: option.splits)

lemma key_eq_PStr [simp]: "key_eq q (PStr s) \<longleftrightarrow> q = PStr s"
  by (cases q) (auto simp: key_eq_def num_of_def)

lemma key_eq_PStr2 [simp]: "key_eq (PStr s) q \<longleftrightarrow> q = PStr s"
  by (cases q) (auto simp: key_eq_def num_of_def)

lemma counts_get_cong: "key_eq a b \<Longrightarrow> counts_get cs a d = counts_get cs b d"
  by (induction cs) (auto, (meson key_eq_trans key_eq_sym)+)

lemma counts_get_set:
  "counts_get (counts_set cs k n) k' d = (if key_eq k k' then n else counts_get cs k' d)"
  by (induction cs) (auto, (meson key_eq_trans key_eq_sym)+)

lemma sum_counts_set:
  "sum_list (map snd (counts_set cs k (Suc (counts_get cs k 0)))) = Suc (sum_list (map snd cs))"
  by (induction cs) auto

lemma counts_set_zero:
  "list_all (\<lambda>kn. snd kn = 0) cs \<Longrightarrow>
   list_all (\<lambda>kn. snd kn = 0) (counts_set cs k (counts_get cs k 0))"
  by (induction cs) auto

lemma counts_item_set:
  "counts_item (counts_set cs k n) name =
     (if key_eq k (PStr name) then Inr n else counts_item cs name)"
  by (induction cs) auto

lemma count_items_sum:
  "count_items items cc pc = Inr (cc', pc') \<Longrightarrow>
   sum_list (map snd cc') = sum_list (map snd cc) + length items"
proof (induction items arbitrary: cc pc)
  case Nil
  then show ?case by simp
next
  case (Cons item items)
  from Cons.prems obtain category priority where
    h: "hashable category" "hashable priority"
    and r: "count_items items (counts_set cc category (counts_get cc category 0 + 1))
             (counts_set pc priority (counts_get pc priority 0)) = Inr (cc', pc')"
    by (auto elim!: and_then_InrE split: if_splits)
  from Cons.IH [OF r] show ?case by (simp add: sum_counts_set)
qed

lemma count_items_zero:
  "count_items items cc pc = Inr (cc', pc') \<Longrightarrow>
   list_all (\<lambda>kn. snd kn = 0) pc \<Longrightarrow>
   list_all (\<lambda>kn. snd kn = 0) pc' \<and>
   (\<forall>name n. counts_item pc name = Inr n \<longrightarrow> counts_item pc' name = Inr 0)"
proof (induction items arbitrary: cc pc)
  case Nil
  have "counts_item pc name = Inr n \<Longrightarrow> n = 0" for name n
    using Nil.prems(2) by (induction pc) (auto split: if_splits)
  with Nil show ?case by auto
next
  case (Cons item items)
  from Cons.prems(1) obtain category priority where
    r: "count_items items (counts_set cc category (counts_get cc category 0 + 1))
             (counts_set pc priority (counts_get pc priority 0)) = Inr (cc', pc')"
    by (auto elim!: and_then_InrE split: if_splits)
  have z: "list_all (\<lambda>kn. snd kn = 0) (counts_set pc priority (counts_get pc priority 0))"
    using Cons.prems(2) by (rule counts_set_zero)
  have k: "counts_item pc name = Inr n \<Longrightarrow>
      \<exists>m. counts_item (counts_set pc priority (counts_get pc priority 0)) name = Inr m" for name n
    by (simp add: counts_item_set)
  from Cons.IH [OF r z] k show ?case by blast
qed

lemma bit_length_0 [simp]: "bit_length 0 = 0"
  by (simp add: bit_length.simps)

lemma bit_length_numeral [simp]:
  "bit_length (numeral k) = Suc (bit_length (numeral k div 2))"
  by (subst bit_length.simps) simp

lemma bit_length_1 [simp]: "bit_length (Suc 0) = Suc 0"
  by (subst bit_length.simps) simp

lemma floor_rat_numeral [simp]: "\<lfloor>(numeral a :: rat) / numeral b\<rfloor> = numeral a div numeral b"
  using floor_divide_of_int_eq [where ?'a = rat, of "numeral a" "numeral b"] by simp

lemma ceiling_rat_numeral [simp]:
  "\<lceil>(numeral a :: rat) / numeral b\<rceil> = - ((- numeral a) div numeral b)"
  using floor_divide_of_int_eq [where ?'a = rat, of "- numeral a" "numeral b"]
  by (simp add: ceiling_def)

lemma fl: "floor_log2 (2/3) = - 1" "floor_log2 (1/3) = - 2" "floor_log2 (667/10) = 6"
  "floor_log2 (333/10) = 5"
  by (simp_all add: floor_log2_def)

lemma td: "true_div 2 3 = 6004799503160661 / 9007199254740992"
  by (simp add: true_div_def to_double_def fl pow2_def round_half_even_def Let_def)

lemma td1: "true_div 1 3 = 6004799503160661 / 18014398509481984"
  by (simp add: true_div_def to_double_def fl pow2_def round_half_even_def Let_def)

lemma fm2: "float_mul (6004799503160661 / 9007199254740992) 100 = 2345624805922133 / 35184372088832"
  by (simp add: float_mul_def to_double_def floor_log2_def pow2_def round_half_even_def Let_def)

lemma fm1: "float_mul (6004799503160661 / 18014398509481984) 100 = 2345624805922133 / 70368744177664"
  by (simp add: float_mul_def to_double_def floor_log2_def pow2_def round_half_even_def Let_def)

lemma r2: "round_half_even (2345624805922133 / 35184372088832 * 10) = 667"
  by (simp add: round_half_even_def Let_def)

lemma r1: "round_half_even (2345624805922133 / 70368744177664 * 10) = 333"
  by (simp add: round_half_even_def Let_def)

lemma double_66_7: "round_1 (float_mul (true_div 2 3) 100) = to_double (667 / 10)"
  by (simp only: td fm2 round_1_def r2) simp

lemma double_33_3: "round_1 (float_mul (true_div 1 3) 100) = to_double (333 / 10)"
  by (simp only: td1 fm1 round_1_def r1) simp

lemma double_literals:
  "to_double (667 / 10) = 4693595236650189 / 70368744177664"
  "to_double (333 / 10) = 2343279181116211 / 70368744177664"
  by (simp_all add: to_double_def fl pow2_def round_half_even_def Let_def)

lemma count_issues_priority:
  "count_issues issues cc pc = Inr (cc', pc') \<Longrightarrow>
   counts_get pc' p 0 = counts_get pc p 0 + length (filter (classified_with p) issues)"
proof (induction issues arbitrary: cc pc)
  case Nil
  then show ?case by simp
next
  case (Cons issue issues)
  show ?case
  proof (cases "py_truthy (dict_get issue (py ''analysis'') PNone)")
    case True
    with Cons.prems obtain analysis cat pri where
      a: "getitem issue (py ''analysis'') = Inr analysis"
      and p: "subscript analysis (py ''priority'') = Inr pri"
      and r: "count_issues issues (counts_set cc cat (counts_get cc cat 0 + 1))
                (counts_set pc pri (counts_get pc pri 0 + 1)) = Inr (cc', pc')"
      by (auto elim!: and_then_InrE split: if_splits)
    have q: "priority_of issue = Some pri"
      using True a p by (simp add: priority_of_def and_then_def)
    from Cons.IH [OF r] q show ?thesis
      by (auto simp: counts_get_set classified_with_def counts_get_cong)
  next
    case False
    with Cons.prems have r: "count_issues issues cc pc = Inr (cc', pc')" by simp
    from False have "priority_of issue = None" by (simp add: priority_of_def)
    with Cons.IH [OF r] show ?thesis by (simp add: classified_with_def)
  qed
qed

lemma initial_get: "counts_get initial_priority_counts p 0 = 0"
  by (simp add: initial_priority_counts_def)

lemma dashboard_priority:
  assumes "dashboard_statistics classified = Inr stats"
  shows "counts_get (by_priority stats) p 0 = length (filter (classified_with p) classified)"
proof -
  from assms obtain cp where c: "count_issues classified [] initial_priority_counts = Inr cp"
    and s: "by_priority stats = snd cp"
    by (auto simp: dashboard_statistics_def elim!: and_then_InrE)
  obtain cc pc where cp: "cp = (cc, pc)" by (cases cp)
  from count_issues_priority [OF c [unfolded cp], of p] s cp show ?thesis
    by (simp add: initial_get)
qed

lemma classified_with_PStr:
  "classified_with (PStr s) issue \<longleftrightarrow> priority_of issue = Some (PStr s)"
  by (simp add: classified_with_def split: option.splits)

lemma get_dashboard_stats_Inr:
  assumes "get_dashboard_stats env invalid w = (Inr stats, w')"
  shows "\<exists>issues w1 classified.
     backend_fetch_gmail_issues env (PInt 20) w = (Inr issues, w1) \<and>
     classify_issues env issues [] w1 = (Inr classified, w') \<and>
     dashboard_statistics classified = Inr stats \<and> invalid stats = None"
  using assms
  by (auto simp: get_dashboard_stats_def split: prod.splits sum.splits option.splits)

lemma initial_zero: "list_all (\<lambda>kn. snd kn = 0) initial_priority_counts"
  by (simp add: initial_priority_counts_def)

lemma initial_items:
  "counts_item initial_priority_counts (py ''High'') = Inr 0"
  "counts_item initial_priority_counts (py ''Medium'') = Inr 0"
  "counts_item initial_priority_counts (py ''Low'') = Inr 0"
  by (simp_all add: initial_priority_counts_def)

lemma count_items_initial:
  assumes "count_items items [] initial_priority_counts = Inr (cc, pc)"
  shows "list_all (\<lambda>kn. snd kn = 0) pc"
    and "counts_item pc (py ''High'') = Inr 0"
    and "counts_item pc (py ''Medium'') = Inr 0"
    and "counts_item pc (py ''Low'') = Inr 0"
  using count_items_zero [OF assms initial_zero] initial_items by blast+

lemma str_nat_0: "str_nat 0 = py ''0''"
  by (simp add: str_nat.simps py_def)

lemma summary_header_shape:
  assumes "counts_item pc (py ''High'') = Inr 0" "counts_item pc (py ''Medium'') = Inr 0"
    "counts_item pc (py ''Low'') = Inr 0"
  shows "\<exists>pre. summary_header R today n cc pc =
           Inr (pre @ py ''High Priority: 0 | Medium: 0 | Low: 0'' @
                py ''\<newline>\<newline>'' @ [128194] @ py '' *By Category:*\<newline>'' @
                category_lines R cc)"
proof -
  let ?pre = "[128197] @ py '' *Daily Maintenance Report* - '' @ today @
            py ''\<newline>\<newline>'' @ [128202] @ py '' *Quick Stats:*\<newline>'' @ [8226] @
            py '' Total Issues: '' @ str_nat n @ py ''\<newline>'' @ [8226] @ py '' ''"
  have "summary_header R today n cc pc =
      Inr (?pre @ py ''High Priority: 0 | Medium: 0 | Low: 0'' @
           py ''\<newline>\<newline>'' @ [128194] @ py '' *By Category:*\<newline>'' @
           category_lines R cc)"
    by (simp add: summary_header_def assms and_then_def) (simp add: str_nat_0 py_def)
  then show ?thesis by blast
qed

lemma narrated_summary_shape:
  assumes "counts_item pc (py ''High'') = Inr 0" "counts_item pc (py ''Medium'') = Inr 0"
    "counts_item pc (py ''Low'') = Inr 0"
    and "narrated_summary env invoke n cc pc items w = (Inr summary, w')"
  shows "\<exists>pre post. summary =
      pre @ py ''High Priority: 0 | Medium: 0 | Low: 0'' @
      py ''\<newline>\<newline>'' @ [128194] @ py '' *By Category:*\<newline>'' @
      category_lines (py_repr env) cc @ post"
proof -
  obtain pre where
    h: "\<And>today. summary_header (py_repr env) today n cc pc =
           Inr (pre today @ py ''High Priority: 0 | Medium: 0 | Low: 0'' @
                py ''\<newline>\<newline>'' @ [128194] @ py '' *By Category:*\<newline>'' @
                category_lines (py_repr env) cc)"
    using summary_header_shape [OF assms(1-3), of "py_repr env" _ n cc] by metis
  from assms(4) obtain raw where
    "summary = (pre (now_strftime env w' (py ''%Y-%m-%d'')) @
            py ''High Priority: 0 | Medium: 0 | Low: 0'' @
            py ''\<newline>\<newline>'' @ [128194] @ py '' *By Category:*\<newline>'' @
            category_lines (py_repr env) cc) @ [10] @ replicate 50 61 @ [10, 10] @ strip raw"
    by (auto simp: narrated_summary_def h split: sum.splits prod.splits pyval.splits)
  then show ?thesis by (metis append.assoc)
qed

lemma fallback_summary_shape:
  assumes "counts_item pc (py ''High'') = Inr 0" "counts_item pc (py ''Medium'') = Inr 0"
    "counts_item pc (py ''Low'') = Inr 0"
    and "fallback_summary R today n cc pc items = Inr summary"
  shows "\<exists>pre post. summary =
      pre @ category_lines R cc @
      py ''\<newline>'' @ [128680] @ py '' *By Priority:*\<newline>'' @ [8226] @ py '' '' @
      [128308] @ py '' High: 0\<newline>'' @ [8226] @ py '' '' @
      [128993] @ py '' Medium: 0\<newline>'' @ [8226] @ py '' '' @
      [128994] @ py '' Low: 0'' @ post"
proof -
  from assms(4) obtain top where
    "summary = ([128197] @ py '' *Daily Maintenance Report* - '' @ today @
            py ''\<newline>\<newline>'' @ [128202] @
            py '' *Summary:*\<newline>Total Issues Processed: '' @ str_nat n @
            py ''\<newline>\<newline>'' @ [128194] @ py '' *By Category:*\<newline>'') @
            category_lines R cc @
            py ''\<newline>'' @ [128680] @ py '' *By Priority:*\<newline>'' @ [8226] @ py '' '' @
            [128308] @ py '' High: 0\<newline>'' @ [8226] @ py '' '' @
            [128993] @ py '' Medium: 0\<newline>'' @ [8226] @ py '' '' @
            [128994] @ py '' Low: 0'' @
            (py ''\<newline>\<newline>'' @ [128203] @ py '' *Top Issues:*\<newline>'' @ top)"
    unfolding fallback_summary_def assms(1-3)
    by (auto simp: and_then_def str_nat_0 py_def split: sum.splits)
  then show ?thesis by blast
qed

lemma generate_report:
  assumes "items \<noteq> []" "generate_daily_summary_with_ai env items w = (Inr summary, w')"
  shows "\<exists>cc pc. count_items items [] initial_priority_counts = Inr (cc, pc) \<and>
     ((\<exists>invoke. cerebras_llm env = Some invoke \<and>
         narrated_summary env invoke (length items) cc pc items w = (Inr summary, w')) \<or>
      fallback_summary (py_repr env) (now_strftime env w' (py ''%Y-%m-%d'')) (length items)
        cc pc items = Inr summary)"
  using assms
  by (auto simp: generate_daily_summary_with_ai_def Let_def
        split: sum.splits prod.splits option.splits)

lemma count_items_total:
  "list_all countable_item items \<Longrightarrow> \<exists>cc' pc'. count_items items cc pc = Inr (cc', pc')"
proof (induction items arbitrary: cc pc)
  case Nil
  then show ?case by simp
next
  case (Cons item items)
  from Cons.prems have "countable_item item" and r: "list_all countable_item items" by simp_all
  then obtain analysis category priority where
    "subscript item (py ''analysis'') = Inr analysis"
    "subscript analysis (py ''category'') = Inr category"
    "subscript analysis (py ''priority'') = Inr priority"
    "hashable category" "hashable priority"
    by (auto simp: countable_item_def and_then_def split: sum.splits)
  with Cons.IH [OF r] show ?case by (simp add: and_then_def)
qed

lemma top_issue_line_total:
  "reportable_item item \<Longrightarrow> \<exists>l. top_issue_line R idx item = Inr l"
  by (auto simp: reportable_item_def countable_item_def top_issue_line_def and_then_def
        split: sum.splits)

lemma top_issue_lines_total:
  "list_all reportable_item items \<Longrightarrow> \<exists>t. top_issue_lines R idx items = Inr t"
proof (induction items arbitrary: idx)
  case Nil
  then show ?case by simp
next
  case (Cons item items)
  from Cons.prems obtain l where l: "top_issue_line R idx item = Inr l"
    using top_issue_line_total [of item R idx] by auto
  from Cons.prems Cons.IH [of "Suc idx"] obtain t where
    "top_issue_lines R (Suc idx) items = Inr t" by auto
  with l show ?case by (simp add: and_then_def)
qed

lemma list_all_slice: "list_all P xs \<Longrightarrow> list_all P (slice xs a b)"
  by (auto simp: slice_def Let_def list_all_iff dest!: in_set_takeD in_set_dropD)

lemma fallback_summary_total:
  assumes "counts_item pc (py ''High'') = Inr h" "counts_item pc (py ''Medium'') = Inr m"
    "counts_item pc (py ''Low'') = Inr l" "list_all reportable_item items"
  shows "\<exists>summary. fallback_summary R today n cc pc items = Inr summary"
proof -
  from top_issue_lines_total [OF list_all_slice [OF assms(4)], of R 1 0 5]
  obtain t where "top_issue_lines R 1 (slice items 0 5) = Inr t" by blast
  with assms(1-3) show ?thesis by (simp add: fallback_summary_def and_then_def)
qed

lemma generate_total:
  assumes "list_all reportable_item items"
  shows "\<exists>summary w'. generate_daily_summary_with_ai env items w = (Inr summary, w')"
proof (cases "items = []")
  case True
  then show ?thesis by (simp add: generate_daily_summary_with_ai_def)
next
  case False
  from assms have "list_all countable_item items"
    by (simp add: list_all_iff reportable_item_def)
  from count_items_total [OF this] obtain cc pc where
    c: "count_items items [] initial_priority_counts = Inr (cc, pc)" by blast
  note z = count_items_initial [OF c]
  have f: "\<exists>summary. fallback_summary (py_repr env) today (length items) cc pc items = Inr summary"
    for today
    using z(2-4) assms by (rule fallback_summary_total)
  show ?thesis
  proof (cases "cerebras_llm env")
    case None
    with False c f [of "now_strftime env w (py ''%Y-%m-%d'')"] show ?thesis
      by (auto simp: generate_daily_summary_with_ai_def)
  next
    case (Some invoke)
    obtain r w1 where n: "narrated_summary env invoke (length items) cc pc items w = (r, w1)"
      by (cases "narrated_summary env invoke (length items) cc pc items w")
    with False c Some f [of "now_strftime env w1 (py ''%Y-%m-%d'')"] show ?thesis
      by (cases r) (auto simp: generate_daily_summary_with_ai_def)
  qed
qed

lemma summary_batch_counts:
  "count_items summary_batch [] initial_priority_counts =
     Inr ([(lit ''Electrical'', 2), (lit ''Plumbing'', 1)],
          [(lit ''High'', 0), (lit ''Medium'', 0), (lit ''Low'', 0)])"
  by (simp add: summary_batch_def initial_priority_counts_def example_analysis_def
        and_then_def subscript_def getitem_def hashable_def)

lemma summary_batch_reportable: "list_all reportable_item summary_batch"
  by (simp add: summary_batch_def reportable_item_def countable_item_def example_analysis_def
        fetched_issue_def and_then_def subscript_def getitem_def hashable_def slice_to_def)

lemma summary_batch_length: "length summary_batch = 3" "summary_batch \<noteq> []"
  by (simp_all add: summary_batch_def)

lemma narrating_env_fields:
  "cerebras_llm narrating_env = Some (\<lambda>prompt w. (Inr (lit ''All quiet.''), Suc w))"
  by (simp add: narrating_env_def example_env_def)

lemma summary_batch_narrated:
  "\<exists>summary. narrated_summary narrating_env (\<lambda>prompt w. (Inr (lit ''All quiet.''), Suc w)) 3
      [(lit ''Electrical'', 2), (lit ''Plumbing'', 1)]
      [(lit ''High'', 0), (lit ''Medium'', 0), (lit ''Low'', 0)] summary_batch 0 =
     (Inr summary, 1)"
  by (simp add: narrated_summary_def narrating_env_def example_env_def summary_batch_def
        issue_line_def example_analysis_def fetched_issue_def and_then_def subscript_def
        getitem_def summary_header_def)

lemma dashboard_env_fields:
  "gmail_service dashboard_env = Some example_gmail"
  "cerebras_llm dashboard_env = None"
  by (simp_all add: dashboard_env_def example_mail_env_def example_env_def)

lemma dashboard_env_fetch:
  "backend_fetch_gmail_issues dashboard_env n 0 = (Inr [fetched_issue ''m1''], 2)"
  by (simp add: backend_fetch_gmail_issues_def dashboard_env_fields fetch_messages_def
        example_gmail_def py_iter_def dict_get_def subscript_def getitem_def
        issue_of_example_message)

lemma dashboard_env_classify:
  "classify_issues dashboard_env [fetched_issue ''m1''] [] w = (Inr dashboard_batch, w)"
  by (simp add: backend_classify_maintenance_issue_def dashboard_env_fields dashboard_batch_def)

lemma dashboard_batch_counts:
  "count_issues dashboard_batch [] initial_priority_counts =
     Inr ([(lit ''General Inquiry'', 1)],
          [(lit ''High'', 0), (lit ''Medium'', 1), (lit ''Low'', 0)])"
  by (simp add: dashboard_batch_def initial_priority_counts_def backend_fallback_unconfigured_def
        fetched_issue_def setitem_def py_truthy_def dict_get_def
        and_then_def subscript_def getitem_def hashable_def)

lemma percentage_all: "percentage 1 1 = PFloat 100"
  by (simp add: percentage_def true_div_def float_mul_def round_1_def to_double_def
        floor_log2_def pow2_def round_half_even_def Let_def)

lemma classified_batch_counts:
  "count_issues classified_batch [] initial_priority_counts =
     Inr ([(lit ''Electrical'', 2), (lit ''Plumbing'', 1)],
          [(lit ''High'', 2), (lit ''Medium'', 1), (lit ''Low'', 0)])"
  by (simp add: classified_batch_def initial_priority_counts_def example_analysis_def
        fetched_issue_def setitem_def py_truthy_def dict_get_def
        and_then_def subscript_def getitem_def hashable_def)

lemma classified_batch_statistics:
  "dashboard_statistics classified_batch =
     Inr \<lparr>total_issues = 3,
          by_category =
            [(lit ''Electrical'', 2, PFloat (to_double (667 / 10))),
             (lit ''Plumbing'', 1, PFloat (to_double (333 / 10)))],
          by_priority = [(lit ''High'', 2), (lit ''Medium'', 1), (lit ''Low'', 0)],
          recent_issues = classified_batch\<rparr>"
proof -
  have l: "length classified_batch = 3" by (simp add: classified_batch_def)
  have s: "slice classified_batch 0 5 = classified_batch"
    by (simp add: slice_def slice_index_def l)
  show ?thesis
    by (simp add: dashboard_statistics_def classified_batch_counts and_then_def l s
          percentage_def double_66_7 double_33_3 [simplified])
qed

lemma dashboard_batch_statistics:
  "dashboard_statistics dashboard_batch =
     Inr \<lparr>total_issues = 1,
          by_category = [(lit ''General Inquiry'', 1, PFloat 100)],
          by_priority = [(lit ''High'', 0), (lit ''Medium'', 1), (lit ''Low'', 0)],
          recent_issues = dashboard_batch\<rparr>"
proof -
  have l: "length dashboard_batch = 1" by (simp add: dashboard_batch_def)
  have s: "slice dashboard_batch 0 5 = dashboard_batch"
    by (simp add: slice_def slice_index_def l)
  show ?thesis
    by (simp add: dashboard_statistics_def dashboard_batch_counts and_then_def l s
          percentage_all [simplified])
qed

lemma dashboard_env_stats:
  "get_dashboard_stats dashboard_env (\<lambda>stats. None) 0 =
     (Inr \<lparr>total_issues = 1,
           by_category = [(lit ''General Inquiry'', 1, PFloat 100)],
           by_priority = [(lit ''High'', 0), (lit ''Medium'', 1), (lit ''Low'', 0)],
           recent_issues = dashboard_batch\<rparr>, 2)"
  by (simp add: get_dashboard_stats_def dashboard_env_fetch dashboard_env_classify
        dashboard_batch_statistics del: classify_issues.simps)

lemma dashboard_statistics_Inr:
  assumes "dashboard_statistics classified = Inr stats"
  shows "\<exists>cc pc. count_issues classified [] initial_priority_counts = Inr (cc, pc) \<and>
     total_issues stats = length classified \<and>
     by_category stats =
       map (\<lambda>kn. (fst kn, snd kn, percentage (snd kn) (length classified))) cc \<and>
     by_priority stats = pc"
  using assms by (auto simp: dashboard_statistics_def elim!: and_then_InrE)

text \<open>
  Claim C6. On the empty sequence \<open>generate_daily_summary_with_ai\<close> returns the fixed
  message that no issues were processed. On a non-empty sequence, whenever it returns a
  report, its counting loop has returned category counts that add up to the length of the
  sequence, and the report lists exactly these counts, one line for each category. The
  counting loop alone has the same property, and the function returns a report for every
  sequence of entries that have an analysis with a hashable category and priority and an
  issue whose subject can be cut.
\<close>

theorem category_counts_sum:
  "generate_daily_summary_with_ai env [] w = (Inr no_issues_message, w) \<and>
   (\<forall>summary w'.
      items \<noteq> [] \<and> generate_daily_summary_with_ai env items w = (Inr summary, w') \<longrightarrow>
      (\<exists>cc pc. count_items items [] initial_priority_counts = Inr (cc, pc) \<and>
         sum_list (map snd cc) = length items \<and>
         (\<exists>pre post. summary = pre @ category_lines (py_repr env) cc @ post))) \<and>
   (\<forall>cc pc. count_items items [] initial_priority_counts = Inr (cc, pc) \<longrightarrow>
      sum_list (map snd cc) = length items) \<and>
   (list_all reportable_item items \<longrightarrow>
      (\<exists>summary w'. generate_daily_summary_with_ai env items w = (Inr summary, w')))"
proof (intro conjI allI impI)
  show "generate_daily_summary_with_ai env [] w = (Inr no_issues_message, w)"
    by (simp add: generate_daily_summary_with_ai_def)
next
  fix summary w'
  assume a: "items \<noteq> [] \<and> generate_daily_summary_with_ai env items w = (Inr summary, w')"
  from generate_report [OF a [THEN conjunct1] a [THEN conjunct2]] obtain cc pc where
    c: "count_items items [] initial_priority_counts = Inr (cc, pc)"
    and r: "(\<exists>invoke. cerebras_llm env = Some invoke \<and>
         narrated_summary env invoke (length items) cc pc items w = (Inr summary, w')) \<or>
      fallback_summary (py_repr env) (now_strftime env w' (py ''%Y-%m-%d'')) (length items)
        cc pc items = Inr summary"
    by blast
  note z = count_items_initial [OF c]
  from r have "\<exists>pre post. summary = pre @ category_lines (py_repr env) cc @ post"
  proof
    assume "\<exists>invoke. cerebras_llm env = Some invoke \<and>
         narrated_summary env invoke (length items) cc pc items w = (Inr summary, w')"
    then obtain invoke where
      "narrated_summary env invoke (length items) cc pc items w = (Inr summary, w')" by blast
    from narrated_summary_shape [OF z(2-4) this] show ?thesis by (metis append.assoc)
  next
    assume "fallback_summary (py_repr env) (now_strftime env w' (py ''%Y-%m-%d''))
        (length items) cc pc items = Inr summary"
    from fallback_summary_shape [OF z(2-4) this] show ?thesis by blast
  qed
  with c count_items_sum [OF c]
  show "\<exists>cc pc. count_items items [] initial_priority_counts = Inr (cc, pc) \<and>
         sum_list (map snd cc) = length items \<and>
         (\<exists>pre post. summary = pre @ category_lines (py_repr env) cc @ post)"
    by auto
next
  fix cc pc
  assume "count_items items [] initial_priority_counts = Inr (cc, pc)"
  from count_items_sum [OF this] show "sum_list (map snd cc) = length items" by simp
next
  assume "list_all reportable_item items"
  then show "\<exists>summary w'. generate_daily_summary_with_ai env items w = (Inr summary, w')"
    by (rule generate_total)
qed

theorem category_counts_sum_witness:
  "list_all reportable_item summary_batch \<and> summary_batch \<noteq> [] \<and>
   count_items summary_batch [] initial_priority_counts =
     Inr ([(lit ''Electrical'', 2), (lit ''Plumbing'', 1)],
          [(lit ''High'', 0), (lit ''Medium'', 0), (lit ''Low'', 0)]) \<and>
   sum_list (map snd [(lit ''Electrical'', 2), (lit ''Plumbing'', 1::nat)]) =
     length summary_batch \<and>
   (\<exists>summary w'.
      generate_daily_summary_with_ai recording_env summary_batch [] = (Inr summary, w') \<and>
      (\<exists>pre post. summary =
         pre @ category_lines (py_repr recording_env)
                 [(lit ''Electrical'', 2), (lit ''Plumbing'', 1)] @ post))"
proof -
  note t = category_counts_sum [of recording_env "[]" summary_batch]
  from t [THEN conjunct2, THEN conjunct2, THEN conjunct2, rule_format,
      OF summary_batch_reportable]
  obtain summary w' where
    g: "generate_daily_summary_with_ai recording_env summary_batch [] = (Inr summary, w')"
    by blast
  from t [THEN conjunct2, THEN conjunct1, rule_format, OF conjI [OF summary_batch_length(2) g]]
  have "\<exists>pre post. summary =
         pre @ category_lines (py_repr recording_env)
                 [(lit ''Electrical'', 2), (lit ''Plumbing'', 1)] @ post"
    by (simp add: summary_batch_counts)
  with g have 1: "\<exists>summary w'.
      generate_daily_summary_with_ai recording_env summary_batch [] = (Inr summary, w') \<and>
      (\<exists>pre post. summary =
         pre @ category_lines (py_repr recording_env)
                 [(lit ''Electrical'', 2), (lit ''Plumbing'', 1)] @ post)"
    by blast
  from t [THEN conjunct2, THEN conjunct2, THEN conjunct1, rule_format, OF summary_batch_counts]
  have 2: "sum_list (map snd [(lit ''Electrical'', 2), (lit ''Plumbing'', 1::nat)]) =
     length summary_batch" .
  from summary_batch_reportable summary_batch_length(2) summary_batch_counts 2 1
  show ?thesis by (intro conjI)
qed

text \<open>
  Claim C4. Whenever \<open>generate_daily_summary_with_ai\<close> returns a report for a non-empty
  sequence, every priority count is zero at the end of its counting loop, which stores each
  count back as it was: the header of the narrated report reads
  \<open>High Priority: 0 | Medium: 0 | Low: 0\<close>, and the templated report, which is returned
  without a model or when the narration fails, lists \<open>High: 0\<close>, \<open>Medium: 0\<close> and
  \<open>Low: 0\<close>. When the model narrates, the function returns the narrated report. In
  \<open>get_dashboard_stats\<close> the count of each priority is the number of fetched issues
  classified with that priority (for a string, the issues whose priority is that string).
\<close>

theorem priorities_counted:
  "(\<forall>summary w'.
      items \<noteq> [] \<and> generate_daily_summary_with_ai env items w = (Inr summary, w') \<longrightarrow>
      (\<exists>cc pc. count_items items [] initial_priority_counts = Inr (cc, pc) \<and>
         list_all (\<lambda>kn. snd kn = 0) pc \<and>
         counts_item pc (py ''High'') = Inr 0 \<and>
         counts_item pc (py ''Medium'') = Inr 0 \<and>
         counts_item pc (py ''Low'') = Inr 0 \<and>
         ((\<exists>invoke. cerebras_llm env = Some invoke \<and>
             narrated_summary env invoke (length items) cc pc items w = (Inr summary, w') \<and>
             (\<exists>pre post. summary =
                pre @ py ''High Priority: 0 | Medium: 0 | Low: 0'' @ post)) \<or>
          (fallback_summary (py_repr env) (now_strftime env w' (py ''%Y-%m-%d''))
               (length items) cc pc items = Inr summary \<and>
           (\<exists>pre post. summary =
              pre @ [128308] @ py '' High: 0\<newline>'' @ [8226] @ py '' '' @
              [128993] @ py '' Medium: 0\<newline>'' @ [8226] @ py '' '' @
              [128994] @ py '' Low: 0'' @ post))))) \<and>
   (\<forall>invoke cc pc summary w'.
      items \<noteq> [] \<and> cerebras_llm env = Some invoke \<and>
      count_items items [] initial_priority_counts = Inr (cc, pc) \<and>
      narrated_summary env invoke (length items) cc pc items w = (Inr summary, w') \<longrightarrow>
      generate_daily_summary_with_ai env items w = (Inr summary, w') \<and>
      (\<exists>pre post. summary = pre @ py ''High Priority: 0 | Medium: 0 | Low: 0'' @ post)) \<and>
   (list_all reportable_item items \<longrightarrow>
      (\<exists>summary w'. generate_daily_summary_with_ai env items w = (Inr summary, w'))) \<and>
   (\<forall>stats w'. get_dashboard_stats env invalid w = (Inr stats, w') \<longrightarrow>
      (\<exists>issues w1 classified.
         backend_fetch_gmail_issues env (PInt 20) w = (Inr issues, w1) \<and>
         classify_issues env issues [] w1 = (Inr classified, w') \<and>
         (\<forall>p. counts_get (by_priority stats) p 0 =
               length (filter (classified_with p) classified)))) \<and>
   (\<forall>stats p. dashboard_statistics classified = Inr stats \<longrightarrow>
      counts_get (by_priority stats) p 0 = length (filter (classified_with p) classified)) \<and>
   (classified_with (PStr s) issue \<longleftrightarrow> priority_of issue = Some (PStr s))"
proof (intro conjI allI impI)
  fix summary w'
  assume a: "items \<noteq> [] \<and> generate_daily_summary_with_ai env items w = (Inr summary, w')"
  from generate_report [OF a [THEN conjunct1] a [THEN conjunct2]] obtain cc pc where
    c: "count_items items [] initial_priority_counts = Inr (cc, pc)"
    and r: "(\<exists>invoke. cerebras_llm env = Some invoke \<and>
         narrated_summary env invoke (length items) cc pc items w = (Inr summary, w')) \<or>
      fallback_summary (py_repr env) (now_strftime env w' (py ''%Y-%m-%d'')) (length items)
        cc pc items = Inr summary"
    by blast
  note z = count_items_initial [OF c]
  from r have "(\<exists>invoke. cerebras_llm env = Some invoke \<and>
             narrated_summary env invoke (length items) cc pc items w = (Inr summary, w') \<and>
             (\<exists>pre post. summary =
                pre @ py ''High Priority: 0 | Medium: 0 | Low: 0'' @ post)) \<or>
          (fallback_summary (py_repr env) (now_strftime env w' (py ''%Y-%m-%d''))
               (length items) cc pc items = Inr summary \<and>
           (\<exists>pre post. summary =
              pre @ [128308] @ py '' High: 0\<newline>'' @ [8226] @ py '' '' @
              [128993] @ py '' Medium: 0\<newline>'' @ [8226] @ py '' '' @
              [128994] @ py '' Low: 0'' @ post))"
  proof
    assume "\<exists>invoke. cerebras_llm env = Some invoke \<and>
         narrated_summary env invoke (length items) cc pc items w = (Inr summary, w')"
    then obtain invoke where i: "cerebras_llm env = Some invoke"
      and n: "narrated_summary env invoke (length items) cc pc items w = (Inr summary, w')"
      by blast
    from narrated_summary_shape [OF z(2-4) n] i n show ?thesis by blast
  next
    assume f: "fallback_summary (py_repr env) (now_strftime env w' (py ''%Y-%m-%d''))
        (length items) cc pc items = Inr summary"
    from fallback_summary_shape [OF z(2-4) f] obtain pre post where
      "summary = (pre @ category_lines (py_repr env) cc @
        py ''\<newline>'' @ [128680] @ py '' *By Priority:*\<newline>'' @ [8226] @ py '' '') @
        [128308] @ py '' High: 0\<newline>'' @ [8226] @ py '' '' @
        [128993] @ py '' Medium: 0\<newline>'' @ [8226] @ py '' '' @
        [128994] @ py '' Low: 0'' @ post"
      by auto
    with f show ?thesis by blast
  qed
  with c z
  show "\<exists>cc pc. count_items items [] initial_priority_counts = Inr (cc, pc) \<and>
         list_all (\<lambda>kn. snd kn = 0) pc \<and>
         counts_item pc (py ''High'') = Inr 0 \<and>
         counts_item pc (py ''Medium'') = Inr 0 \<and>
         counts_item pc (py ''Low'') = Inr 0 \<and>
         ((\<exists>invoke. cerebras_llm env = Some invoke \<and>
             narrated_summary env invoke (length items) cc pc items w = (Inr summary, w') \<and>
             (\<exists>pre post. summary =
                pre @ py ''High Priority: 0 | Medium: 0 | Low: 0'' @ post)) \<or>
          (fallback_summary (py_repr env) (now_strftime env w' (py ''%Y-%m-%d''))
               (length items) cc pc items = Inr summary \<and>
           (\<exists>pre post. summary =
              pre @ [128308] @ py '' High: 0\<newline>'' @ [8226] @ py '' '' @
              [128993] @ py '' Medium: 0\<newline>'' @ [8226] @ py '' '' @
              [128994] @ py '' Low: 0'' @ post)))"
    by blast
next
  fix invoke cc pc summary w'
  assume a: "items \<noteq> [] \<and> cerebras_llm env = Some invoke \<and>
      count_items items [] initial_priority_counts = Inr (cc, pc) \<and>
      narrated_summary env invoke (length items) cc pc items w = (Inr summary, w')"
  then show "generate_daily_summary_with_ai env items w = (Inr summary, w')"
    by (simp add: generate_daily_summary_with_ai_def)
next
  fix invoke cc pc summary w'
  assume a: "items \<noteq> [] \<and> cerebras_llm env = Some invoke \<and>
      count_items items [] initial_priority_counts = Inr (cc, pc) \<and>
      narrated_summary env invoke (length items) cc pc items w = (Inr summary, w')"
  then have c: "count_items items [] initial_priority_counts = Inr (cc, pc)"
    and n: "narrated_summary env invoke (length items) cc pc items w = (Inr summary, w')"
    by simp_all
  note z = count_items_initial [OF c]
  from narrated_summary_shape [OF z(2-4) n]
  show "\<exists>pre post. summary = pre @ py ''High Priority: 0 | Medium: 0 | Low: 0'' @ post"
    by blast
next
  assume "list_all reportable_item items"
  then show "\<exists>summary w'. generate_daily_summary_with_ai env items w = (Inr summary, w')"
    by (rule generate_total)
next
  fix stats w'
  assume "get_dashboard_stats env invalid w = (Inr stats, w')"
  from get_dashboard_stats_Inr [OF this] obtain issues w1 classified where
    "backend_fetch_gmail_issues env (PInt 20) w = (Inr issues, w1)"
    "classify_issues env issues [] w1 = (Inr classified, w')"
    and d: "dashboard_statistics classified = Inr stats"
    by blast
  with dashboard_priority [OF d]
  show "\<exists>issues w1 classified.
         backend_fetch_gmail_issues env (PInt 20) w = (Inr issues, w1) \<and>
         classify_issues env issues [] w1 = (Inr classified, w') \<and>
         (\<forall>p. counts_get (by_priority stats) p 0 =
               length (filter (classified_with p) classified))"
    by blast
next
  fix stats p
  assume "dashboard_statistics classified = Inr stats"
  then show "counts_get (by_priority stats) p 0 = length (filter (classified_with p) classified)"
    by (rule dashboard_priority)
next
  show "classified_with (PStr s) issue \<longleftrightarrow> priority_of issue = Some (PStr s)"
    by (rule classified_with_PStr)
qed

theorem priorities_counted_witness:
  "(\<exists>summary.
      generate_daily_summary_with_ai narrating_env summary_batch 0 = (Inr summary, 1) \<and>
      (\<exists>pre post. summary = pre @ py ''High Priority: 0 | Medium: 0 | Low: 0'' @ post)) \<and>
   (\<exists>summary w'.
      generate_daily_summary_with_ai recording_env summary_batch [] = (Inr summary, w') \<and>
      (\<exists>pre post. summary =
         pre @ [128308] @ py '' High: 0\<newline>'' @ [8226] @ py '' '' @
         [128993] @ py '' Medium: 0\<newline>'' @ [8226] @ py '' '' @
         [128994] @ py '' Low: 0'' @ post)) \<and>
   (\<exists>stats. get_dashboard_stats dashboard_env (\<lambda>stats. None) 0 = (Inr stats, 2) \<and>
      by_priority stats = [(lit ''High'', 0), (lit ''Medium'', 1), (lit ''Low'', 0)] \<and>
      length (filter (classified_with (lit ''Medium'')) dashboard_batch) = 1) \<and>
   (\<exists>stats. dashboard_statistics classified_batch = Inr stats \<and>
      by_priority stats = [(lit ''High'', 2), (lit ''Medium'', 1), (lit ''Low'', 0)] \<and>
      length (filter (classified_with (lit ''High'')) classified_batch) = 2 \<and>
      length (filter (classified_with (lit ''Medium'')) classified_batch) = 1 \<and>
      length (filter (classified_with (lit ''Low'')) classified_batch) = 0)"
proof -
  note tn = priorities_counted [of summary_batch narrating_env 0 "\<lambda>stats. None" classified_batch]
  note tr = priorities_counted [of summary_batch recording_env "[]" "\<lambda>stats. None" classified_batch]
  note tdash = priorities_counted [of summary_batch dashboard_env 0 "\<lambda>stats. None" classified_batch]
  \<comment> \<open>the narrated report\<close>
  from summary_batch_narrated obtain ns where
    n: "narrated_summary narrating_env (\<lambda>prompt w. (Inr (lit ''All quiet.''), Suc w))
          (length summary_batch)
          [(lit ''Electrical'', 2), (lit ''Plumbing'', 1)]
          [(lit ''High'', 0), (lit ''Medium'', 0), (lit ''Low'', 0)] summary_batch 0 =
        (Inr ns, 1)"
    by (auto simp: summary_batch_length)
  from tn [THEN conjunct2, THEN conjunct1, rule_format,
      OF conjI [OF summary_batch_length(2) conjI [OF narrating_env_fields
        conjI [OF summary_batch_counts n]]]]
  have 1: "\<exists>summary.
      generate_daily_summary_with_ai narrating_env summary_batch 0 = (Inr summary, 1) \<and>
      (\<exists>pre post. summary = pre @ py ''High Priority: 0 | Medium: 0 | Low: 0'' @ post)"
    by blast
  \<comment> \<open>the templated report\<close>
  from tr [THEN conjunct2, THEN conjunct2, THEN conjunct1, rule_format,
      OF summary_batch_reportable]
  obtain summary w' where
    g: "generate_daily_summary_with_ai recording_env summary_batch [] = (Inr summary, w')"
    by blast
  have nm: "cerebras_llm recording_env = None" by (simp add: recording_env_def)
  from tr [THEN conjunct1, rule_format, OF conjI [OF summary_batch_length(2) g]]
  have "\<exists>pre post. summary =
         pre @ [128308] @ py '' High: 0\<newline>'' @ [8226] @ py '' '' @
         [128993] @ py '' Medium: 0\<newline>'' @ [8226] @ py '' '' @
         [128994] @ py '' Low: 0'' @ post"
    by (auto simp: nm)
  with g have 2: "\<exists>summary w'.
      generate_daily_summary_with_ai recording_env summary_batch [] = (Inr summary, w') \<and>
      (\<exists>pre post. summary =
         pre @ [128308] @ py '' High: 0\<newline>'' @ [8226] @ py '' '' @
         [128993] @ py '' Medium: 0\<newline>'' @ [8226] @ py '' '' @
         [128994] @ py '' Low: 0'' @ post)"
    by blast
  \<comment> \<open>the dashboard\<close>
  from tdash [THEN conjunct2, THEN conjunct2, THEN conjunct2, THEN conjunct1, rule_format,
      OF dashboard_env_stats]
  have "length (filter (classified_with (lit ''Medium'')) dashboard_batch) = 1"
    by (auto simp: dashboard_env_fetch dashboard_env_classify simp del: classify_issues.simps
          dest: spec [of _ "lit ''Medium''"])
  with dashboard_env_stats
  have 3: "\<exists>stats. get_dashboard_stats dashboard_env (\<lambda>stats. None) 0 = (Inr stats, 2) \<and>
      by_priority stats = [(lit ''High'', 0), (lit ''Medium'', 1), (lit ''Low'', 0)] \<and>
      length (filter (classified_with (lit ''Medium'')) dashboard_batch) = 1"
    by simp
  note t5 = tdash [THEN conjunct2, THEN conjunct2, THEN conjunct2, THEN conjunct2, THEN conjunct1,
      rule_format, OF classified_batch_statistics]
  have 4: "\<exists>stats. dashboard_statistics classified_batch = Inr stats \<and>
      by_priority stats = [(lit ''High'', 2), (lit ''Medium'', 1), (lit ''Low'', 0)] \<and>
      length (filter (classified_with (lit ''High'')) classified_batch) = 2 \<and>
      length (filter (classified_with (lit ''Medium'')) classified_batch) = 1 \<and>
      length (filter (classified_with (lit ''Low'')) classified_batch) = 0"
    using t5 [of "lit ''High''"] t5 [of "lit ''Medium''"] t5 [of "lit ''Low''"]
    by (simp add: classified_batch_statistics)
  from 1 2 3 4 show ?thesis by (intro conjI)
qed

text \<open>
  Claim C7. For three classified issues with the categories Electrical, Electrical and
  Plumbing, the statistics of \<open>get_dashboard_stats\<close> give the count 2 and the percentage
  66.7 for Electrical, and the count 1 and the percentage 33.3 for Plumbing: \<open>round((2 / 3) * 100, 1)\<close>
  is the double nearest to 66.7, and \<open>round((1 / 3) * 100, 1)\<close> the double nearest to 33.3
  (both given as fractions). With a total of zero the percentage is the integer 0. Whatever
  \<open>get_dashboard_stats\<close> returns, its total is the number of classified issues and the
  percentage of each category is computed from the count of the category and that total.
\<close>

theorem dashboard_percentages:
  "dashboard_statistics classified_batch =
     Inr \<lparr>total_issues = 3,
          by_category =
            [(lit ''Electrical'', 2, PFloat (to_double (667 / 10))),
             (lit ''Plumbing'', 1, PFloat (to_double (333 / 10)))],
          by_priority = [(lit ''High'', 2), (lit ''Medium'', 1), (lit ''Low'', 0)],
          recent_issues = classified_batch\<rparr> \<and>
   percentage 2 3 = PFloat (to_double (667 / 10)) \<and>
   percentage 1 3 = PFloat (to_double (333 / 10)) \<and>
   to_double (667 / 10) = 4693595236650189 / 70368744177664 \<and>
   to_double (333 / 10) = 2343279181116211 / 70368744177664 \<and>
   percentage c 0 = PInt 0 \<and>
   (\<forall>stats w'. get_dashboard_stats env invalid w = (Inr stats, w') \<longrightarrow>
      (\<exists>issues w1 classified cc pc.
         backend_fetch_gmail_issues env (PInt 20) w = (Inr issues, w1) \<and>
         classify_issues env issues [] w1 = (Inr classified, w') \<and>
         count_issues classified [] initial_priority_counts = Inr (cc, pc) \<and>
         total_issues stats = length classified \<and>
         by_category stats =
           map (\<lambda>kn. (fst kn, snd kn, percentage (snd kn) (length classified))) cc))"
proof -
  have 1: "\<exists>issues w1 classified cc pc.
         backend_fetch_gmail_issues env (PInt 20) w = (Inr issues, w1) \<and>
         classify_issues env issues [] w1 = (Inr classified, w') \<and>
         count_issues classified [] initial_priority_counts = Inr (cc, pc) \<and>
         total_issues stats = length classified \<and>
         by_category stats =
           map (\<lambda>kn. (fst kn, snd kn, percentage (snd kn) (length classified))) cc"
    if a: "get_dashboard_stats env invalid w = (Inr stats, w')" for stats w'
  proof -
    from get_dashboard_stats_Inr [OF a] obtain issues w1 classified where
      f: "backend_fetch_gmail_issues env (PInt 20) w = (Inr issues, w1)"
        "classify_issues env issues [] w1 = (Inr classified, w')"
      and d: "dashboard_statistics classified = Inr stats"
      by blast
    from dashboard_statistics_Inr [OF d] f show ?thesis by blast
  qed
  have 2: "percentage 2 3 = PFloat (to_double (667 / 10))"
    "percentage 1 3 = PFloat (to_double (333 / 10))" "percentage c 0 = PInt 0"
    by (simp_all add: percentage_def double_66_7 double_33_3 [simplified])
  from classified_batch_statistics 2 double_literals 1 show ?thesis by blast
qed

theorem dashboard_percentages_witness:
  "\<exists>stats. get_dashboard_stats dashboard_env (\<lambda>stats. None) 0 = (Inr stats, 2) \<and>
     total_issues stats = 1 \<and>
     by_category stats = [(lit ''General Inquiry'', 1, PFloat 100)] \<and>
     count_issues dashboard_batch [] initial_priority_counts =
       Inr ([(lit ''General Inquiry'', 1)],
            [(lit ''High'', 0), (lit ''Medium'', 1), (lit ''Low'', 0)]) \<and>
     percentage 1 (length dashboard_batch) = PFloat 100"
proof -
  from dashboard_percentages [of 0 dashboard_env "\<lambda>stats. None" 0, THEN conjunct2,
      THEN conjunct2, THEN conjunct2, THEN conjunct2, THEN conjunct2, THEN conjunct2,
      rule_format, OF dashboard_env_stats]
  have "percentage 1 (length dashboard_batch) = PFloat 100"
    by (auto simp: dashboard_env_fetch dashboard_env_classify dashboard_batch_counts
          simp del: classify_issues.simps)
  with dashboard_env_stats dashboard_batch_counts show ?thesis by simp
qed

end
